theory Spec2Isabelle
  imports Main "HOL-Library.Word"
begin

section \<open>Data model\<close>

text \<open>
  The development embeds two Go files of the repository: the publisher
  (\<^verbatim>\<open>Bundle\<close>, \<^verbatim>\<open>pushManifestConfigFromMetadata\<close>, \<^verbatim>\<open>manifestAnnotationsFromMetadata\<close>
  of package \<^verbatim>\<open>bundler\<close>) and the fetcher (\<^verbatim>\<open>LoadPackage\<close>, \<^verbatim>\<open>LoadPackageMetadata\<close>,
  \<^verbatim>\<open>downloadPkgFromRemoteBundle\<close> of package \<^verbatim>\<open>sources\<close>).

  Go structs are records, a Go \<^verbatim>\<open>map[string]string\<close> is a partial map (a nil map and
  an empty map both read as the empty map), \<^verbatim>\<open>[]byte\<close> is a list of 8-bit words and
  \<^verbatim>\<open>int64\<close> is a 64-bit word. Record fields carry a prefix where two Go structs share a
  field name.
\<close>

type_synonym bytes = "8 word list"

text \<open>\<^verbatim>\<open>ocispec.Descriptor\<close>: the fields this code reads or writes.\<close>

record Descriptor =
  desc_MediaType :: string
  desc_Digest :: string
  desc_Size :: "64 word"
  desc_Annotations :: "string \<rightharpoonup> string"

text \<open>\<^verbatim>\<open>ocispec.Manifest\<close> (embedded in \<^verbatim>\<open>oci.ZarfOCIManifest\<close>).\<close>

record Manifest =
  man_SchemaVersion :: int
  man_MediaType :: string
  man_Config :: Descriptor
  man_Layers :: "Descriptor list"
  man_Annotations :: "string \<rightharpoonup> string"

text \<open>\<^verbatim>\<open>registry.Reference\<close>, what \<^verbatim>\<open>remote.Repo().Reference\<close> yields. An
  \<^verbatim>\<open>*oci.OrasRemote\<close> is identified with the reference it points to; the content behind
  it lives in the world state.\<close>

record Reference =
  Registry :: string
  Repository :: string
  Reference :: string

text \<open>\<^verbatim>\<open>oci.ConfigPartial\<close>.\<close>

record ConfigPartial =
  cfg_Architecture :: string
  cfg_OCIVersion :: string
  cfg_Annotations :: "string \<rightharpoonup> string"

text \<open>\<^verbatim>\<open>types.UDSMetadata\<close>, \<^verbatim>\<open>types.UDSBuildData\<close>, the entries of
  \<^verbatim>\<open>UDSBundle.ZarfPackages\<close> and \<^verbatim>\<open>types.UDSBundle\<close>: the fields this code reads.\<close>

record UDSMetadata =
  Name :: string
  Description :: string
  URL :: string
  Architecture :: string
  Authors :: string
  Documentation :: string
  Source :: string
  Vendor :: string

record UDSBuildData =
  build_Architecture :: string

record BundleZarfPackage =
  pkg_Name :: string
  pkg_Repository :: string
  pkg_Ref :: string
  pkg_OptionalComponents :: "string list"

record UDSBundle =
  Metadata :: UDSMetadata
  Build :: UDSBuildData
  ZarfPackages :: "BundleZarfPackage list"

text \<open>\<^verbatim>\<open>zarfTypes.ZarfPackage\<close>: the aggregate checksum of its metadata and the names of
  its components.\<close>

record ZarfPackage =
  zp_AggregateChecksum :: string
  zp_Components :: "string list"

text \<open>\<^verbatim>\<open>RemoteBundle\<close>; \<^verbatim>\<open>PkgOpts\<close> is never read by the code and is left out.\<close>

record RemoteBundle =
  PkgName :: string
  PkgManifestSHA :: string
  TmpDir :: string
  Remote :: Reference
  isPartial :: bool

text \<open>The zero value \<^verbatim>\<open>ocispec.Descriptor{}\<close> of an uninitialised \<^verbatim>\<open>var\<close>.\<close>

definition zeroDescriptor :: Descriptor where
  "zeroDescriptor =
     \<lparr>desc_MediaType = [], desc_Digest = [], desc_Size = 0, desc_Annotations = Map.empty\<rparr>"

text \<open>Constants of the OCI image specification (\<^verbatim>\<open>ocispec\<close>).\<close>

definition AnnotationTitle :: string where
  "AnnotationTitle = ''org.opencontainers.image.title''"

definition AnnotationDescription :: string where
  "AnnotationDescription = ''org.opencontainers.image.description''"

definition AnnotationURL :: string where
  "AnnotationURL = ''org.opencontainers.image.url''"

definition AnnotationAuthors :: string where
  "AnnotationAuthors = ''org.opencontainers.image.authors''"

definition AnnotationDocumentation :: string where
  "AnnotationDocumentation = ''org.opencontainers.image.documentation''"

definition AnnotationSource :: string where
  "AnnotationSource = ''org.opencontainers.image.source''"

definition AnnotationVendor :: string where
  "AnnotationVendor = ''org.opencontainers.image.vendor''"

definition MediaTypeImageManifest :: string where
  "MediaTypeImageManifest = ''application/vnd.oci.image.manifest.v1+json''"

definition MediaTypeImageConfig :: string where
  "MediaTypeImageConfig = ''application/vnd.oci.image.config.v1+json''"

text \<open>Reading a Go map: a missing key reads as the empty string.\<close>

definition annotation :: "(string \<rightharpoonup> string) \<Rightarrow> string \<Rightarrow> string" where
  "annotation m k = (case m k of None \<Rightarrow> [] | Some v \<Rightarrow> v)"

text \<open>\<^verbatim>\<open>strings.HasPrefix\<close> and \<^verbatim>\<open>strings.Contains\<close>.\<close>

fun strings_HasPrefix :: "string \<Rightarrow> string \<Rightarrow> bool" where
  "strings_HasPrefix s [] = True"
| "strings_HasPrefix [] (p # ps) = False"
| "strings_HasPrefix (c # s) (p # ps) = (c = p \<and> strings_HasPrefix s ps)"

fun strings_Contains :: "string \<Rightarrow> string \<Rightarrow> bool" where
  "strings_Contains [] substr = (substr = [])"
| "strings_Contains (c # s) substr =
     (strings_HasPrefix (c # s) substr \<or> strings_Contains s substr)"

text \<open>\<^verbatim>\<open>digest.Digest.Encoded\<close>: the part after the first colon; the library panics on a
  digest without a colon, which is \<open>None\<close> here.\<close>

definition Digest_Encoded :: "string \<Rightarrow> string option" where
  "Digest_Encoded d =
     (if CHR '':'' \<in> set d then Some (tl (dropWhile (\<lambda>c. c \<noteq> CHR '':'') d)) else None)"

section \<open>Errors, effects and the collaborators\<close>

text \<open>
  A Go \<^verbatim>\<open>error\<close> built by this code with \<^verbatim>\<open>fmt.Errorf\<close> is \<open>Errorf\<close> (\<open>Wrapf\<close> when it
  wraps another error with \<^verbatim>\<open>%w\<close>); an error handed back by a collaborator (registry
  client, cache, file system, validator, serialisers) is \<open>External\<close>; a run-time panic
  (nil dereference, malformed digest) is \<open>Panic\<close>.
\<close>

datatype error = Errorf string | Wrapf string error | External string | Panic string

text \<open>
  Every call that leaves the function is logged, in program order, as an event. The
  events of the goroutine hand-over (\<^verbatim>\<open>wg.Add\<close>, \<^verbatim>\<open>go\<close>, a send on a channel,
  \<^verbatim>\<open>wg.Wait\<close>) are the calling function's own synchronisation operations.
\<close>

datatype event =
    EvFetchRoot Reference
  | EvFetchManifest Reference Descriptor
  | EvFetchLayer Reference Descriptor
  | EvPushLayer Reference bytes string
  | EvLayersFromRequestedComponents Reference "string list"
  | EvCopyPackage Reference Reference "Descriptor \<Rightarrow> bool" int
  | EvMount Reference Descriptor Reference
  | EvPushReference Reference Manifest Descriptor bytes string
  | EvBlobExists Reference Descriptor
  | EvCacheExists string
  | EvCacheUse string string
  | EvFileNew string
  | EvStoreClose
  | EvOrasCopy Reference "Descriptor list" int
  | EvWgAdd nat
  | EvGoRenderProgressBar string "64 word"
  | EvChanSend string
  | EvWgWait
  | EvReadYaml string
  | EvWriteYaml string ZarfPackage
  | EvWriteFile string bytes
  | EvSetFromLayers "Descriptor list"
  | EvValidatePackageIntegrity string bool
  | EvComponentsUnarchive string
  | EvComponentsCreate string
  | EvSBOMsUnarchive

text \<open>An entry of the log: the call returned (\<open>Done\<close>), returned an error with the given
  message (\<open>Failed\<close>), or answered a yes/no question (\<open>Answered\<close>).\<close>

datatype logged = Done event | Failed event string | Answered event bool

record 'w state =
  world :: 'w
  trace :: "logged list"

text \<open>
  The collaborators, over an abstract world \<open>'w\<close> (registries, local disk, cache): each
  takes the world and returns its answer with the new world. A fallible one returns the
  message of its error on the left. The fixed names and media types declared in packages
  outside the embedded files (\<^verbatim>\<open>config.ZarfYAML\<close>, \<^verbatim>\<open>config.ChecksumsTxt\<close>,
  \<^verbatim>\<open>config.BlobsDir\<close>, \<^verbatim>\<open>BundleYAML\<close>, \<^verbatim>\<open>BundleYAMLSignature\<close>,
  \<^verbatim>\<open>oci.ZarfLayerMediaTypeBlob\<close>, \<^verbatim>\<open>oci.PackageAlwaysPull\<close>) and the ambient
  configuration are fields as well, so every theorem holds whatever their values.
\<close>

record 'w env =
  \<comment> \<open>constants and configuration\<close>
  ZarfYAML :: string
  ChecksumsTxt :: string
  BlobsDir :: string
  BundleYAML :: string
  BundleYAMLSignature :: string
  ZarfLayerMediaTypeBlob :: string
  PackageAlwaysPull :: "string list"
  OCIConcurrency :: int
  \<comment> \<open>pure helpers of the libraries\<close>
  Locate :: "Manifest \<Rightarrow> string \<Rightarrow> Descriptor"
  IsEmptyDescriptor :: "Descriptor \<Rightarrow> bool"
  NewOrasRemote :: "string \<Rightarrow> string + Reference"
  jsonMarshalManifest :: "Manifest \<Rightarrow> string + bytes"
  jsonMarshalConfig :: "ConfigPartial \<Rightarrow> string + bytes"
  yamlMarshalBundle :: "UDSBundle \<Rightarrow> string + bytes"
  yamlUnmarshal :: "bytes \<Rightarrow> string + ZarfPackage"
  NewDescriptorFromBytes :: "string \<Rightarrow> bytes \<Rightarrow> Descriptor"
  filepath_Join :: "string list \<Rightarrow> string"
  IsNotLoaded :: "string \<Rightarrow> bool"
  \<comment> \<open>registry client\<close>
  FetchRoot :: "Reference \<Rightarrow> 'w \<Rightarrow> (string + Manifest) \<times> 'w"
  FetchManifest :: "Reference \<Rightarrow> Descriptor \<Rightarrow> 'w \<Rightarrow> (Manifest option \<times> string option) \<times> 'w"
  FetchLayer :: "Reference \<Rightarrow> Descriptor \<Rightarrow> 'w \<Rightarrow> (string + bytes) \<times> 'w"
  PushLayer :: "Reference \<Rightarrow> bytes \<Rightarrow> string \<Rightarrow> 'w \<Rightarrow> (string + Descriptor) \<times> 'w"
  LayersFromRequestedComponents :: "Reference \<Rightarrow> string list \<Rightarrow> 'w \<Rightarrow> (string + Descriptor list) \<times> 'w"
  CopyPackage :: "Reference \<Rightarrow> Reference \<Rightarrow> (Descriptor \<Rightarrow> bool) \<Rightarrow> int \<Rightarrow> 'w \<Rightarrow> (string + unit) \<times> 'w"
  Mount :: "Reference \<Rightarrow> Descriptor \<Rightarrow> Reference \<Rightarrow> 'w \<Rightarrow> (string + unit) \<times> 'w"
  PushReference :: "Reference \<Rightarrow> Descriptor \<Rightarrow> bytes \<Rightarrow> string \<Rightarrow> 'w \<Rightarrow> (string + unit) \<times> 'w"
  BlobExists :: "Reference \<Rightarrow> Descriptor \<Rightarrow> 'w \<Rightarrow> (string + bool) \<times> 'w"
  OrasCopy :: "Reference \<Rightarrow> Descriptor list \<Rightarrow> int \<Rightarrow> 'w \<Rightarrow> (string + unit) \<times> 'w"
  \<comment> \<open>local cache, content store and files\<close>
  cache_Exists :: "string \<Rightarrow> 'w \<Rightarrow> bool \<times> 'w"
  cache_Use :: "string \<Rightarrow> string \<Rightarrow> 'w \<Rightarrow> (string + unit) \<times> 'w"
  file_New :: "string \<Rightarrow> 'w \<Rightarrow> (string + unit) \<times> 'w"
  store_Close :: "'w \<Rightarrow> 'w"
  ReadYaml :: "string \<Rightarrow> 'w \<Rightarrow> (string + ZarfPackage) \<times> 'w"
  WriteYaml :: "string \<Rightarrow> ZarfPackage \<Rightarrow> 'w \<Rightarrow> (string + unit) \<times> 'w"
  WriteFile :: "string \<Rightarrow> bytes \<Rightarrow> 'w \<Rightarrow> (string + unit) \<times> 'w"
  \<comment> \<open>the destination layout \<^verbatim>\<open>dst *layout.PackagePaths\<close> and the validator\<close>
  dst_Base :: string
  dst_ZarfYAML :: "'w \<Rightarrow> string"
  dst_SBOMs_Path :: "'w \<Rightarrow> string"
  SetFromLayers :: "Descriptor list \<Rightarrow> 'w \<Rightarrow> 'w"
  ValidatePackageIntegrity :: "string \<Rightarrow> bool \<Rightarrow> 'w \<Rightarrow> (string + unit) \<times> 'w"
  Components_Unarchive :: "string \<Rightarrow> 'w \<Rightarrow> (string + unit) \<times> 'w"
  Components_Create :: "string \<Rightarrow> 'w \<Rightarrow> (string + unit) \<times> 'w"
  SBOMs_Unarchive :: "'w \<Rightarrow> (string + unit) \<times> 'w"

text \<open>Sequencing with early return on an error, and the logged calls.\<close>

type_synonym ('w, 'a) action = "'w state \<Rightarrow> (error + 'a) \<times> 'w state"

definition bind :: "('w, 'a) action \<Rightarrow> ('a \<Rightarrow> ('w, 'b) action) \<Rightarrow> ('w, 'b) action" where
  "bind m f s = (case m s of (Inl e, s') \<Rightarrow> (Inl e, s') | (Inr a, s') \<Rightarrow> f a s')"

definition return :: "'a \<Rightarrow> ('w, 'a) action" where
  "return a s = (Inr a, s)"

definition throw :: "error \<Rightarrow> ('w, 'a) action" where
  "throw e s = (Inl e, s)"

definition emit :: "event \<Rightarrow> ('w, unit) action" where
  "emit ev s = (Inr (), s\<lparr>trace := trace s @ [Done ev]\<rparr>)"

text \<open>A fallible collaborator call: logged, its error surfaced unchanged.\<close>

definition call :: "event \<Rightarrow> ('w \<Rightarrow> (string + 'a) \<times> 'w) \<Rightarrow> ('w, 'a) action" where
  "call ev f s =
     (case f (world s) of
        (Inl msg, w') \<Rightarrow> (Inl (External msg), \<lparr>world = w', trace = trace s @ [Failed ev msg]\<rparr>)
      | (Inr a, w') \<Rightarrow> (Inr a, \<lparr>world = w', trace = trace s @ [Done ev]\<rparr>))"

text \<open>A fallible call whose error the caller drops (it is assigned and overwritten
  before it is read): logged with its outcome, and the caller goes on.\<close>

definition call_unchecked :: "event \<Rightarrow> ('w \<Rightarrow> (string + 'a) \<times> 'w) \<Rightarrow> ('w, unit) action" where
  "call_unchecked ev f s =
     (case f (world s) of
        (Inl msg, w') \<Rightarrow> (Inr (), \<lparr>world = w', trace = trace s @ [Failed ev msg]\<rparr>)
      | (Inr a, w') \<Rightarrow> (Inr (), \<lparr>world = w', trace = trace s @ [Done ev]\<rparr>))"

text \<open>A call that cannot fail and returns nothing.\<close>

definition call_total :: "event \<Rightarrow> ('w \<Rightarrow> 'w) \<Rightarrow> ('w, unit) action" where
  "call_total ev f s = (Inr (), \<lparr>world = f (world s), trace = trace s @ [Done ev]\<rparr>)"

text \<open>A yes/no question that cannot fail (\<^verbatim>\<open>cache.Exists\<close>) and one that can
  (\<^verbatim>\<open>Blobs().Exists\<close>); the answer is logged.\<close>

definition ask_total :: "event \<Rightarrow> ('w \<Rightarrow> bool \<times> 'w) \<Rightarrow> ('w, bool) action" where
  "ask_total ev f s =
     (case f (world s) of
        (b, w') \<Rightarrow> (Inr b, \<lparr>world = w', trace = trace s @ [Answered ev b]\<rparr>))"

definition ask :: "event \<Rightarrow> ('w \<Rightarrow> (string + bool) \<times> 'w) \<Rightarrow> ('w, bool) action" where
  "ask ev f s =
     (case f (world s) of
        (Inl msg, w') \<Rightarrow> (Inl (External msg), \<lparr>world = w', trace = trace s @ [Failed ev msg]\<rparr>)
      | (Inr b, w') \<Rightarrow> (Inr b, \<lparr>world = w', trace = trace s @ [Answered ev b]\<rparr>))"

text \<open>\<^verbatim>\<open>FetchManifest\<close> returns a pointer and an error; the caller gets both.\<close>

definition call_FetchManifest ::
  "'w env \<Rightarrow> Reference \<Rightarrow> Descriptor \<Rightarrow> ('w, Manifest option \<times> string option) action" where
  "call_FetchManifest env ref desc s =
     (case FetchManifest env ref desc (world s) of
        ((m, Some msg), w') \<Rightarrow>
          (Inr (m, Some msg), \<lparr>world = w', trace = trace s @ [Failed (EvFetchManifest ref desc) msg]\<rparr>)
      | ((m, None), w') \<Rightarrow>
          (Inr (m, None), \<lparr>world = w', trace = trace s @ [Done (EvFetchManifest ref desc)]\<rparr>))"

text \<open>A \<^verbatim>\<open>for ... range\<close> loop whose body may return an error: the body threads the
  loop's variables \<open>acc\<close>.\<close>

fun forEach :: "('a \<Rightarrow> 'b \<Rightarrow> ('w, 'b) action) \<Rightarrow> 'a list \<Rightarrow> 'b \<Rightarrow> ('w, 'b) action" where
  "forEach body [] acc s = (Inr acc, s)"
| "forEach body (x # xs) acc s =
     (case body x acc s of
        (Inl e, s') \<Rightarrow> (Inl e, s')
      | (Inr acc', s') \<Rightarrow> forEach body xs acc' s')"

section \<open>The fetcher: package \<^verbatim>\<open>sources\<close>\<close>

subsection \<open>\<^verbatim>\<open>downloadPkgFromRemoteBundle\<close>\<close>

text \<open>
  One iteration of the loop over \<^verbatim>\<open>pkgManifest.Layers\<close>. The loop variables are
  \<^verbatim>\<open>estimatedBytes\<close>, \<^verbatim>\<open>layersToPull\<close> and \<^verbatim>\<open>layersInBundle\<close>. The progress bar is
  terminal output and is not modelled.
\<close>

definition verifyLayer ::
  "'w env \<Rightarrow> RemoteBundle \<Rightarrow> Descriptor \<Rightarrow> 64 word \<times> Descriptor list \<times> Descriptor list
     \<Rightarrow> ('w, 64 word \<times> Descriptor list \<times> Descriptor list) action" where
  "verifyLayer env r layer acc =
     (case acc of (estimatedBytes, layersToPull, layersInBundle) \<Rightarrow>
        bind (ask (EvBlobExists (Remote r) layer) (BlobExists env (Remote r) layer)) (\<lambda>ok.
          if ok then
            (case Digest_Encoded (desc_Digest layer) of
               None \<Rightarrow> throw (Panic ''no ':' separator in digest'')
             | Some digest \<Rightarrow>
                 if strings_Contains (annotation (desc_Annotations layer) AnnotationTitle) (BlobsDir env)
                 then
                   bind (ask_total (EvCacheExists digest) (cache_Exists env digest)) (\<lambda>hit.
                     if hit then
                       bind (call (EvCacheUse digest (filepath_Join env [TmpDir r, ''images'', BlobsDir env]))
                               (cache_Use env digest (filepath_Join env [TmpDir r, ''images'', BlobsDir env])))
                         (\<lambda>_. return (estimatedBytes + desc_Size layer, layersToPull,
                                       layersInBundle @ [layer]))
                     else return (estimatedBytes + desc_Size layer, layersToPull @ [layer],
                                  layersInBundle @ [layer]))
                 else return (estimatedBytes + desc_Size layer, layersToPull @ [layer],
                              layersInBundle @ [layer]))
          else return (estimatedBytes, layersToPull, layersInBundle)))"

text \<open>\<^verbatim>\<open>defer store.Close()\<close>: runs when the rest of the function returns, on every
  path; its result is dropped.\<close>

definition deferClose :: "'w env \<Rightarrow> ('w, 'a) action \<Rightarrow> ('w, 'a) action" where
  "deferClose env rest s =
     (case rest s of (res, s') \<Rightarrow>
        (res, \<lparr>world = store_Close env (world s'), trace = trace s' @ [Done EvStoreClose]\<rparr>))"

text \<open>
  The copy into the local store, from \<^verbatim>\<open>utils.CreateCopyOpts\<close> to the final
  \<^verbatim>\<open>return\<close>. \<^verbatim>\<open>CreateCopyOpts\<close> only packs \<^verbatim>\<open>layersToPull\<close> and the concurrency into
  the options of \<^verbatim>\<open>oras.Copy\<close>, so both are logged with the copy. A send on an
  unbuffered channel returns once the progress goroutine has received it;
  \<^verbatim>\<open>wg.Wait\<close> returns once that goroutine has called \<^verbatim>\<open>wg.Done\<close>.
\<close>

definition copyToStore ::
  "'w env \<Rightarrow> RemoteBundle \<Rightarrow> Manifest \<Rightarrow> 64 word \<Rightarrow> Descriptor list \<Rightarrow> Descriptor list
     \<Rightarrow> ('w, Descriptor list \<times> RemoteBundle) action" where
  "copyToStore env r pkgManifest estimatedBytes layersToPull layersInBundle =
     bind (emit (EvWgAdd 1)) (\<lambda>_.
     bind (emit (EvGoRenderProgressBar (TmpDir r) estimatedBytes)) (\<lambda>_.
       (\<lambda>s. case call (EvOrasCopy (Remote r) layersToPull (OCIConcurrency env))
                    (OrasCopy env (Remote r) layersToPull (OCIConcurrency env)) s of
               (Inl e, s') \<Rightarrow> bind (emit (EvChanSend ''errChan'')) (\<lambda>_. throw e) s'
             | (Inr _, s') \<Rightarrow>
                 bind (emit (EvChanSend ''doneSaving'')) (\<lambda>_.
                 bind (emit EvWgWait) (\<lambda>_.
                   if length (man_Layers pkgManifest) > length layersInBundle
                   then return (layersInBundle, r\<lparr>isPartial := True\<rparr>)
                   else return (layersInBundle, r))) s')))"

text \<open>The function returns \<^verbatim>\<open>([]ocispec.Descriptor, error)\<close> and may set
  \<^verbatim>\<open>r.isPartial\<close>: the model returns the list together with the receiver. The path
  \<^verbatim>\<open>return nil, err\<close> taken for a nil manifest with a nil error returns the empty list
  and no error.\<close>

definition downloadPkgFromRemoteBundle ::
  "'w env \<Rightarrow> RemoteBundle \<Rightarrow> ('w, Descriptor list \<times> RemoteBundle) action" where
  "downloadPkgFromRemoteBundle env r =
     bind (call (EvFetchRoot (Remote r)) (FetchRoot env (Remote r))) (\<lambda>rootManifest.
       if IsEmptyDescriptor env (Locate env rootManifest (PkgManifestSHA r))
       then throw (Errorf (''package '' @ PkgManifestSHA r @ '' does not exist in this bundle''))
       else
         (let pkgManifestDesc = (Locate env rootManifest (PkgManifestSHA r))
                \<lparr>desc_MediaType := ZarfLayerMediaTypeBlob env\<rparr>
          in bind (call_FetchManifest env (Remote r) pkgManifestDesc) (\<lambda>fetched.
               case fetched of
                 (_, Some err) \<Rightarrow> throw (External err)
               | (None, None) \<Rightarrow> return ([], r)
               | (Some pkgManifest, None) \<Rightarrow>
                   bind (forEach (verifyLayer env r) (man_Layers pkgManifest)
                           (0, [pkgManifestDesc], [pkgManifestDesc]))
                     (\<lambda>(estimatedBytes, layersToPull, layersInBundle).
                        bind (call (EvFileNew (TmpDir r)) (file_New env (TmpDir r))) (\<lambda>_.
                          deferClose env
                            (copyToStore env r pkgManifest estimatedBytes layersToPull
                               layersInBundle))))))"

subsection \<open>\<^verbatim>\<open>LoadPackage\<close>\<close>

text \<open>One iteration of the loop over \<^verbatim>\<open>pkg.Components\<close>. \<^verbatim>\<open>LoadPackage\<close> below returns
  the receiver as the download left it; on an error only the error is returned.\<close>

definition unarchiveComponent :: "'w env \<Rightarrow> string \<Rightarrow> unit \<Rightarrow> ('w, unit) action" where
  "unarchiveComponent env component u s =
     (case Components_Unarchive env component (world s) of
        (Inl msg, w') \<Rightarrow>
          if IsNotLoaded env msg
          then call (EvComponentsCreate component) (Components_Create env component)
                 \<lparr>world = w', trace = trace s @ [Failed (EvComponentsUnarchive component) msg]\<rparr>
          else (Inl (External msg),
                \<lparr>world = w', trace = trace s @ [Failed (EvComponentsUnarchive component) msg]\<rparr>)
      | (Inr _, w') \<Rightarrow>
          (Inr (), \<lparr>world = w', trace = trace s @ [Done (EvComponentsUnarchive component)]\<rparr>))"

definition LoadPackage :: "'w env \<Rightarrow> RemoteBundle \<Rightarrow> bool \<Rightarrow> ('w, RemoteBundle) action" where
  "LoadPackage env r unarchiveAll =
     bind (downloadPkgFromRemoteBundle env r) (\<lambda>(layers, r').
     (\<lambda>s. bind (call (EvReadYaml (dst_ZarfYAML env (world s))) (ReadYaml env (dst_ZarfYAML env (world s))))
       (\<lambda>pkg.
         bind (call_total (EvSetFromLayers layers) (SetFromLayers env layers)) (\<lambda>_.
         bind (call (EvValidatePackageIntegrity (zp_AggregateChecksum pkg) (isPartial r'))
                 (ValidatePackageIntegrity env (zp_AggregateChecksum pkg) (isPartial r'))) (\<lambda>_.
           if unarchiveAll then
             bind (forEach (unarchiveComponent env) (zp_Components pkg) ()) (\<lambda>_.
               (\<lambda>s. if dst_SBOMs_Path env (world s) \<noteq> []
                    then bind (call EvSBOMsUnarchive (SBOMs_Unarchive env)) (\<lambda>_. return r') s
                    else return r' s))
           else return r'))) s))"

subsection \<open>\<^verbatim>\<open>LoadPackageMetadata\<close>\<close>

text \<open>The first loop: the first layer titled \<^verbatim>\<open>config.ZarfYAML\<close>, or the zero
  descriptor the variable was declared with.\<close>

fun findZarfYAML :: "'w env \<Rightarrow> Descriptor list \<Rightarrow> Descriptor" where
  "findZarfYAML env [] = zeroDescriptor"
| "findZarfYAML env (layer # layers) =
     (if annotation (desc_Annotations layer) AnnotationTitle = ZarfYAML env then layer
      else findZarfYAML env layers)"

text \<open>The second loop: the first layer titled \<^verbatim>\<open>config.ChecksumsTxt\<close> is fetched and
  written to disk, and the loop breaks; the result is \<^verbatim>\<open>checksumLayer\<close>.\<close>

fun fetchChecksums :: "'w env \<Rightarrow> RemoteBundle \<Rightarrow> Descriptor list \<Rightarrow> ('w, Descriptor) action" where
  "fetchChecksums env r [] s = (Inr zeroDescriptor, s)"
| "fetchChecksums env r (layer # layers) s =
     (if annotation (desc_Annotations layer) AnnotationTitle = ChecksumsTxt env then
        bind (call (EvFetchLayer (Remote r) layer) (FetchLayer env (Remote r) layer)) (\<lambda>checksumBytes.
          bind (call (EvWriteFile (filepath_Join env [dst_Base env, ChecksumsTxt env]) checksumBytes)
                  (WriteFile env (filepath_Join env [dst_Base env, ChecksumsTxt env]) checksumBytes))
            (\<lambda>_. return layer)) s
      else fetchChecksums env r layers s)"

text \<open>
  Lines 336 to 362, from the unmarshalling of the fetched \<^verbatim>\<open>zarf.yaml\<close> bytes to the
  final \<^verbatim>\<open>return err\<close>. The error of \<^verbatim>\<open>WriteYaml\<close> is overwritten before it is
  read. The validator's last argument is the literal \<^verbatim>\<open>true\<close> of the source.
\<close>

definition writeAndValidate ::
  "'w env \<Rightarrow> RemoteBundle \<Rightarrow> Descriptor \<Rightarrow> Manifest \<Rightarrow> bytes \<Rightarrow> ('w, unit) action" where
  "writeAndValidate env r pkgManifestDesc pkgManifest zarfYAMLBytes =
     (case yamlUnmarshal env zarfYAMLBytes of
        Inl msg \<Rightarrow> throw (External msg)
      | Inr zarfYAML \<Rightarrow>
          bind (call_unchecked
                  (EvWriteYaml (filepath_Join env [dst_Base env, ZarfYAML env]) zarfYAML)
                  (WriteYaml env (filepath_Join env [dst_Base env, ZarfYAML env]) zarfYAML))
            (\<lambda>_.
          bind (fetchChecksums env r (man_Layers pkgManifest)) (\<lambda>checksumLayer.
          bind (call_total (EvSetFromLayers [pkgManifestDesc, checksumLayer])
                  (SetFromLayers env [pkgManifestDesc, checksumLayer])) (\<lambda>_.
            call (EvValidatePackageIntegrity (zp_AggregateChecksum zarfYAML) True)
              (ValidatePackageIntegrity env (zp_AggregateChecksum zarfYAML) True)))))"

text \<open>
  Lines 314 to 335. The error of \<^verbatim>\<open>FetchManifest\<close> is assigned and never read, and
  the pointer is dereferenced unchecked: a nil manifest panics.
\<close>

definition LoadPackageMetadata :: "'w env \<Rightarrow> RemoteBundle \<Rightarrow> ('w, unit) action" where
  "LoadPackageMetadata env r =
     bind (call (EvFetchRoot (Remote r)) (FetchRoot env (Remote r))) (\<lambda>root.
       if IsEmptyDescriptor env (Locate env root (PkgManifestSHA r))
       then throw (Errorf (''zarf package '' @ PkgName r @ '' with manifest sha ''
                             @ PkgManifestSHA r @ '' not found''))
       else
         (let pkgManifestDesc = Locate env root (PkgManifestSHA r)
          in bind (call_FetchManifest env (Remote r) pkgManifestDesc) (\<lambda>fetched.
               case fst fetched of
                 None \<Rightarrow> throw (Panic ''nil pointer dereference'')
               | Some pkgManifest \<Rightarrow>
                   bind (call (EvFetchLayer (Remote r) (findZarfYAML env (man_Layers pkgManifest)))
                           (FetchLayer env (Remote r) (findZarfYAML env (man_Layers pkgManifest))))
                     (writeAndValidate env r pkgManifestDesc pkgManifest))))"

section \<open>The publisher: package \<^verbatim>\<open>bundler\<close>\<close>

subsection \<open>\<^verbatim>\<open>manifestAnnotationsFromMetadata\<close> and \<^verbatim>\<open>pushManifestConfigFromMetadata\<close>\<close>

definition manifestAnnotationsFromMetadata :: "UDSMetadata \<Rightarrow> (string \<rightharpoonup> string)" where
  "manifestAnnotationsFromMetadata metadata =
     (let annotations = [AnnotationDescription \<mapsto> Description metadata];
          annotations = (if URL metadata \<noteq> [] then annotations(AnnotationURL \<mapsto> URL metadata)
                         else annotations);
          annotations = (if Authors metadata \<noteq> []
                         then annotations(AnnotationAuthors \<mapsto> Authors metadata)
                         else annotations);
          annotations = (if Documentation metadata \<noteq> []
                         then annotations(AnnotationDocumentation \<mapsto> Documentation metadata)
                         else annotations);
          annotations = (if Source metadata \<noteq> []
                         then annotations(AnnotationSource \<mapsto> Source metadata)
                         else annotations);
          annotations = (if Vendor metadata \<noteq> []
                         then annotations(AnnotationVendor \<mapsto> Vendor metadata)
                         else annotations)
      in annotations)"

text \<open>The \<^verbatim>\<open>oci.ConfigPartial\<close> value that \<^verbatim>\<open>pushManifestConfigFromMetadata\<close> builds
  and serialises.\<close>

definition manifestConfig :: "UDSMetadata \<Rightarrow> UDSBuildData \<Rightarrow> ConfigPartial" where
  "manifestConfig metadata build =
     \<lparr>cfg_Architecture = build_Architecture build,
      cfg_OCIVersion = ''1.0.1'',
      cfg_Annotations = [AnnotationTitle \<mapsto> Name metadata,
                         AnnotationDescription \<mapsto> Description metadata]\<rparr>"

definition pushManifestConfigFromMetadata ::
  "'w env \<Rightarrow> Reference \<Rightarrow> UDSMetadata \<Rightarrow> UDSBuildData \<Rightarrow> ('w, Descriptor) action" where
  "pushManifestConfigFromMetadata env r metadata build =
     (case jsonMarshalConfig env (manifestConfig metadata build) of
        Inl msg \<Rightarrow> throw (External msg)
      | Inr manifestConfigBytes \<Rightarrow>
          call (EvPushLayer r manifestConfigBytes MediaTypeImageConfig)
            (PushLayer env r manifestConfigBytes MediaTypeImageConfig))"

subsection \<open>\<^verbatim>\<open>Bundle\<close>\<close>

text \<open>The closure \<^verbatim>\<open>filterLayers\<close> over \<^verbatim>\<open>layersToCopy\<close>.\<close>

definition filterLayers :: "Descriptor list \<Rightarrow> Descriptor \<Rightarrow> bool" where
  "filterLayers layersToCopy d = list_ex (\<lambda>layer. desc_Digest layer = desc_Digest d) layersToCopy"

text \<open>The loop over \<^verbatim>\<open>oci.PackageAlwaysPull\<close> that builds \<^verbatim>\<open>metadataLayers\<close>.\<close>

fun metadataLayers :: "'w env \<Rightarrow> Manifest \<Rightarrow> string list \<Rightarrow> Descriptor list" where
  "metadataLayers env root [] = []"
| "metadataLayers env root (path # paths) =
     (if \<not> IsEmptyDescriptor env (Locate env root path)
      then Locate env root path # metadataLayers env root paths
      else metadataLayers env root paths)"

text \<open>One iteration of the mount loop. The spinner text is terminal output, but its
  argument \<^verbatim>\<open>layer.Digest.Encoded()\<close> is evaluated first and panics on a digest
  without a colon.\<close>

definition mountLayer :: "'w env \<Rightarrow> Reference \<Rightarrow> Reference \<Rightarrow> Descriptor \<Rightarrow> unit \<Rightarrow> ('w, unit) action" where
  "mountLayer env ref pkgRef layer u =
     (case Digest_Encoded (desc_Digest layer) of
        None \<Rightarrow> throw (Panic ''no ':' separator in digest'')
      | Some _ \<Rightarrow> call (EvMount ref layer pkgRef) (Mount env ref layer pkgRef))"

text \<open>The transfer of one package's layers, lines 73 to 112: streaming copy when the
  registries differ, blob mounts otherwise.\<close>

definition transferLayers ::
  "'w env \<Rightarrow> Reference \<Rightarrow> Reference \<Rightarrow> Manifest \<Rightarrow> Descriptor list \<Rightarrow> ('w, unit) action" where
  "transferLayers env ref pkgRef root layersToCopy =
     (if Registry pkgRef \<noteq> Registry ref then
        call (EvCopyPackage pkgRef ref (filterLayers layersToCopy) (OCIConcurrency env))
          (CopyPackage env pkgRef ref (filterLayers layersToCopy) (OCIConcurrency env))
      else forEach (mountLayer env ref pkgRef) (layersToCopy @ [man_Config root]) ())"

text \<open>The body of the loop over \<^verbatim>\<open>bundle.ZarfPackages\<close>; the loop variable is the
  bundle manifest under construction.\<close>

definition bundlePackage ::
  "'w env \<Rightarrow> Reference \<Rightarrow> BundleZarfPackage \<Rightarrow> Manifest \<Rightarrow> ('w, Manifest) action" where
  "bundlePackage env ref pkg manifest =
     (case NewOrasRemote env (pkg_Repository pkg @ '':'' @ pkg_Ref pkg) of
        Inl msg \<Rightarrow> throw (External msg)
      | Inr pkgRef \<Rightarrow>
          bind (call (EvFetchRoot pkgRef) (FetchRoot env pkgRef)) (\<lambda>root.
            case jsonMarshalManifest env root of
              Inl msg \<Rightarrow> throw (External msg)
            | Inr manifestBytes \<Rightarrow>
                bind (call (EvPushLayer ref manifestBytes (ZarfLayerMediaTypeBlob env))
                        (PushLayer env ref manifestBytes (ZarfLayerMediaTypeBlob env)))
                  (\<lambda>manifestDesc.
                bind (call (EvLayersFromRequestedComponents pkgRef (pkg_OptionalComponents pkg))
                        (LayersFromRequestedComponents env pkgRef (pkg_OptionalComponents pkg)))
                  (\<lambda>layersFromComponents.
                bind (transferLayers env ref pkgRef root
                        (layersFromComponents @ metadataLayers env root (PackageAlwaysPull env)))
                  (\<lambda>_. return (manifest\<lparr>man_Layers := man_Layers manifest
                         @ [manifestDesc\<lparr>desc_MediaType := MediaTypeImageManifest\<rparr>]\<rparr>))))))"

text \<open>The zero value \<^verbatim>\<open>ocispec.Manifest{}\<close>.\<close>

definition zeroManifest :: Manifest where
  "zeroManifest =
     \<lparr>man_SchemaVersion = 0, man_MediaType = [], man_Config = zeroDescriptor,
      man_Layers = [], man_Annotations = Map.empty\<rparr>"

text \<open>Lines 136 to 146: the signature layer, pushed when \<^verbatim>\<open>len(signature) > 0\<close>.\<close>

definition pushSignature :: "'w env \<Rightarrow> Reference \<Rightarrow> bytes \<Rightarrow> Manifest \<Rightarrow> ('w, Manifest) action" where
  "pushSignature env ref signature manifest =
     (if length signature > 0 then
        bind (call (EvPushLayer ref signature (ZarfLayerMediaTypeBlob env))
                (PushLayer env ref signature (ZarfLayerMediaTypeBlob env)))
          (\<lambda>bundleYamlSigDesc.
             return (manifest\<lparr>man_Layers := man_Layers manifest
               @ [bundleYamlSigDesc\<lparr>desc_Annotations :=
                    [AnnotationTitle \<mapsto> BundleYAMLSignature env]\<rparr>]\<rparr>))
      else return manifest)"

text \<open>Lines 149 to 171: the config blob, the final manifest and its push under the
  target reference. The event of the push carries the manifest whose serialisation is
  pushed.\<close>

definition pushBundleManifest :: "'w env \<Rightarrow> Reference \<Rightarrow> UDSBundle \<Rightarrow> Manifest \<Rightarrow> ('w, unit) action" where
  "pushBundleManifest env ref bundle manifest =
     bind (pushManifestConfigFromMetadata env ref (Metadata bundle) (Build bundle)) (\<lambda>configDesc.
       (let manifest' = manifest\<lparr>man_Config := configDesc, man_SchemaVersion := 2,
                                  man_Annotations := manifestAnnotationsFromMetadata (Metadata bundle)\<rparr>
        in case jsonMarshalManifest env manifest' of
             Inl msg \<Rightarrow> throw (External msg)
           | Inr b \<Rightarrow>
               (\<lambda>s. case call (EvPushReference ref manifest'
                                (NewDescriptorFromBytes env MediaTypeImageManifest b) b (Reference ref))
                           (PushReference env ref
                              (NewDescriptorFromBytes env MediaTypeImageManifest b) b (Reference ref)) s of
                       (Inl e, s') \<Rightarrow> (Inl (Wrapf ''failed to push manifest: '' e), s')
                     | (Inr _, s') \<Rightarrow> (Inr (), s'))))"

text \<open>\<^verbatim>\<open>Bundle(r, bundle, signature)\<close>; \<open>ref\<close> is \<^verbatim>\<open>r.Repo().Reference\<close>. The debug and
  success messages are terminal output and are not modelled.\<close>

definition Bundle :: "'w env \<Rightarrow> Reference \<Rightarrow> UDSBundle \<Rightarrow> bytes \<Rightarrow> ('w, unit) action" where
  "Bundle env ref bundle signature =
     (if Architecture (Metadata bundle) = []
      then throw (Errorf ''architecture is required for bundling'')
      else
        bind (forEach (bundlePackage env ref) (ZarfPackages bundle) zeroManifest) (\<lambda>manifest.
          case yamlMarshalBundle env bundle of
            Inl msg \<Rightarrow> throw (External msg)
          | Inr bundleYamlBytes \<Rightarrow>
              bind (call (EvPushLayer ref bundleYamlBytes (ZarfLayerMediaTypeBlob env))
                      (PushLayer env ref bundleYamlBytes (ZarfLayerMediaTypeBlob env)))
                (\<lambda>bundleYamlDesc.
              bind (pushSignature env ref signature
                      (manifest\<lparr>man_Layers := man_Layers manifest
                         @ [bundleYamlDesc\<lparr>desc_Annotations :=
                              [AnnotationTitle \<mapsto> BundleYAML env]\<rparr>]\<rparr>))
                (pushBundleManifest env ref bundle))))"

text \<open>The part of \<^verbatim>\<open>Bundle\<close> that follows the loop over the packages, lines 128 to
  171, as a function of the manifest the loop built.\<close>

definition afterPackages :: "'w env \<Rightarrow> Reference \<Rightarrow> UDSBundle \<Rightarrow> bytes \<Rightarrow> Manifest \<Rightarrow> ('w, unit) action" where
  "afterPackages env ref bundle signature manifest =
     (case yamlMarshalBundle env bundle of
            Inl msg \<Rightarrow> throw (External msg)
          | Inr bundleYamlBytes \<Rightarrow>
              bind (call (EvPushLayer ref bundleYamlBytes (ZarfLayerMediaTypeBlob env))
                      (PushLayer env ref bundleYamlBytes (ZarfLayerMediaTypeBlob env)))
                (\<lambda>bundleYamlDesc.
              bind (pushSignature env ref signature
                      (manifest\<lparr>man_Layers := man_Layers manifest
                         @ [bundleYamlDesc\<lparr>desc_Annotations :=
                              [AnnotationTitle \<mapsto> BundleYAML env]\<rparr>]\<rparr>))
                (pushBundleManifest env ref bundle)))"

section \<open>A concrete registry\<close>

text \<open>
  A small, fully concrete set of collaborators over the one-point world, on which the
  functions above evaluate: a package with four layers and a config blob, published from
  \<^verbatim>\<open>ghcr.io/pkgs/app:1.0\<close>, and a bundle at \<^verbatim>\<open>localhost:5000/bundle:0.0.1\<close> that
  holds its sub-manifest. Every call succeeds, every blob exists and the cache is empty;
  the variants below change one collaborator at a time.
\<close>

definition layerZarfYAML :: Descriptor where
  "layerZarfYAML = \<lparr>desc_MediaType = ''application/vnd.zarf.layer.v1.blob'',
     desc_Digest = ''sha256:aa'', desc_Size = 10,
     desc_Annotations = [AnnotationTitle \<mapsto> ''zarf.yaml'']\<rparr>"

definition layerChecksums :: Descriptor where
  "layerChecksums = \<lparr>desc_MediaType = ''application/vnd.zarf.layer.v1.blob'',
     desc_Digest = ''sha256:bb'', desc_Size = 20,
     desc_Annotations = [AnnotationTitle \<mapsto> ''checksums.txt'']\<rparr>"

definition layerComponent :: Descriptor where
  "layerComponent = \<lparr>desc_MediaType = ''application/vnd.zarf.layer.v1.blob'',
     desc_Digest = ''sha256:cc'', desc_Size = 30,
     desc_Annotations = [AnnotationTitle \<mapsto> ''components/core.tar'']\<rparr>"

definition layerOptional :: Descriptor where
  "layerOptional = \<lparr>desc_MediaType = ''application/vnd.zarf.layer.v1.blob'',
     desc_Digest = ''sha256:dd'', desc_Size = 40,
     desc_Annotations = [AnnotationTitle \<mapsto> ''components/optional.tar'']\<rparr>"

definition pkgConfig :: Descriptor where
  "pkgConfig = \<lparr>desc_MediaType = ''application/vnd.oci.image.config.v1+json'',
     desc_Digest = ''sha256:ee'', desc_Size = 5, desc_Annotations = Map.empty\<rparr>"

definition pkgRoot :: Manifest where
  "pkgRoot = \<lparr>man_SchemaVersion = 2, man_MediaType = [], man_Config = pkgConfig,
     man_Layers = [layerZarfYAML, layerChecksums, layerComponent, layerOptional],
     man_Annotations = Map.empty\<rparr>"

definition subManifestDesc :: Descriptor where
  "subManifestDesc = \<lparr>desc_MediaType = ''application/vnd.oci.image.manifest.v1+json'',
     desc_Digest = ''sha256:ff'', desc_Size = 100, desc_Annotations = Map.empty\<rparr>"

definition bundleRoot :: Manifest where
  "bundleRoot = \<lparr>man_SchemaVersion = 2, man_MediaType = [], man_Config = zeroDescriptor,
     man_Layers = [subManifestDesc], man_Annotations = Map.empty\<rparr>"

definition demoPackage :: ZarfPackage where
  "demoPackage = \<lparr>zp_AggregateChecksum = ''abc123'', zp_Components = [''core'']\<rparr>"

definition demoLocate :: "Manifest \<Rightarrow> string \<Rightarrow> Descriptor" where
  "demoLocate m key =
     (case filter (\<lambda>l. annotation (desc_Annotations l) AnnotationTitle = key
                        \<or> desc_Digest l = ''sha256:'' @ key) (man_Layers m) of
        [] \<Rightarrow> zeroDescriptor
      | l # _ \<Rightarrow> l)"

definition demoNewOrasRemote :: "string \<Rightarrow> string + Reference" where
  "demoNewOrasRemote url =
     Inr \<lparr>Registry = takeWhile (\<lambda>c. c \<noteq> CHR ''/'') url,
          Repository = takeWhile (\<lambda>c. c \<noteq> CHR '':'') (tl (dropWhile (\<lambda>c. c \<noteq> CHR ''/'') url)),
          Reference = tl (dropWhile (\<lambda>c. c \<noteq> CHR '':'') (tl (dropWhile (\<lambda>c. c \<noteq> CHR ''/'') url)))\<rparr>"

definition demoEnv :: "unit env" where
  "demoEnv = \<lparr>
     ZarfYAML = ''zarf.yaml'',
     ChecksumsTxt = ''checksums.txt'',
     BlobsDir = ''blobs/sha256'',
     BundleYAML = ''uds-bundle.yaml'',
     BundleYAMLSignature = ''uds-bundle.yaml.sig'',
     ZarfLayerMediaTypeBlob = ''application/vnd.zarf.layer.v1.blob'',
     PackageAlwaysPull = [''zarf.yaml'', ''zarf.yaml.sig'', ''checksums.txt''],
     OCIConcurrency = 3,
     Locate = demoLocate,
     IsEmptyDescriptor = (\<lambda>d. desc_Digest d = [] \<and> desc_Size d = 0),
     NewOrasRemote = demoNewOrasRemote,
     jsonMarshalManifest = (\<lambda>m. Inr [1]),
     jsonMarshalConfig = (\<lambda>c. Inr [2]),
     yamlMarshalBundle = (\<lambda>b. Inr [3]),
     yamlUnmarshal = (\<lambda>b. Inr demoPackage),
     NewDescriptorFromBytes = (\<lambda>mt b. \<lparr>desc_MediaType = mt, desc_Digest = ''sha256:00'',
        desc_Size = of_nat (length b), desc_Annotations = Map.empty\<rparr>),
     filepath_Join = (\<lambda>parts. foldr (\<lambda>a b. if b = [] then a else a @ ''/'' @ b) parts []),
     IsNotLoaded = (\<lambda>msg. msg = ''not loaded''),
     FetchRoot = (\<lambda>ref w. (Inr (if Repository ref = ''bundle'' then bundleRoot else pkgRoot), w)),
     FetchManifest = (\<lambda>ref d w. ((Some pkgRoot, None), w)),
     FetchLayer = (\<lambda>ref d w. (Inr [4], w)),
     PushLayer = (\<lambda>ref b mt w. (Inr \<lparr>desc_MediaType = mt, desc_Digest = ''sha256:11'',
        desc_Size = of_nat (length b), desc_Annotations = Map.empty\<rparr>, w)),
     LayersFromRequestedComponents = (\<lambda>ref comps w. (Inr [layerComponent], w)),
     CopyPackage = (\<lambda>src dst f n w. (Inr (), w)),
     Mount = (\<lambda>dst d src w. (Inr (), w)),
     PushReference = (\<lambda>ref d b tag w. (Inr (), w)),
     BlobExists = (\<lambda>ref d w. (Inr True, w)),
     OrasCopy = (\<lambda>ref ls n w. (Inr (), w)),
     cache_Exists = (\<lambda>d w. (False, w)),
     cache_Use = (\<lambda>d dir w. (Inr (), w)),
     file_New = (\<lambda>dir w. (Inr (), w)),
     store_Close = (\<lambda>w. w),
     ReadYaml = (\<lambda>path w. (Inr demoPackage, w)),
     WriteYaml = (\<lambda>path p w. (Inr (), w)),
     WriteFile = (\<lambda>path b w. (Inr (), w)),
     dst_Base = ''/tmp/dst'',
     dst_ZarfYAML = (\<lambda>w. ''/tmp/dst/zarf.yaml''),
     dst_SBOMs_Path = (\<lambda>w. []),
     SetFromLayers = (\<lambda>ls w. w),
     ValidatePackageIntegrity = (\<lambda>cs partial w. (Inr (), w)),
     Components_Unarchive = (\<lambda>c w. (Inr (), w)),
     Components_Create = (\<lambda>c w. (Inr (), w)),
     SBOMs_Unarchive = (\<lambda>w. (Inr (), w))\<rparr>"

definition bundleRef :: Reference where
  "bundleRef = \<lparr>Registry = ''localhost:5000'', Repository = ''bundle'', Reference = ''0.0.1''\<rparr>"

definition pkgRefRemote :: Reference where
  "pkgRefRemote = \<lparr>Registry = ''ghcr.io'', Repository = ''pkgs/app'', Reference = ''1.0''\<rparr>"

definition pkgRefLocal :: Reference where
  "pkgRefLocal = \<lparr>Registry = ''localhost:5000'', Repository = ''pkgs/app'', Reference = ''1.0''\<rparr>"

definition demoRemoteBundle :: RemoteBundle where
  "demoRemoteBundle = \<lparr>PkgName = ''app'', PkgManifestSHA = ''ff'', TmpDir = ''/tmp/uds'',
     Remote = bundleRef, isPartial = False\<rparr>"

definition demoMetadata :: UDSMetadata where
  "demoMetadata = \<lparr>Name = ''demo'', Description = [], URL = [], Architecture = ''amd64'',
     Authors = ''the authors'', Documentation = [], Source = [], Vendor = []\<rparr>"

definition demoBundle :: UDSBundle where
  "demoBundle = \<lparr>Metadata = demoMetadata, Build = \<lparr>build_Architecture = ''amd64''\<rparr>,
     ZarfPackages = [\<lparr>pkg_Name = ''app'', pkg_Repository = ''localhost:5000/pkgs/app'',
       pkg_Ref = ''1.0'', pkg_OptionalComponents = []\<rparr>]\<rparr>"

text \<open>The same bundle with its package published from another registry.\<close>

definition crossBundle :: UDSBundle where
  "crossBundle = \<lparr>Metadata = demoMetadata, Build = \<lparr>build_Architecture = ''amd64''\<rparr>,
     ZarfPackages = [\<lparr>pkg_Name = ''app'', pkg_Repository = ''ghcr.io/pkgs/app'',
       pkg_Ref = ''1.0'', pkg_OptionalComponents = []\<rparr>]\<rparr>"

definition s0 :: "unit state" where
  "s0 = \<lparr>world = (), trace = []\<rparr>"

text \<open>A registry that refuses to mount the checksums layer.\<close>

definition refuseChecksumsMount ::
  "Reference \<Rightarrow> Descriptor \<Rightarrow> Reference \<Rightarrow> unit \<Rightarrow> (string + unit) \<times> unit" where
  "refuseChecksumsMount dst d src w =
     (if desc_Digest d = ''sha256:bb'' then Inl ''mount refused'' else Inr (), w)"

definition mountFailEnv :: "unit env" where
  "mountFailEnv = demoEnv\<lparr>Mount := refuseChecksumsMount\<rparr>"

text \<open>A bundle whose package sub-manifest has no layer titled \<^verbatim>\<open>zarf.yaml\<close>, on a
  registry that knows no blob for the zero descriptor.\<close>

definition manifestWithoutSpec ::
  "Reference \<Rightarrow> Descriptor \<Rightarrow> unit \<Rightarrow> (Manifest option \<times> string option) \<times> unit" where
  "manifestWithoutSpec ref d w =
     ((Some (pkgRoot\<lparr>man_Layers := [layerChecksums, layerComponent]\<rparr>), None), w)"

definition refuseZeroFetch :: "Reference \<Rightarrow> Descriptor \<Rightarrow> unit \<Rightarrow> (string + bytes) \<times> unit" where
  "refuseZeroFetch ref d w = (if desc_Digest d = [] then Inl ''blob unknown'' else Inr [4], w)"

definition noSpecEnv :: "unit env" where
  "noSpecEnv = demoEnv\<lparr>FetchManifest := manifestWithoutSpec, FetchLayer := refuseZeroFetch\<rparr>"

text \<open>A bundle published without the optional component: its layer is declared by the
  sub-manifest and absent from the bundle's repository.\<close>

definition optionalAbsent :: "Reference \<Rightarrow> Descriptor \<Rightarrow> unit \<Rightarrow> (string + bool) \<times> unit" where
  "optionalAbsent ref d w = (Inr (desc_Digest d \<noteq> ''sha256:dd''), w)"

definition partialBundleEnv :: "unit env" where
  "partialBundleEnv = demoEnv\<lparr>BlobExists := optionalAbsent\<rparr>"

text \<open>A registry whose blob for the sub-manifest is the JSON literal \<^verbatim>\<open>null\<close>:
  \<^verbatim>\<open>FetchManifest\<close> hands back a nil pointer and a nil error.\<close>

definition nilManifest ::
  "Reference \<Rightarrow> Descriptor \<Rightarrow> unit \<Rightarrow> (Manifest option \<times> string option) \<times> unit" where
  "nilManifest ref d w = ((None, None), w)"

definition nilManifestEnv :: "unit env" where
  "nilManifestEnv = demoEnv\<lparr>FetchManifest := nilManifest\<rparr>"

text \<open>A registry on which the copy into the local store fails.\<close>

definition refuseCopy ::
  "Reference \<Rightarrow> Descriptor list \<Rightarrow> int \<Rightarrow> unit \<Rightarrow> (string + unit) \<times> unit" where
  "refuseCopy ref ls n w = (Inl ''connection reset'', w)"

definition copyFailEnv :: "unit env" where
  "copyFailEnv = demoEnv\<lparr>OrasCopy := refuseCopy\<rparr>"

section \<open>Predicates on actions and observers of the log\<close>

text \<open>An action never returns an error built with \<^verbatim>\<open>fmt.Errorf\<close>.\<close>

definition no_Errorf :: "('w, 'a) action \<Rightarrow> bool" where
  "no_Errorf m = (\<forall>s msg. fst (m s) \<noteq> Inl (Errorf msg))"

text \<open>Observers of a log entry.\<close>

fun isFailed :: "logged \<Rightarrow> bool" where
  "isFailed (Failed ev msg) = True"
| "isFailed (Done ev) = False"
| "isFailed (Answered ev b) = False"

fun event_of :: "logged \<Rightarrow> event" where
  "event_of (Done ev) = ev"
| "event_of (Failed ev msg) = ev"
| "event_of (Answered ev b) = ev"

definition isPushReference :: "event \<Rightarrow> bool" where
  "isPushReference ev = (case ev of EvPushReference r m d b t \<Rightarrow> True | _ \<Rightarrow> False)"

text \<open>An entry is quiet when the call succeeded and was not the push of a manifest under
  a reference.\<close>

definition quiet :: "logged \<Rightarrow> bool" where
  "quiet x = (\<not> isFailed x \<and> \<not> isPushReference (event_of x))"

text \<open>\<open>logs m P\<close>: from every state, \<open>m\<close> only appends to the log, and the appended
  entries together with the result satisfy \<open>P\<close>.\<close>

definition logs :: "('w, 'a) action \<Rightarrow> (logged list \<Rightarrow> error + 'a \<Rightarrow> bool) \<Rightarrow> bool" where
  "logs m P = (\<forall>s. \<exists>new. trace (snd (m s)) = trace s @ new \<and> P new (fst (m s)))"

definition silent :: "(logged \<Rightarrow> bool) \<Rightarrow> ('w, 'a) action \<Rightarrow> bool" where
  "silent ok m = logs m (\<lambda>new res. list_all ok new)"

text \<open>The entries of an action that returns at the first failed call: all quiet, or
  quiet up to a last, failed one whose error is the result.\<close>

definition stopsAtFailure :: "logged list \<Rightarrow> error + 'a \<Rightarrow> bool" where
  "stopsAtFailure new res =
     (list_all quiet new
      \<or> (\<exists>before ev msg. new = before @ [Failed ev msg] \<and> list_all quiet before
            \<and> res = Inl (External msg)))"

definition failfast :: "('w, 'a) action \<Rightarrow> bool" where
  "failfast m = logs m stopsAtFailure"

definition endsWithPushReference :: "logged list \<Rightarrow> bool" where
  "endsWithPushReference new =
     (\<exists>before x. new = before @ [x] \<and> list_all quiet before \<and> isPushReference (event_of x))"

definition publishes :: "('w, 'a) action \<Rightarrow> bool" where
  "publishes m = logs m (\<lambda>new res. stopsAtFailure new res \<or> endsWithPushReference new)"

text \<open>The \<^verbatim>\<open>isPartial\<close> arguments of the calls to the validator, in order.\<close>

definition validationModes :: "logged list \<Rightarrow> bool list" where
  "validationModes new =
     concat (map (\<lambda>x. case event_of x of EvValidatePackageIntegrity cs p \<Rightarrow> [p] | _ \<Rightarrow> []) new)"

definition noValidation :: "logged \<Rightarrow> bool" where
  "noValidation x = (validationModes [x] = [])"

text \<open>An action that, when it succeeds, has called the validator exactly once, in partial
  mode.\<close>

definition validatesOnce :: "('w, 'a) action \<Rightarrow> bool" where
  "validatesOnce m = logs m (\<lambda>new res. (\<exists>a. res = Inr a) \<longrightarrow> validationModes new = [True])"

text \<open>An action whose last call, when it succeeds, is the validator of the environment
  in partial mode, with no validator call before it.\<close>

definition validatesLast :: "'w env \<Rightarrow> ('w, 'a) action \<Rightarrow> bool" where
  "validatesLast env m =
     (\<forall>s a s'. m s = (Inr a, s') \<longrightarrow>
        (\<exists>cs before w.
           trace s' = trace s @ before @ [Done (EvValidatePackageIntegrity cs True)]
           \<and> list_all noValidation before
           \<and> ValidatePackageIntegrity env cs True w = (Inr (), world s')))"

text \<open>The layers confirmed present in the remote bundle: those for which
  \<^verbatim>\<open>Blobs().Exists\<close> answered yes, in the order of the answers.\<close>

definition presentLayers :: "logged list \<Rightarrow> Descriptor list" where
  "presentLayers new =
     concat (map (\<lambda>x. case x of
                         Answered ev b \<Rightarrow>
                           (case ev of EvBlobExists ref layer \<Rightarrow> if b then [layer] else []
                                     | _ \<Rightarrow> [])
                       | _ \<Rightarrow> []) new)"

text \<open>The entries of the verification loop: existence checks and cache accesses.\<close>

definition isVerification :: "logged \<Rightarrow> bool" where
  "isVerification x =
     (case event_of x of
        EvBlobExists ref layer \<Rightarrow> True
      | EvCacheExists digest \<Rightarrow> True
      | EvCacheUse digest dir \<Rightarrow> True
      | _ \<Rightarrow> False)"

text \<open>\<open>d\<close> is a descriptor that the destination handed back for the push of the
  serialised root manifest of the package \<open>pkg\<close>: lines 33 to 49 of \<^verbatim>\<open>Bundle\<close>, in some
  states of the world.\<close>

definition pushedSubManifest ::
  "'w env \<Rightarrow> Reference \<Rightarrow> BundleZarfPackage \<Rightarrow> Descriptor \<Rightarrow> bool" where
  "pushedSubManifest env ref pkg d =
     (\<exists>pkgRef root manifestBytes w1 w1' w2 w2'.
        NewOrasRemote env (pkg_Repository pkg @ '':'' @ pkg_Ref pkg) = Inr pkgRef
        \<and> FetchRoot env pkgRef w1 = (Inr root, w1')
        \<and> jsonMarshalManifest env root = Inr manifestBytes
        \<and> PushLayer env ref manifestBytes (ZarfLayerMediaTypeBlob env) w2 = (Inr d, w2'))"

text \<open>The world after the mounts of \<open>layers\<close>, in order, each on the world the one
  before it left; and the state after them when every one was accepted.\<close>

definition mountWorld :: "'w env \<Rightarrow> Reference \<Rightarrow> Reference \<Rightarrow> Descriptor list \<Rightarrow> 'w \<Rightarrow> 'w" where
  "mountWorld env ref pkgRef layers w =
     foldl (\<lambda>w layer. snd (Mount env ref layer pkgRef w)) w layers"

definition mounted ::
  "'w env \<Rightarrow> Reference \<Rightarrow> Reference \<Rightarrow> Descriptor list \<Rightarrow> 'w state \<Rightarrow> 'w state" where
  "mounted env ref pkgRef layers st =
     \<lparr>world = mountWorld env ref pkgRef layers (world st),
      trace = trace st @ map (\<lambda>l. Done (EvMount ref l pkgRef)) layers\<rparr>"

text \<open>The mount of the \<open>i\<close>-th layer is accepted: its digest has an encoded part and the
  destination, in the world the mounts before it left, returns no error.\<close>

definition mountAccepted ::
  "'w env \<Rightarrow> Reference \<Rightarrow> Reference \<Rightarrow> Descriptor list \<Rightarrow> 'w state \<Rightarrow> nat \<Rightarrow> bool" where
  "mountAccepted env ref pkgRef layers st i =
     (Digest_Encoded (desc_Digest (layers ! i)) \<noteq> None
      \<and> fst (Mount env ref (layers ! i) pkgRef
               (world (mounted env ref pkgRef (take i layers) st))) = Inr ())"

text \<open>A log entry agrees with the rule of line 77: a mount goes to \<open>ref\<close> from a
  repository of the same registry, a streaming copy goes to \<open>ref\<close> from another
  registry; any other entry agrees.\<close>

definition pathMatchesRegistry :: "Reference \<Rightarrow> logged \<Rightarrow> bool" where
  "pathMatchesRegistry ref x =
     (case event_of x of
        EvMount dst layer src \<Rightarrow> dst = ref \<and> Registry src = Registry ref
      | EvCopyPackage src dst f n \<Rightarrow> dst = ref \<and> Registry src \<noteq> Registry ref
      | _ \<Rightarrow> True)"

section \<open>General lemmas\<close>

lemma no_Errorf_bind: "no_Errorf m \<Longrightarrow> (\<And>a. no_Errorf (f a)) \<Longrightarrow> no_Errorf (bind m f)"
  unfolding no_Errorf_def bind_def
  apply (auto split: prod.splits sum.splits)
  by (metis fst_conv)

lemma no_Errorf_call: "no_Errorf (call ev f)"
  by (simp add: no_Errorf_def call_def split: prod.splits sum.splits)

lemma no_Errorf_return: "no_Errorf (return a)"
  by (simp add: no_Errorf_def return_def)

lemma no_Errorf_throw: "(\<And>msg. e \<noteq> Errorf msg) \<Longrightarrow> no_Errorf (throw e)"
  by (simp add: no_Errorf_def throw_def)

lemma no_Errorf_forEach:
  "(\<And>x acc. no_Errorf (body x acc)) \<Longrightarrow> no_Errorf (forEach body xs acc)"
proof (induction xs arbitrary: acc)
  case Nil
  then show ?case by (simp add: no_Errorf_def)
next
  case (Cons x xs)
  show ?case
    unfolding no_Errorf_def
  proof (intro allI)
    fix s msg
    show "fst (forEach body (x # xs) acc s) \<noteq> Inl (Errorf msg)"
    proof (cases "body x acc s")
      case (Pair res s')
      then show ?thesis
        using Cons.prems[of x acc] Cons.IH[OF Cons.prems]
        by (cases res) (auto simp: no_Errorf_def dest: spec[where x=s])
    qed
  qed
qed

section \<open>The publisher never reports a missing architecture past the first check\<close>

lemma no_Errorf_mountLayer: "no_Errorf (mountLayer env ref pkgRef layer u)"
  by (simp add: mountLayer_def no_Errorf_call no_Errorf_throw split: option.splits)

lemma no_Errorf_transferLayers: "no_Errorf (transferLayers env ref pkgRef root ls)"
  by (simp add: transferLayers_def no_Errorf_call no_Errorf_forEach no_Errorf_mountLayer)

lemma no_Errorf_bundlePackage: "no_Errorf (bundlePackage env ref pkg manifest)"
  unfolding bundlePackage_def
  by (auto split: sum.splits
        intro!: no_Errorf_bind no_Errorf_call no_Errorf_throw no_Errorf_return
                no_Errorf_transferLayers)

lemma no_Errorf_pushSignature: "no_Errorf (pushSignature env ref signature manifest)"
  unfolding pushSignature_def
  by (auto intro!: no_Errorf_bind no_Errorf_call no_Errorf_return)

lemma no_Errorf_pushManifestConfigFromMetadata:
  "no_Errorf (pushManifestConfigFromMetadata env ref m b)"
  unfolding pushManifestConfigFromMetadata_def
  by (auto split: sum.splits intro!: no_Errorf_call no_Errorf_throw)

lemma no_Errorf_wrapped:
  "no_Errorf (\<lambda>s. case call ev f s of
                     (Inl e, s') \<Rightarrow> (Inl (Wrapf p e), s')
                   | (Inr x, s') \<Rightarrow> (Inr (), s'))"
  by (simp add: no_Errorf_def split: prod.splits sum.splits)

lemma no_Errorf_pushBundleManifest: "no_Errorf (pushBundleManifest env ref bundle manifest)"
  unfolding pushBundleManifest_def Let_def
  by (auto split: sum.splits
        intro!: no_Errorf_bind no_Errorf_pushManifestConfigFromMetadata no_Errorf_throw
                no_Errorf_wrapped)

lemma Bundle_no_Errorf_past_check:
  assumes "Architecture (Metadata bundle) \<noteq> []"
  shows "no_Errorf (Bundle env ref bundle signature)"
  unfolding Bundle_def using assms
  by (auto split: sum.splits
        intro!: no_Errorf_bind no_Errorf_forEach no_Errorf_bundlePackage no_Errorf_throw
                no_Errorf_call no_Errorf_pushSignature no_Errorf_pushBundleManifest)

text \<open>
  Claim C2. A bundle whose \<^verbatim>\<open>metadata.architecture\<close> is the empty string makes
  \<^verbatim>\<open>Bundle\<close> return the error "architecture is required for bundling" with the state
  untouched: the world is the one it started from and not one call has been logged, so
  no network call came before it. With a non-empty architecture the check passes: the
  function goes on to the rest of its body, none of whose errors is built by
  \<^verbatim>\<open>fmt.Errorf\<close> without a wrapped cause, so that error is never returned.
\<close>

theorem Bundle_architecture_required:
  "(Architecture (Metadata bundle) = [] \<longrightarrow>
      Bundle env ref bundle signature s
        = (Inl (Errorf ''architecture is required for bundling''), s))
   \<and> (Architecture (Metadata bundle) \<noteq> [] \<longrightarrow>
        (\<forall>msg. fst (Bundle env ref bundle signature s) \<noteq> Inl (Errorf msg)))"
proof (intro conjI impI)
  assume "Architecture (Metadata bundle) = []"
  then show "Bundle env ref bundle signature s
        = (Inl (Errorf ''architecture is required for bundling''), s)"
    by (simp add: Bundle_def throw_def)
next
  assume a: "Architecture (Metadata bundle) \<noteq> []"
  from Bundle_no_Errorf_past_check[OF a, of env ref signature]
  show "\<forall>msg. fst (Bundle env ref bundle signature s) \<noteq> Inl (Errorf msg)"
    unfolding no_Errorf_def by blast
qed

theorem Bundle_architecture_required_witness:
  "Architecture (Metadata (demoBundle\<lparr>Metadata := demoMetadata\<lparr>Architecture := []\<rparr>\<rparr>)) = []
   \<and> Bundle demoEnv bundleRef (demoBundle\<lparr>Metadata := demoMetadata\<lparr>Architecture := []\<rparr>\<rparr>) [] s0
       = (Inl (Errorf ''architecture is required for bundling''), s0)
   \<and> Architecture (Metadata demoBundle) \<noteq> []
   \<and> fst (Bundle demoEnv bundleRef demoBundle [] s0)
       \<noteq> Inl (Errorf ''architecture is required for bundling'')"
proof -
  have empty: "Architecture (Metadata (demoBundle\<lparr>Metadata := demoMetadata\<lparr>Architecture := []\<rparr>\<rparr>)) = []"
    by simp
  have filled: "Architecture (Metadata demoBundle) \<noteq> []"
    by (simp add: demoBundle_def demoMetadata_def)
  from empty filled
    Bundle_architecture_required
      [of "demoBundle\<lparr>Metadata := demoMetadata\<lparr>Architecture := []\<rparr>\<rparr>" demoEnv bundleRef "[]" s0]
    Bundle_architecture_required [of demoBundle demoEnv bundleRef "[]" s0]
  show ?thesis by blast
qed

section \<open>Annotations of the config blob and of the manifest\<close>

lemma annotation_keys_distinct:
  "distinct [AnnotationTitle, AnnotationDescription, AnnotationURL, AnnotationAuthors,
             AnnotationDocumentation, AnnotationSource, AnnotationVendor]"
  by (simp add: AnnotationTitle_def AnnotationDescription_def AnnotationURL_def AnnotationAuthors_def
        AnnotationDocumentation_def AnnotationSource_def AnnotationVendor_def)

lemma manifestAnnotations_apply:
  "manifestAnnotationsFromMetadata m k =
     (if k = AnnotationVendor \<and> Vendor m \<noteq> [] then Some (Vendor m)
      else if k = AnnotationSource \<and> Source m \<noteq> [] then Some (Source m)
      else if k = AnnotationDocumentation \<and> Documentation m \<noteq> [] then Some (Documentation m)
      else if k = AnnotationAuthors \<and> Authors m \<noteq> [] then Some (Authors m)
      else if k = AnnotationURL \<and> URL m \<noteq> [] then Some (URL m)
      else if k = AnnotationDescription then Some (Description m)
      else None)"
  by (simp add: manifestAnnotationsFromMetadata_def Let_def)

lemma manifestAnnotations_dom:
  "manifestAnnotationsFromMetadata metadata k = Some v \<Longrightarrow>
     k \<in> {AnnotationDescription, AnnotationURL, AnnotationAuthors,
           AnnotationDocumentation, AnnotationSource, AnnotationVendor}"
  by (simp add: manifestAnnotations_apply split: if_splits)

text \<open>
  Claim C6, as the code has it. The annotations of the config blob are always exactly
  two entries, the title with the bundle's name and the description, whatever their
  values, empty ones included. The manifest annotations always hold the description,
  empty or not; they hold the URL, the authors, the documentation, the source and the
  vendor each exactly when that field is non-empty; and they never hold the name.
\<close>

theorem annotations_from_metadata:
  "cfg_Annotations (manifestConfig metadata build)
     = [AnnotationTitle \<mapsto> Name metadata, AnnotationDescription \<mapsto> Description metadata]
   \<and> manifestAnnotationsFromMetadata metadata AnnotationDescription = Some (Description metadata)
   \<and> manifestAnnotationsFromMetadata metadata AnnotationTitle = None
   \<and> manifestAnnotationsFromMetadata metadata AnnotationURL
       = (if URL metadata = [] then None else Some (URL metadata))
   \<and> manifestAnnotationsFromMetadata metadata AnnotationAuthors
       = (if Authors metadata = [] then None else Some (Authors metadata))
   \<and> manifestAnnotationsFromMetadata metadata AnnotationDocumentation
       = (if Documentation metadata = [] then None else Some (Documentation metadata))
   \<and> manifestAnnotationsFromMetadata metadata AnnotationSource
       = (if Source metadata = [] then None else Some (Source metadata))
   \<and> manifestAnnotationsFromMetadata metadata AnnotationVendor
       = (if Vendor metadata = [] then None else Some (Vendor metadata))
   \<and> dom (manifestAnnotationsFromMetadata metadata)
       \<subseteq> {AnnotationDescription, AnnotationURL, AnnotationAuthors,
           AnnotationDocumentation, AnnotationSource, AnnotationVendor}"
proof -
  note d = annotation_keys_distinct
  have c: "cfg_Annotations (manifestConfig metadata build)
     = [AnnotationTitle \<mapsto> Name metadata, AnnotationDescription \<mapsto> Description metadata]"
    by (simp add: manifestConfig_def)
  have 1: "manifestAnnotationsFromMetadata metadata AnnotationDescription = Some (Description metadata)"
    using d by (auto simp: manifestAnnotations_apply)
  have 2: "manifestAnnotationsFromMetadata metadata AnnotationTitle = None"
    using d by (auto simp: manifestAnnotations_apply)
  have 3: "manifestAnnotationsFromMetadata metadata AnnotationURL
       = (if URL metadata = [] then None else Some (URL metadata))"
    using d by (auto simp: manifestAnnotations_apply)
  have 4: "manifestAnnotationsFromMetadata metadata AnnotationAuthors
       = (if Authors metadata = [] then None else Some (Authors metadata))"
    using d by (auto simp: manifestAnnotations_apply)
  have 5: "manifestAnnotationsFromMetadata metadata AnnotationDocumentation
       = (if Documentation metadata = [] then None else Some (Documentation metadata))"
    using d by (auto simp: manifestAnnotations_apply)
  have 6: "manifestAnnotationsFromMetadata metadata AnnotationSource
       = (if Source metadata = [] then None else Some (Source metadata))"
    using d by (auto simp: manifestAnnotations_apply)
  have 7: "manifestAnnotationsFromMetadata metadata AnnotationVendor
       = (if Vendor metadata = [] then None else Some (Vendor metadata))"
    using d by (auto simp: manifestAnnotations_apply)
  have 8: "dom (manifestAnnotationsFromMetadata metadata)
       \<subseteq> {AnnotationDescription, AnnotationURL, AnnotationAuthors,
           AnnotationDocumentation, AnnotationSource, AnnotationVendor}"
    using manifestAnnotations_dom[of metadata] by (meson domD subsetI)
  from c 1 2 3 4 5 6 7 8 show ?thesis by blast
qed

theorem annotations_from_metadata_witness:
  "manifestAnnotationsFromMetadata demoMetadata AnnotationDescription = Some []
   \<and> manifestAnnotationsFromMetadata demoMetadata AnnotationAuthors = Some ''the authors''
   \<and> manifestAnnotationsFromMetadata demoMetadata AnnotationURL = None"
proof -
  have "Description demoMetadata = []" "Authors demoMetadata = ''the authors''" "URL demoMetadata = []"
    by (simp_all add: demoMetadata_def)
  with annotations_from_metadata [of demoMetadata "\<lparr>build_Architecture = ''amd64''\<rparr>"]
  show ?thesis by simp
qed

text \<open>The claim as the specification words it fails: the description of
  \<open>demoMetadata\<close> is empty, and both the manifest annotations and the config blob
  still carry a description entry, with the empty string as its value.\<close>

theorem empty_description_annotated_counterexample:
  "Description demoMetadata = []
   \<and> manifestAnnotationsFromMetadata demoMetadata AnnotationDescription = Some []
   \<and> cfg_Annotations (manifestConfig demoMetadata \<lparr>build_Architecture = ''amd64''\<rparr>)
       AnnotationDescription = Some []"
proof -
  have e: "Description demoMetadata = []" by (simp add: demoMetadata_def)
  have 1: "manifestAnnotationsFromMetadata demoMetadata AnnotationDescription = Some (Description demoMetadata)"
    using annotation_keys_distinct by (auto simp: manifestAnnotations_apply)
  have 2: "cfg_Annotations (manifestConfig demoMetadata \<lparr>build_Architecture = ''amd64''\<rparr>)
       AnnotationDescription = Some (Description demoMetadata)"
    by (simp add: manifestConfig_def)
  from e 1 2 show ?thesis by simp
qed

section \<open>The log of an action\<close>

lemma logsI:
  assumes "\<And>s res s'. m s = (res, s') \<Longrightarrow> \<exists>new. trace s' = trace s @ new \<and> P new res"
  shows "logs m P"
  unfolding logs_def
proof
  fix s
  obtain res s' where r: "m s = (res, s')" by (cases "m s")
  from assms[OF r] r show "\<exists>new. trace (snd (m s)) = trace s @ new \<and> P new (fst (m s))"
    by simp
qed

lemma logsD:
  assumes "logs m P" and "m s = (res, s')"
  obtains new where "trace s' = trace s @ new" and "P new res"
  using assms unfolding logs_def by (metis fst_conv snd_conv)

lemma logs_weaken:
  assumes "logs m P" and "\<And>new res. P new res \<Longrightarrow> Q new res"
  shows "logs m Q"
  using assms unfolding logs_def by blast

lemma bind_cases:
  assumes "bind m f s = (res, s')"
  obtains (failed) e where "m s = (Inl e, s')" and "res = Inl e"
        | (went_on) a s1 where "m s = (Inr a, s1)" and "f a s1 = (res, s')"
  using assms unfolding bind_def by (auto split: prod.splits sum.splits)

lemma call_cases:
  assumes "call ev f s = (res, s')"
  obtains (failed) msg where "f (world s) = (Inl msg, world s')" and "res = Inl (External msg)"
                       and "trace s' = trace s @ [Failed ev msg]"
        | (returned) a where "f (world s) = (Inr a, world s')" and "res = Inr a"
                       and "trace s' = trace s @ [Done ev]"
  using assms unfolding call_def by (auto split: prod.splits sum.splits)

lemma forEach_Cons_cases:
  assumes "forEach body (x # xs) acc s = (res, s')"
  obtains (failed) e where "body x acc s = (Inl e, s')" and "res = Inl e"
        | (went_on) acc' s1 where "body x acc s = (Inr acc', s1)"
                              and "forEach body xs acc' s1 = (res, s')"
  using assms by (auto split: prod.splits sum.splits)

subsection \<open>Actions whose log entries all satisfy a predicate\<close>

lemma silent_bind:
  assumes "silent ok m" and "\<And>a. silent ok (f a)"
  shows "silent ok (bind m f)"
  unfolding silent_def
proof (rule logsI)
  fix s res s'
  assume b: "bind m f s = (res, s')"
  from b show "\<exists>new. trace s' = trace s @ new \<and> list_all ok new"
  proof (cases rule: bind_cases)
    case (failed e)
    from assms(1)[unfolded silent_def] failed(1) show ?thesis by (rule logsD) blast
  next
    case (went_on a s1)
    from assms(1)[unfolded silent_def] went_on(1)
    obtain n1 where n1: "trace s1 = trace s @ n1" "list_all ok n1" by (rule logsD)
    from assms(2)[unfolded silent_def] went_on(2)
    obtain n2 where n2: "trace s' = trace s1 @ n2" "list_all ok n2" by (rule logsD)
    from n1 n2 have "trace s' = trace s @ (n1 @ n2) \<and> list_all ok (n1 @ n2)" by simp
    then show ?thesis by blast
  qed
qed

lemma silent_call: "ok (Done ev) \<Longrightarrow> (\<And>msg. ok (Failed ev msg)) \<Longrightarrow> silent ok (call ev f)"
  unfolding silent_def by (rule logsI) (auto elim!: call_cases)

lemma silent_return: "silent ok (return a)"
  unfolding silent_def by (rule logsI) (simp add: return_def)

lemma silent_throw: "silent ok (throw e)"
  unfolding silent_def by (rule logsI) (simp add: throw_def)

lemma silent_emit: "ok (Done ev) \<Longrightarrow> silent ok (emit ev)"
  unfolding silent_def by (rule logsI) (auto simp: emit_def)

lemma silent_call_total: "ok (Done ev) \<Longrightarrow> silent ok (call_total ev f)"
  unfolding silent_def by (rule logsI) (auto simp: call_total_def)

lemma silent_call_unchecked:
  "ok (Done ev) \<Longrightarrow> (\<And>msg. ok (Failed ev msg)) \<Longrightarrow> silent ok (call_unchecked ev f)"
  unfolding silent_def by (rule logsI) (auto simp: call_unchecked_def split: prod.splits sum.splits)

lemma silent_ask:
  "(\<And>b. ok (Answered ev b)) \<Longrightarrow> (\<And>msg. ok (Failed ev msg)) \<Longrightarrow> silent ok (ask ev f)"
  unfolding silent_def by (rule logsI) (auto simp: ask_def split: prod.splits sum.splits)

lemma silent_ask_total: "(\<And>b. ok (Answered ev b)) \<Longrightarrow> silent ok (ask_total ev f)"
  unfolding silent_def by (rule logsI) (auto simp: ask_total_def split: prod.splits)

lemma silent_call_FetchManifest:
  "ok (Done (EvFetchManifest ref d)) \<Longrightarrow> (\<And>msg. ok (Failed (EvFetchManifest ref d) msg))
     \<Longrightarrow> silent ok (call_FetchManifest env ref d)"
  unfolding silent_def
  by (rule logsI) (auto simp: call_FetchManifest_def split: prod.splits option.splits)

lemma silent_forEach:
  assumes "\<And>x acc. silent ok (body x acc)"
  shows "silent ok (forEach body xs acc)"
proof (induction xs arbitrary: acc)
  case Nil
  show ?case unfolding silent_def by (rule logsI) simp
next
  case (Cons x xs)
  show ?case
    unfolding silent_def
  proof (rule logsI)
    fix s res s'
    assume "forEach body (x # xs) acc s = (res, s')"
    then show "\<exists>new. trace s' = trace s @ new \<and> list_all ok new"
    proof (cases rule: forEach_Cons_cases)
      case (failed e)
      from assms[of x acc, unfolded silent_def] failed(1) show ?thesis by (rule logsD) blast
    next
      case (went_on acc' s1)
      from assms[of x acc, unfolded silent_def] went_on(1)
      obtain n1 where n1: "trace s1 = trace s @ n1" "list_all ok n1" by (rule logsD)
      from Cons.IH[of acc', unfolded silent_def] went_on(2)
      obtain n2 where n2: "trace s' = trace s1 @ n2" "list_all ok n2" by (rule logsD)
      from n1 n2 have "trace s' = trace s @ (n1 @ n2) \<and> list_all ok (n1 @ n2)" by simp
      then show ?thesis by blast
    qed
  qed
qed

subsection \<open>Actions that stop at the first failed call\<close>

lemma stopsAtFailure_Nil: "stopsAtFailure [] res"
  by (simp add: stopsAtFailure_def)

lemma stopsAtFailure_Inr: "stopsAtFailure new (Inr a) \<Longrightarrow> list_all quiet new"
  by (auto simp: stopsAtFailure_def)

lemma stopsAtFailure_append:
  "list_all quiet n1 \<Longrightarrow> stopsAtFailure n2 res \<Longrightarrow> stopsAtFailure (n1 @ n2) res"
  unfolding stopsAtFailure_def
  by (elim disjE exE conjE) (simp, metis append_assoc list_all_append)

lemma stopsAtFailure_Inl:
  "stopsAtFailure new (Inl e :: error + 'a) \<Longrightarrow> stopsAtFailure new (Inl e :: error + 'b)"
  by (auto simp: stopsAtFailure_def)

lemma failfast_bind:
  fixes m :: "('w, 'a) action" and f :: "'a \<Rightarrow> ('w, 'b) action"
  assumes "failfast m" and "\<And>a. failfast (f a)"
  shows "failfast (bind m f)"
  unfolding failfast_def
proof (rule logsI)
  fix s res s'
  assume b: "bind m f s = (res, s')"
  from b show "\<exists>new. trace s' = trace s @ new \<and> stopsAtFailure new res"
  proof (cases rule: bind_cases)
    case (failed e)
    from assms(1)[unfolded failfast_def] failed(1)
    obtain n1 where n1: "trace s' = trace s @ n1" "stopsAtFailure n1 (Inl e :: error + 'a)"
      by (rule logsD)
    from stopsAtFailure_Inl[OF n1(2)] failed(2) have "stopsAtFailure n1 res" by simp
    with n1(1) show ?thesis by blast
  next
    case (went_on a s1)
    from assms(1)[unfolded failfast_def] went_on(1)
    obtain n1 where n1: "trace s1 = trace s @ n1" "stopsAtFailure n1 (Inr a :: error + 'a)"
      by (rule logsD)
    from assms(2)[unfolded failfast_def] went_on(2)
    obtain n2 where n2: "trace s' = trace s1 @ n2" "stopsAtFailure n2 res" by (rule logsD)
    from n1 n2 have "trace s' = trace s @ (n1 @ n2)" by simp
    moreover from stopsAtFailure_Inr[OF n1(2)] n2(2) have "stopsAtFailure (n1 @ n2) res"
      by (rule stopsAtFailure_append)
    ultimately show ?thesis by blast
  qed
qed

lemma failfast_call: "\<not> isPushReference ev \<Longrightarrow> failfast (call ev f)"
  unfolding failfast_def
  by (rule logsI) (auto elim!: call_cases simp: stopsAtFailure_def quiet_def)

lemma failfast_return: "failfast (return a)"
  unfolding failfast_def by (rule logsI) (simp add: return_def stopsAtFailure_Nil)

lemma failfast_throw: "failfast (throw e)"
  unfolding failfast_def by (rule logsI) (simp add: throw_def stopsAtFailure_Nil)

lemma failfast_forEach:
  fixes body :: "'x \<Rightarrow> 'b \<Rightarrow> ('w, 'b) action"
  assumes "\<And>x acc. failfast (body x acc)"
  shows "failfast (forEach body xs acc)"
proof (induction xs arbitrary: acc)
  case Nil
  show ?case unfolding failfast_def by (rule logsI) (simp add: stopsAtFailure_Nil)
next
  case (Cons x xs)
  show ?case
    unfolding failfast_def
  proof (rule logsI)
    fix s res s'
    assume "forEach body (x # xs) acc s = (res, s')"
    then show "\<exists>new. trace s' = trace s @ new \<and> stopsAtFailure new res"
    proof (cases rule: forEach_Cons_cases)
      case (failed e)
      from assms[of x acc, unfolded failfast_def] failed(1)
      obtain n1 where "trace s' = trace s @ n1" "stopsAtFailure n1 (Inl e :: error + 'b)"
        by (rule logsD)
      with failed(2) show ?thesis by blast
    next
      case (went_on acc' s1)
      from assms[of x acc, unfolded failfast_def] went_on(1)
      obtain n1 where n1: "trace s1 = trace s @ n1" "stopsAtFailure n1 (Inr acc' :: error + 'b)"
        by (rule logsD)
      from Cons.IH[of acc', unfolded failfast_def] went_on(2)
      obtain n2 where n2: "trace s' = trace s1 @ n2" "stopsAtFailure n2 res" by (rule logsD)
      from n1 n2 have "trace s' = trace s @ (n1 @ n2)" by simp
      moreover from stopsAtFailure_Inr[OF n1(2)] n2(2) have "stopsAtFailure (n1 @ n2) res"
        by (rule stopsAtFailure_append)
      ultimately show ?thesis by blast
    qed
  qed
qed

lemma failfast_mountLayer: "failfast (mountLayer env ref pkgRef layer u)"
  by (simp add: mountLayer_def failfast_call failfast_throw isPushReference_def split: option.splits)

lemma failfast_transferLayers: "failfast (transferLayers env ref pkgRef root ls)"
  by (simp add: transferLayers_def failfast_call failfast_forEach failfast_mountLayer
        isPushReference_def)

lemma failfast_bundlePackage: "failfast (bundlePackage env ref pkg manifest)"
  unfolding bundlePackage_def
  by (auto split: sum.splits simp: isPushReference_def
        intro!: failfast_bind failfast_call failfast_throw failfast_return
                failfast_transferLayers)

lemma failfast_pushSignature: "failfast (pushSignature env ref signature manifest)"
  unfolding pushSignature_def
  by (auto simp: isPushReference_def intro!: failfast_bind failfast_call failfast_return)

lemma failfast_pushManifestConfigFromMetadata:
  "failfast (pushManifestConfigFromMetadata env ref m b)"
  unfolding pushManifestConfigFromMetadata_def
  by (auto split: sum.splits simp: isPushReference_def intro!: failfast_call failfast_throw)


section \<open>A failed mount ends the publication\<close>

lemma publishes_failfast: "failfast m \<Longrightarrow> publishes m"
  unfolding publishes_def failfast_def by (erule logs_weaken) simp

lemma endsWithPushReference_append:
  "list_all quiet n1 \<Longrightarrow> endsWithPushReference n2 \<Longrightarrow> endsWithPushReference (n1 @ n2)"
  unfolding endsWithPushReference_def
  by (elim exE conjE) (metis append_assoc list_all_append)

lemma publishes_bind:
  fixes m :: "('w, 'a) action" and f :: "'a \<Rightarrow> ('w, 'b) action"
  assumes "failfast m" and "\<And>a. publishes (f a)"
  shows "publishes (bind m f)"
  unfolding publishes_def
proof (rule logsI)
  fix s res s'
  assume b: "bind m f s = (res, s')"
  from b show "\<exists>new. trace s' = trace s @ new
                 \<and> (stopsAtFailure new res \<or> endsWithPushReference new)"
  proof (cases rule: bind_cases)
    case (failed e)
    from assms(1)[unfolded failfast_def] failed(1)
    obtain n1 where n1: "trace s' = trace s @ n1" "stopsAtFailure n1 (Inl e :: error + 'a)"
      by (rule logsD)
    from stopsAtFailure_Inl[OF n1(2)] failed(2) have "stopsAtFailure n1 res" by simp
    with n1(1) show ?thesis by blast
  next
    case (went_on a s1)
    from assms(1)[unfolded failfast_def] went_on(1)
    obtain n1 where n1: "trace s1 = trace s @ n1" "stopsAtFailure n1 (Inr a :: error + 'a)"
      by (rule logsD)
    from assms(2)[unfolded publishes_def] went_on(2)
    obtain n2 where n2: "trace s' = trace s1 @ n2"
        "stopsAtFailure n2 res \<or> endsWithPushReference n2" by (rule logsD)
    from n1 n2 have "trace s' = trace s @ (n1 @ n2)" by simp
    moreover have "stopsAtFailure (n1 @ n2) res \<or> endsWithPushReference (n1 @ n2)"
    proof -
      from n1(2) have q: "list_all quiet n1" by (rule stopsAtFailure_Inr)
      from n2(2) show ?thesis
      proof
        assume "stopsAtFailure n2 res"
        from stopsAtFailure_append[OF q this] show ?thesis ..
      next
        assume "endsWithPushReference n2"
        from endsWithPushReference_append[OF q this] show ?thesis ..
      qed
    qed
    ultimately show ?thesis by blast
  qed
qed

lemma publishes_wrapped:
  "isPushReference ev \<Longrightarrow>
   publishes (\<lambda>s. case call ev f s of
                    (Inl e, s') \<Rightarrow> (Inl (Wrapf p e), s')
                  | (Inr x, s') \<Rightarrow> (Inr (), s'))"
  unfolding publishes_def
proof (rule logsI)
  fix s res s'
  assume pr: "isPushReference ev"
  assume r: "(case call ev f s of (Inl e, s') \<Rightarrow> (Inl (Wrapf p e), s')
                  | (Inr x, s') \<Rightarrow> (Inr (), s')) = (res, s')"
  obtain r1 s1 where c: "call ev f s = (r1, s1)" by (cases "call ev f s")
  with r have s1: "s1 = s'" by (auto split: sum.splits)
  from c have "\<exists>x. trace s1 = trace s @ [x] \<and> event_of x = ev"
    by (cases rule: call_cases) auto
  then obtain x where x: "trace s' = trace s @ [x]" "event_of x = ev" using s1 by blast
  with pr have "endsWithPushReference [x]"
    unfolding endsWithPushReference_def by (intro exI[of _ "[]"] exI[of _ x]) simp
  with x show "\<exists>new. trace s' = trace s @ new
                 \<and> (stopsAtFailure new res \<or> endsWithPushReference new)" by blast
qed

lemma publishes_pushBundleManifest: "publishes (pushBundleManifest env ref bundle manifest)"
  unfolding pushBundleManifest_def Let_def
  by (auto split: sum.splits simp: isPushReference_def
        intro!: publishes_bind failfast_pushManifestConfigFromMetadata
                publishes_failfast[OF failfast_throw] publishes_wrapped)

lemma publishes_Bundle: "publishes (Bundle env ref bundle signature)"
  unfolding Bundle_def
  by (auto split: sum.splits simp: isPushReference_def
        intro!: publishes_bind failfast_forEach failfast_bundlePackage failfast_call
                failfast_pushSignature publishes_failfast[OF failfast_throw]
                publishes_pushBundleManifest)

text \<open>
  Claim C4. Whenever a blob mount fails during \<^verbatim>\<open>Bundle\<close> (a failed \<open>EvMount\<close> entry
  is among the entries the run appended to the log), \<^verbatim>\<open>Bundle\<close> returns exactly that
  error, the failed mount is the last entry of the log, and every entry before it is
  quiet. So nothing follows the failed mount (no streaming copy as a fallback, no
  further mount, no push) and the bundle manifest was not pushed before it either.
\<close>

theorem mount_failure_is_terminal:
  assumes "Bundle env ref bundle signature s = (res, s')"
      and "Failed (EvMount dst layer src) msg \<in> set (drop (length (trace s)) (trace s'))"
  shows "res = Inl (External msg)
         \<and> (\<exists>before. trace s' = trace s @ before @ [Failed (EvMount dst layer src) msg]
               \<and> list_all quiet before)"
proof -
  from publishes_Bundle[unfolded publishes_def] assms(1)
  obtain new where new: "trace s' = trace s @ new"
      and shape: "stopsAtFailure new res \<or> endsWithPushReference new"
    by (rule logsD)
  from assms(2) new have mem: "Failed (EvMount dst layer src) msg \<in> set new" by simp
  have notquiet: "\<not> quiet (Failed (EvMount dst layer src) msg)" by (simp add: quiet_def)
  from shape show ?thesis
  proof
    assume "stopsAtFailure new res"
    then consider (allquiet) "list_all quiet new"
      | (stopped) before ev m where "new = before @ [Failed ev m]" "list_all quiet before"
          "res = Inl (External m)"
      unfolding stopsAtFailure_def by blast
    then show ?thesis
    proof cases
      case allquiet
      with mem notquiet show ?thesis by (auto simp: list_all_iff)
    next
      case stopped
      with mem notquiet have "Failed ev m = Failed (EvMount dst layer src) msg"
        by (auto simp: list_all_iff)
      with stopped new show ?thesis by auto
    qed
  next
    assume "endsWithPushReference new"
    then obtain before x where b: "new = before @ [x]" "list_all quiet before"
        "isPushReference (event_of x)"
      unfolding endsWithPushReference_def by blast
    with mem notquiet have "x = Failed (EvMount dst layer src) msg"
      by (auto simp: list_all_iff)
    with b(3) show ?thesis by (simp add: isPushReference_def)
  qed
qed

lemmas model_defs = Bundle_def bundlePackage_def transferLayers_def mountLayer_def
  pushSignature_def pushBundleManifest_def pushManifestConfigFromMetadata_def
  bind_def call_def return_def throw_def emit_def call_total_def call_unchecked_def
  ask_def ask_total_def call_FetchManifest_def deferClose_def
  LoadPackageMetadata_def writeAndValidate_def downloadPkgFromRemoteBundle_def
  copyToStore_def verifyLayer_def
  Digest_Encoded_def annotation_def zeroManifest_def zeroDescriptor_def filterLayers_def
  Let_def

lemmas demo_defs = demoEnv_def demoBundle_def demoMetadata_def s0_def demoNewOrasRemote_def
  bundleRef_def pkgRefLocal_def pkgRefRemote_def pkgRoot_def bundleRoot_def
  layerZarfYAML_def layerChecksums_def layerComponent_def layerOptional_def pkgConfig_def
  subManifestDesc_def demoLocate_def demoPackage_def demoRemoteBundle_def AnnotationTitle_def

theorem mount_failure_is_terminal_witness:
  "fst (Bundle mountFailEnv bundleRef demoBundle [] s0) = Inl (External ''mount refused'')
   \<and> (\<exists>before. trace (snd (Bundle mountFailEnv bundleRef demoBundle [] s0))
         = trace s0 @ before @ [Failed (EvMount bundleRef layerChecksums pkgRefLocal) ''mount refused'']
       \<and> list_all quiet before)"
proof -
  have run: "Bundle mountFailEnv bundleRef demoBundle [] s0
      = (fst (Bundle mountFailEnv bundleRef demoBundle [] s0),
         snd (Bundle mountFailEnv bundleRef demoBundle [] s0))" by simp
  have mem: "Failed (EvMount bundleRef layerChecksums pkgRefLocal) ''mount refused''
      \<in> set (drop (length (trace s0)) (trace (snd (Bundle mountFailEnv bundleRef demoBundle [] s0))))"
    by (simp add: mountFailEnv_def refuseChecksumsMount_def model_defs demo_defs)
  from mount_failure_is_terminal[OF run mem] show ?thesis .
qed

section \<open>Streaming copy or blob mount, never both\<close>

lemma mounted_Nil: "mounted env ref pkgRef [] st = st"
  by (simp add: mounted_def mountWorld_def)

lemma mounted_Cons:
  "mounted env ref pkgRef (l # ls) st
     = mounted env ref pkgRef ls
         \<lparr>world = snd (Mount env ref l pkgRef (world st)),
          trace = trace st @ [Done (EvMount ref l pkgRef)]\<rparr>"
  by (simp add: mounted_def mountWorld_def)

lemma mountAccepted_0:
  "mountAccepted env ref pkgRef (l # ls) st 0
     = (Digest_Encoded (desc_Digest l) \<noteq> None \<and> fst (Mount env ref l pkgRef (world st)) = Inr ())"
  by (simp add: mountAccepted_def mounted_Nil)

lemma mountAccepted_Suc:
  "mountAccepted env ref pkgRef (l # ls) st (Suc i)
     = mountAccepted env ref pkgRef ls
         \<lparr>world = snd (Mount env ref l pkgRef (world st)),
          trace = trace st @ [Done (EvMount ref l pkgRef)]\<rparr> i"
  by (simp add: mountAccepted_def mounted_Cons)

lemma mountLoop_run:
  assumes "forEach (mountLayer env ref pkgRef) ls () st = (r, st')"
  shows "\<exists>k\<le>length ls. (\<forall>i<k. mountAccepted env ref pkgRef ls st i)
     \<and> (if k = length ls then r = Inr () \<and> st' = mounted env ref pkgRef ls st
        else \<not> mountAccepted env ref pkgRef ls st k
           \<and> (case Digest_Encoded (desc_Digest (ls ! k)) of
                None \<Rightarrow> r = Inl (Panic ''no ':' separator in digest'')
                         \<and> st' = mounted env ref pkgRef (take k ls) st
              | Some enc \<Rightarrow>
                  \<exists>msg w4. Mount env ref (ls ! k) pkgRef
                             (world (mounted env ref pkgRef (take k ls) st)) = (Inl msg, w4)
                    \<and> r = Inl (External msg)
                    \<and> st' = \<lparr>world = w4,
                             trace = trace (mounted env ref pkgRef (take k ls) st)
                               @ [Failed (EvMount ref (ls ! k) pkgRef) msg]\<rparr>))"
  using assms
proof (induction ls arbitrary: st)
  case Nil
  then show ?case by (simp add: mounted_Nil)
next
  case (Cons l ls)
  show ?case
  proof (cases "Digest_Encoded (desc_Digest l)")
    case None
    with Cons.prems have "r = Inl (Panic ''no ':' separator in digest'')" "st' = st"
      by (simp_all add: mountLayer_def throw_def)
    with None show ?thesis
      by (intro exI[of _ 0]) (simp add: mountAccepted_0 mounted_Nil)
  next
    case (Some enc)
    obtain out w' where m: "Mount env ref l pkgRef (world st) = (out, w')"
      by (cases "Mount env ref l pkgRef (world st)")
    show ?thesis
    proof (cases out)
      case (Inl msg)
      with Some m Cons.prems have "r = Inl (External msg)"
          "st' = \<lparr>world = w', trace = trace st @ [Failed (EvMount ref l pkgRef) msg]\<rparr>"
        by (simp_all add: mountLayer_def call_def)
      with Some m Inl show ?thesis
        by (intro exI[of _ 0]) (simp add: mountAccepted_0 mounted_Nil)
    next
      case (Inr u)
      let ?s1 = "\<lparr>world = snd (Mount env ref l pkgRef (world st)),
                  trace = trace st @ [Done (EvMount ref l pkgRef)]\<rparr>"
      from Some m Inr have "mountLayer env ref pkgRef l () st = (Inr (), ?s1)"
        by (simp add: mountLayer_def call_def)
      with Cons.prems
      have "forEach (mountLayer env ref pkgRef) ls () ?s1 = (r, st')"
        by simp
      from Cons.IH[OF this]
      obtain k where k: "k \<le> length ls" "\<forall>i<k. mountAccepted env ref pkgRef ls ?s1 i"
        "if k = length ls then r = Inr () \<and> st' = mounted env ref pkgRef ls ?s1
        else \<not> mountAccepted env ref pkgRef ls ?s1 k
           \<and> (case Digest_Encoded (desc_Digest (ls ! k)) of
                None \<Rightarrow> r = Inl (Panic ''no ':' separator in digest'')
                         \<and> st' = mounted env ref pkgRef (take k ls) ?s1
              | Some enc \<Rightarrow>
                  \<exists>msg w4. Mount env ref (ls ! k) pkgRef
                             (world (mounted env ref pkgRef (take k ls) ?s1)) = (Inl msg, w4)
                    \<and> r = Inl (External msg)
                    \<and> st' = \<lparr>world = w4,
                             trace = trace (mounted env ref pkgRef (take k ls) ?s1)
                               @ [Failed (EvMount ref (ls ! k) pkgRef) msg]\<rparr>)"
        by blast
      have first: "mountAccepted env ref pkgRef (l # ls) st 0"
        using Some m Inr by (simp add: mountAccepted_0)
      have all: "\<forall>i<Suc k. mountAccepted env ref pkgRef (l # ls) st i"
      proof (intro allI impI)
        fix i assume "i < Suc k"
        then show "mountAccepted env ref pkgRef (l # ls) st i"
          using first k(2) by (cases i) (simp_all add: mountAccepted_Suc)
      qed
      from k(1) k(3) all show ?thesis
        by (intro exI[of _ "Suc k"])
           (simp add: mountAccepted_Suc mounted_Cons cong: option.case_cong)
    qed
  qed
qed

lemma forEach_append:
  "forEach body (xs @ ys) acc s
     = (case forEach body xs acc s of
          (Inl e, s') \<Rightarrow> (Inl e, s')
        | (Inr acc', s') \<Rightarrow> forEach body ys acc' s')"
  by (induction xs arbitrary: acc s) (auto split: prod.splits sum.splits)

lemma forEach_single: "forEach body [x] acc s = body x acc s"
  by (auto split: prod.splits sum.splits)

lemma bundlePackage_transfer:
  assumes "NewOrasRemote env (pkg_Repository pkg @ '':'' @ pkg_Ref pkg) = Inr pkgRef"
    and "FetchRoot env pkgRef (world s1) = (Inr root, w1)"
    and "jsonMarshalManifest env root = Inr manifestBytes"
    and "PushLayer env ref manifestBytes (ZarfLayerMediaTypeBlob env) w1 = (Inr manifestDesc, w2)"
    and "LayersFromRequestedComponents env pkgRef (pkg_OptionalComponents pkg) w2
           = (Inr layersFromComponents, w3)"
  shows "bundlePackage env ref pkg manifest s1
     = (case transferLayers env ref pkgRef root
               (layersFromComponents @ metadataLayers env root (PackageAlwaysPull env))
               \<lparr>world = w3,
                trace = trace s1
                  @ [Done (EvFetchRoot pkgRef),
                     Done (EvPushLayer ref manifestBytes (ZarfLayerMediaTypeBlob env)),
                     Done (EvLayersFromRequestedComponents pkgRef (pkg_OptionalComponents pkg))]\<rparr> of
          (Inl e, s2) \<Rightarrow> (Inl e, s2)
        | (Inr u, s2) \<Rightarrow>
            (Inr (manifest\<lparr>man_Layers := man_Layers manifest
                    @ [manifestDesc\<lparr>desc_MediaType := MediaTypeImageManifest\<rparr>]\<rparr>), s2))"
  using assms
  by (simp add: bundlePackage_def bind_def call_def return_def split: prod.splits sum.splits)

lemma Bundle_afterPackages:
  "Bundle env ref bundle signature =
     (if Architecture (Metadata bundle) = []
      then throw (Errorf ''architecture is required for bundling'')
      else bind (forEach (bundlePackage env ref) (ZarfPackages bundle) zeroManifest)
             (afterPackages env ref bundle signature))"
  unfolding Bundle_def afterPackages_def by (rule refl)

lemma silent_wrapped:
  "ok (Done ev) \<Longrightarrow> (\<And>msg. ok (Failed ev msg)) \<Longrightarrow>
   silent ok (\<lambda>s. case call ev f s of
                    (Inl e, s') \<Rightarrow> (Inl (Wrapf p e), s')
                  | (Inr x, s') \<Rightarrow> (Inr (), s'))"
  unfolding silent_def by (rule logsI) (auto simp: call_def split: prod.splits sum.splits)

lemma silent_transferLayers:
  "silent (pathMatchesRegistry ref) (transferLayers env ref pkgRef root ls)"
  unfolding transferLayers_def mountLayer_def
  by (auto simp: pathMatchesRegistry_def split: option.splits
        intro!: silent_call silent_forEach silent_throw)

lemma silent_bundlePackage:
  "silent (pathMatchesRegistry ref) (bundlePackage env ref pkg manifest)"
  unfolding bundlePackage_def
  by (auto simp: pathMatchesRegistry_def split: sum.splits
        intro!: silent_bind silent_call silent_throw silent_return silent_transferLayers)

lemma silent_afterPackages:
  "silent (pathMatchesRegistry ref) (afterPackages env ref bundle signature manifest)"
  unfolding afterPackages_def pushSignature_def pushBundleManifest_def
    pushManifestConfigFromMetadata_def Let_def
  by (auto simp: pathMatchesRegistry_def split: sum.splits
        intro!: silent_bind silent_call silent_throw silent_return silent_wrapped)

lemma silent_publish_rest:
  "silent (pathMatchesRegistry ref)
     (bind (forEach (bundlePackage env ref) pkgs m) (afterPackages env ref bundle signature))"
  by (intro silent_bind silent_forEach silent_bundlePackage silent_afterPackages)

lemma silent_Bundle: "silent (pathMatchesRegistry ref) (Bundle env ref bundle signature)"
  unfolding Bundle_afterPackages by (simp add: silent_throw silent_publish_rest)


lemma filterLayers_iff:
  "filterLayers layersToCopy d = (desc_Digest d \<in> desc_Digest ` set layersToCopy)"
proof
  assume "filterLayers layersToCopy d"
  then obtain layer where "layer \<in> set layersToCopy" "desc_Digest layer = desc_Digest d"
    by (auto simp: filterLayers_def list_ex_iff)
  then show "desc_Digest d \<in> desc_Digest ` set layersToCopy" by (metis imageI)
next
  assume "desc_Digest d \<in> desc_Digest ` set layersToCopy"
  then obtain layer where "layer \<in> set layersToCopy" "desc_Digest d = desc_Digest layer"
    by auto
  then show "filterLayers layersToCopy d" by (auto simp: filterLayers_def list_ex_iff)
qed

text \<open>
  Claim C3. Take a run of \<^verbatim>\<open>Bundle\<close> and any package \<open>pkg\<close> of \<^verbatim>\<open>bundle.ZarfPackages\<close>
  that the run reaches with its transfer: the packages before it were processed without
  an error, and for \<open>pkg\<close> the remote was built, the root manifest fetched, serialised and
  pushed, and the layers of the requested components listed. The selected layers are
  those layers followed by the always-pulled layers that the root manifest holds.
  Then:

  \<^item> every mount the run logs goes to \<open>ref\<close> from a repository of the same registry, and
    every streaming copy the run logs goes to \<open>ref\<close> from another registry;
  \<^item> when the registry of \<open>pkg\<close> differs from the registry of \<open>ref\<close>, the transfer of
    \<open>pkg\<close> is the single call \<^verbatim>\<open>CopyPackage\<close> of the environment, made right after the
    listing of the layers, with a filter that accepts a descriptor exactly when its
    digest is the digest of a selected layer; its error is the error of \<^verbatim>\<open>Bundle\<close> and
    ends the run, and on success the package is done with nothing but that call logged;
  \<^item> when the registries are equal, the transfer of \<open>pkg\<close> is the sequence of mounts of
    the environment, one per selected layer in order and then one for the config blob of
    the root manifest, each on the world the one before left: either all of them are
    accepted and the package is done with nothing but these mounts logged, or the run
    ends at the first one that is not accepted, with its error, after the mounts of the
    layers before it.
\<close>

theorem transfer_paths_exclusive:
  fixes env :: "'w env"
  assumes run: "Bundle env ref bundle signature s = (res, s')"
    and arch: "Architecture (Metadata bundle) \<noteq> []"
    and pkgs: "ZarfPackages bundle = earlier @ pkg # later"
    and earlier: "forEach (bundlePackage env ref) earlier zeroManifest s = (Inr manifest, s1)"
    and remote: "NewOrasRemote env (pkg_Repository pkg @ '':'' @ pkg_Ref pkg) = Inr pkgRef"
    and root: "FetchRoot env pkgRef (world s1) = (Inr root, w1)"
    and bytes: "jsonMarshalManifest env root = Inr manifestBytes"
    and push: "PushLayer env ref manifestBytes (ZarfLayerMediaTypeBlob env) w1
                 = (Inr manifestDesc, w2)"
    and comps: "LayersFromRequestedComponents env pkgRef (pkg_OptionalComponents pkg) w2
                 = (Inr layersFromComponents, w3)"
    and selected: "selected = layersFromComponents @ metadataLayers env root (PackageAlwaysPull env)"
    and start: "atTransfer =
           \<lparr>world = w3,
            trace = trace s1
              @ [Done (EvFetchRoot pkgRef),
                 Done (EvPushLayer ref manifestBytes (ZarfLayerMediaTypeBlob env)),
                 Done (EvLayersFromRequestedComponents pkgRef (pkg_OptionalComponents pkg))]\<rparr>"
    and processed: "processed = manifest\<lparr>man_Layers := man_Layers manifest
                    @ [manifestDesc\<lparr>desc_MediaType := MediaTypeImageManifest\<rparr>]\<rparr>"
  shows "list_all (pathMatchesRegistry ref) (drop (length (trace s)) (trace s'))
     \<and> (Registry pkgRef \<noteq> Registry ref \<longrightarrow>
          (\<forall>d. filterLayers selected d = (desc_Digest d \<in> desc_Digest ` set selected))
          \<and> (\<exists>outcome w4.
               CopyPackage env pkgRef ref (filterLayers selected) (OCIConcurrency env)
                 (world atTransfer) = (outcome, w4)
               \<and> (case outcome of
                    Inl msg \<Rightarrow>
                      res = Inl (External msg)
                      \<and> s' = \<lparr>world = w4,
                              trace = trace atTransfer
                                @ [Failed (EvCopyPackage pkgRef ref (filterLayers selected)
                                             (OCIConcurrency env)) msg]\<rparr>
                  | Inr u \<Rightarrow>
                      forEach (bundlePackage env ref) (earlier @ [pkg]) zeroManifest s
                        = (Inr processed,
                           \<lparr>world = w4,
                            trace = trace atTransfer
                              @ [Done (EvCopyPackage pkgRef ref (filterLayers selected)
                                         (OCIConcurrency env))]\<rparr>)
                      \<and> (\<exists>rest. trace s' = trace atTransfer
                              @ [Done (EvCopyPackage pkgRef ref (filterLayers selected)
                                         (OCIConcurrency env))] @ rest))))
     \<and> (Registry pkgRef = Registry ref \<longrightarrow>
          (\<exists>k\<le>length (selected @ [man_Config root]).
             (\<forall>i<k. mountAccepted env ref pkgRef (selected @ [man_Config root]) atTransfer i)
             \<and> (if k = length (selected @ [man_Config root])
                then forEach (bundlePackage env ref) (earlier @ [pkg]) zeroManifest s
                       = (Inr processed,
                          mounted env ref pkgRef (selected @ [man_Config root]) atTransfer)
                     \<and> (\<exists>rest. trace s'
                            = trace (mounted env ref pkgRef (selected @ [man_Config root]) atTransfer)
                              @ rest)
                else \<not> mountAccepted env ref pkgRef (selected @ [man_Config root]) atTransfer k
                   \<and> (case Digest_Encoded (desc_Digest ((selected @ [man_Config root]) ! k)) of
                        None \<Rightarrow>
                          res = Inl (Panic ''no ':' separator in digest'')
                          \<and> s' = mounted env ref pkgRef
                                  (take k (selected @ [man_Config root])) atTransfer
                      | Some enc \<Rightarrow>
                          \<exists>msg w4.
                            Mount env ref ((selected @ [man_Config root]) ! k) pkgRef
                              (world (mounted env ref pkgRef
                                        (take k (selected @ [man_Config root])) atTransfer))
                              = (Inl msg, w4)
                            \<and> res = Inl (External msg)
                            \<and> s' = \<lparr>world = w4,
                                    trace = trace (mounted env ref pkgRef
                                               (take k (selected @ [man_Config root])) atTransfer)
                                      @ [Failed (EvMount ref ((selected @ [man_Config root]) ! k)
                                                   pkgRef) msg]\<rparr>))))"
proof -
  let ?ls = "selected @ [man_Config root]"
  let ?copy = "EvCopyPackage pkgRef ref (filterLayers selected) (OCIConcurrency env)"
  have bp: "bundlePackage env ref pkg manifest s1
      = (case transferLayers env ref pkgRef root selected atTransfer of
           (Inl e, s2) \<Rightarrow> (Inl e, s2)
         | (Inr u, s2) \<Rightarrow> (Inr processed, s2))"
    unfolding selected start processed
    by (rule bundlePackage_transfer[OF remote root bytes push comps])
  have step: "forEach (bundlePackage env ref) (earlier @ [pkg]) zeroManifest s
      = bundlePackage env ref pkg manifest s1"
    using earlier by (simp add: forEach_append split: prod.splits sum.splits)
  have B: "Bundle env ref bundle signature s
      = (case bundlePackage env ref pkg manifest s1 of
           (Inl e, s2) \<Rightarrow> (Inl e, s2)
         | (Inr m', s2) \<Rightarrow>
             bind (forEach (bundlePackage env ref) later m')
               (afterPackages env ref bundle signature) s2)"
    using arch pkgs earlier
    by (simp add: Bundle_afterPackages forEach_append bind_def split: prod.splits sum.splits)
  have tail: "\<exists>rest. trace s' = trace s2 @ rest"
    if "bind (forEach (bundlePackage env ref) later m')
          (afterPackages env ref bundle signature) s2 = (res, s')" for m' s2
  proof -
    from silent_publish_rest[of ref env later "m'" "bundle" signature, unfolded silent_def] that
    obtain new where "trace s' = trace s2 @ new" by (rule logsD)
    then show ?thesis by blast
  qed
  have A: "list_all (pathMatchesRegistry ref) (drop (length (trace s)) (trace s'))"
  proof -
    from silent_Bundle[of ref env "bundle" signature, unfolded silent_def] run
    obtain new where "trace s' = trace s @ new" "list_all (pathMatchesRegistry ref) new"
      by (rule logsD)
    then show ?thesis by simp
  qed
  have C: "\<exists>outcome w4.
               CopyPackage env pkgRef ref (filterLayers selected) (OCIConcurrency env)
                 (world atTransfer) = (outcome, w4)
               \<and> (case outcome of
                    Inl msg \<Rightarrow>
                      res = Inl (External msg)
                      \<and> s' = \<lparr>world = w4, trace = trace atTransfer @ [Failed ?copy msg]\<rparr>
                  | Inr u \<Rightarrow>
                      forEach (bundlePackage env ref) (earlier @ [pkg]) zeroManifest s
                        = (Inr processed,
                           \<lparr>world = w4, trace = trace atTransfer @ [Done ?copy]\<rparr>)
                      \<and> (\<exists>rest. trace s' = trace atTransfer @ [Done ?copy] @ rest))"
    if d: "Registry pkgRef \<noteq> Registry ref"
  proof -
    obtain outcome w4 where c: "CopyPackage env pkgRef ref (filterLayers selected)
        (OCIConcurrency env) (world atTransfer) = (outcome, w4)"
      by (cases "CopyPackage env pkgRef ref (filterLayers selected)
        (OCIConcurrency env) (world atTransfer)")
    show ?thesis
    proof (cases outcome)
      case (Inl msg)
      with c d have "transferLayers env ref pkgRef root selected atTransfer
          = (Inl (External msg), \<lparr>world = w4, trace = trace atTransfer @ [Failed ?copy msg]\<rparr>)"
        by (simp add: transferLayers_def call_def)
      with bp B run have "res = Inl (External msg)
          \<and> s' = \<lparr>world = w4, trace = trace atTransfer @ [Failed ?copy msg]\<rparr>" by simp
      with c Inl show ?thesis by (intro exI[of _ outcome] exI[of _ w4]) simp
    next
      case (Inr u)
      with c d have "transferLayers env ref pkgRef root selected atTransfer
          = (Inr (), \<lparr>world = w4, trace = trace atTransfer @ [Done ?copy]\<rparr>)"
        by (simp add: transferLayers_def call_def)
      with bp have b: "bundlePackage env ref pkg manifest s1
          = (Inr processed, \<lparr>world = w4, trace = trace atTransfer @ [Done ?copy]\<rparr>)" by simp
      with B run have "bind (forEach (bundlePackage env ref) later processed)
          (afterPackages env ref bundle signature)
          \<lparr>world = w4, trace = trace atTransfer @ [Done ?copy]\<rparr> = (res, s')" by simp
      from tail[OF this] obtain rest where "trace s' = trace atTransfer @ [Done ?copy] @ rest"
        by auto
      with b step c Inr show ?thesis by (intro exI[of _ outcome] exI[of _ w4]) simp
    qed
  qed
  have D: "\<exists>k\<le>length ?ls.
             (\<forall>i<k. mountAccepted env ref pkgRef ?ls atTransfer i)
             \<and> (if k = length ?ls
                then forEach (bundlePackage env ref) (earlier @ [pkg]) zeroManifest s
                       = (Inr processed, mounted env ref pkgRef ?ls atTransfer)
                     \<and> (\<exists>rest. trace s' = trace (mounted env ref pkgRef ?ls atTransfer) @ rest)
                else \<not> mountAccepted env ref pkgRef ?ls atTransfer k
                   \<and> (case Digest_Encoded (desc_Digest (?ls ! k)) of
                        None \<Rightarrow>
                          res = Inl (Panic ''no ':' separator in digest'')
                          \<and> s' = mounted env ref pkgRef (take k ?ls) atTransfer
                      | Some enc \<Rightarrow>
                          \<exists>msg w4.
                            Mount env ref (?ls ! k) pkgRef
                              (world (mounted env ref pkgRef (take k ?ls) atTransfer))
                              = (Inl msg, w4)
                            \<and> res = Inl (External msg)
                            \<and> s' = \<lparr>world = w4,
                                    trace = trace (mounted env ref pkgRef (take k ?ls) atTransfer)
                                      @ [Failed (EvMount ref (?ls ! k) pkgRef) msg]\<rparr>))"
    if e: "Registry pkgRef = Registry ref"
  proof -
    obtain r st4 where loop: "forEach (mountLayer env ref pkgRef) ?ls () atTransfer = (r, st4)"
      by (cases "forEach (mountLayer env ref pkgRef) ?ls () atTransfer")
    with e have t: "transferLayers env ref pkgRef root selected atTransfer = (r, st4)"
      by (simp add: transferLayers_def)
    from mountLoop_run[OF loop]
    obtain k where k: "k \<le> length ?ls"
        "\<forall>i<k. mountAccepted env ref pkgRef ?ls atTransfer i"
        "if k = length ?ls then r = Inr () \<and> st4 = mounted env ref pkgRef ?ls atTransfer
         else \<not> mountAccepted env ref pkgRef ?ls atTransfer k
           \<and> (case Digest_Encoded (desc_Digest (?ls ! k)) of
                None \<Rightarrow> r = Inl (Panic ''no ':' separator in digest'')
                         \<and> st4 = mounted env ref pkgRef (take k ?ls) atTransfer
              | Some enc \<Rightarrow>
                  \<exists>msg w4. Mount env ref (?ls ! k) pkgRef
                             (world (mounted env ref pkgRef (take k ?ls) atTransfer)) = (Inl msg, w4)
                    \<and> r = Inl (External msg)
                    \<and> st4 = \<lparr>world = w4,
                             trace = trace (mounted env ref pkgRef (take k ?ls) atTransfer)
                               @ [Failed (EvMount ref (?ls ! k) pkgRef) msg]\<rparr>)"
      by blast
    show ?thesis
    proof (cases "k = length ?ls")
      case True
      with k(3) have "r = Inr ()" "st4 = mounted env ref pkgRef ?ls atTransfer" by simp_all
      with t bp have b: "bundlePackage env ref pkg manifest s1
          = (Inr processed, mounted env ref pkgRef ?ls atTransfer)" by simp
      with B run have "bind (forEach (bundlePackage env ref) later processed)
          (afterPackages env ref bundle signature)
          (mounted env ref pkgRef ?ls atTransfer) = (res, s')" by simp
      from tail[OF this] obtain rest
        where "trace s' = trace (mounted env ref pkgRef ?ls atTransfer) @ rest" by blast
      then have "\<exists>rest. trace s' = trace (mounted env ref pkgRef ?ls atTransfer) @ rest" by blast
      with b step k(1,2) True show ?thesis
        by (intro exI[of _ k]) simp
    next
      case False
      with k(3) have nk: "\<not> mountAccepted env ref pkgRef ?ls atTransfer k"
        and cs: "case Digest_Encoded (desc_Digest (?ls ! k)) of
                None \<Rightarrow> r = Inl (Panic ''no ':' separator in digest'')
                         \<and> st4 = mounted env ref pkgRef (take k ?ls) atTransfer
              | Some enc \<Rightarrow>
                  \<exists>msg w4. Mount env ref (?ls ! k) pkgRef
                             (world (mounted env ref pkgRef (take k ?ls) atTransfer)) = (Inl msg, w4)
                    \<and> r = Inl (External msg)
                    \<and> st4 = \<lparr>world = w4,
                             trace = trace (mounted env ref pkgRef (take k ?ls) atTransfer)
                               @ [Failed (EvMount ref (?ls ! k) pkgRef) msg]\<rparr>"
        by simp_all
      from cs obtain e where "r = Inl e" by (auto split: option.splits)
      with t bp B run have rs: "res = r" "s' = st4" by simp_all
      from cs nk k(1,2) False show ?thesis
        unfolding rs by (intro exI[of _ k]) simp
    qed
  qed
  from A C D show ?thesis by (simp add: filterLayers_iff)
qed


theorem transfer_paths_exclusive_witness:
  "Registry pkgRefRemote \<noteq> Registry bundleRef
   \<and> list_all (pathMatchesRegistry bundleRef)
         (trace (snd (Bundle demoEnv bundleRef crossBundle [] s0)))
   \<and> (\<exists>rest. trace (snd (Bundle demoEnv bundleRef crossBundle [] s0))
          = [Done (EvFetchRoot pkgRefRemote),
             Done (EvPushLayer bundleRef [1] ''application/vnd.zarf.layer.v1.blob''),
             Done (EvLayersFromRequestedComponents pkgRefRemote []),
             Done (EvCopyPackage pkgRefRemote bundleRef
                     (filterLayers [layerComponent, layerZarfYAML, layerChecksums]) 3)] @ rest)
   \<and> Registry pkgRefLocal = Registry bundleRef
   \<and> fst (Bundle demoEnv bundleRef demoBundle [] s0) = Inr ()
   \<and> (\<exists>rest. trace (snd (Bundle demoEnv bundleRef demoBundle [] s0))
          = [Done (EvFetchRoot pkgRefLocal),
             Done (EvPushLayer bundleRef [1] ''application/vnd.zarf.layer.v1.blob''),
             Done (EvLayersFromRequestedComponents pkgRefLocal [])]
            @ map (\<lambda>l. Done (EvMount bundleRef l pkgRefLocal))
                [layerComponent, layerZarfYAML, layerChecksums, pkgConfig] @ rest)"
proof -
  let ?desc = "\<lparr>desc_MediaType = ZarfLayerMediaTypeBlob demoEnv, desc_Digest = ''sha256:11'',
                 desc_Size = 1, desc_Annotations = Map.empty\<rparr>"
  let ?selected = "[layerComponent, layerZarfYAML, layerChecksums]"
  have bytes: "jsonMarshalManifest demoEnv pkgRoot = Inr [1]" by (simp add: demoEnv_def)
  have push: "PushLayer demoEnv bundleRef [1] (ZarfLayerMediaTypeBlob demoEnv) () = (Inr ?desc, ())"
    by (simp add: demoEnv_def)
  have sel: "?selected = [layerComponent] @ metadataLayers demoEnv pkgRoot (PackageAlwaysPull demoEnv)"
    by (simp add: demo_defs annotation_def zeroDescriptor_def)
  have empty: "forEach (bundlePackage demoEnv bundleRef) [] zeroManifest s0 = (Inr zeroManifest, s0)"
    by simp
  have cfg: "man_Config pkgRoot = pkgConfig" by (simp add: pkgRoot_def)

  let ?pkgR = "\<lparr>pkg_Name = ''app'', pkg_Repository = ''ghcr.io/pkgs/app'',
                 pkg_Ref = ''1.0'', pkg_OptionalComponents = []\<rparr>"
  let ?stR = "\<lparr>world = (),
               trace = [Done (EvFetchRoot pkgRefRemote),
                        Done (EvPushLayer bundleRef [1] ''application/vnd.zarf.layer.v1.blob''),
                        Done (EvLayersFromRequestedComponents pkgRefRemote [])]\<rparr>"
  have differ: "Registry pkgRefRemote \<noteq> Registry bundleRef"
    by (simp add: pkgRefRemote_def bundleRef_def)
  have runR: "Bundle demoEnv bundleRef crossBundle [] s0
      = (fst (Bundle demoEnv bundleRef crossBundle [] s0),
         snd (Bundle demoEnv bundleRef crossBundle [] s0))" by simp
  have archR: "Architecture (Metadata crossBundle) \<noteq> []"
    by (simp add: crossBundle_def demoMetadata_def)
  have pkgsR: "ZarfPackages crossBundle = [] @ ?pkgR # []" by (simp add: crossBundle_def)
  have remoteR: "NewOrasRemote demoEnv (pkg_Repository ?pkgR @ '':'' @ pkg_Ref ?pkgR) = Inr pkgRefRemote"
    by (simp add: demoEnv_def demoNewOrasRemote_def pkgRefRemote_def)
  have rootR: "FetchRoot demoEnv pkgRefRemote (world s0) = (Inr pkgRoot, ())"
    by (simp add: demoEnv_def pkgRefRemote_def)
  have compsR: "LayersFromRequestedComponents demoEnv pkgRefRemote (pkg_OptionalComponents ?pkgR) ()
      = (Inr [layerComponent], ())" by (simp add: demoEnv_def)
  have startR: "?stR = \<lparr>world = (),
      trace = trace s0
        @ [Done (EvFetchRoot pkgRefRemote),
           Done (EvPushLayer bundleRef [1] (ZarfLayerMediaTypeBlob demoEnv)),
           Done (EvLayersFromRequestedComponents pkgRefRemote (pkg_OptionalComponents ?pkgR))]\<rparr>"
    by (simp add: s0_def demoEnv_def)
  have copied: "CopyPackage demoEnv pkgRefRemote bundleRef (filterLayers ?selected)
      (OCIConcurrency demoEnv) (world ?stR) = (Inr (), ())" by (simp add: demoEnv_def)
  have conc: "OCIConcurrency demoEnv = 3" by (simp add: demoEnv_def)
  note R = transfer_paths_exclusive[OF runR archR pkgsR empty remoteR rootR bytes push compsR
             sel startR refl]
  from R have logR: "list_all (pathMatchesRegistry bundleRef)
         (trace (snd (Bundle demoEnv bundleRef crossBundle [] s0)))"
    by (simp add: s0_def)
  from R differ obtain outcome w4 where
      "CopyPackage demoEnv pkgRefRemote bundleRef (filterLayers ?selected)
         (OCIConcurrency demoEnv) (world ?stR) = (outcome, w4)"
      and caseR: "case outcome of
           Inl msg \<Rightarrow> fst (Bundle demoEnv bundleRef crossBundle [] s0) = Inl (External msg)
              \<and> snd (Bundle demoEnv bundleRef crossBundle [] s0)
                  = \<lparr>world = w4,
                     trace = trace ?stR
                       @ [Failed (EvCopyPackage pkgRefRemote bundleRef (filterLayers ?selected)
                                    (OCIConcurrency demoEnv)) msg]\<rparr>
         | Inr u \<Rightarrow>
             forEach (bundlePackage demoEnv bundleRef) ([] @ [?pkgR]) zeroManifest s0
               = (Inr (zeroManifest\<lparr>man_Layers := man_Layers zeroManifest
                         @ [?desc\<lparr>desc_MediaType := MediaTypeImageManifest\<rparr>]\<rparr>),
                  \<lparr>world = w4,
                   trace = trace ?stR
                     @ [Done (EvCopyPackage pkgRefRemote bundleRef (filterLayers ?selected)
                                (OCIConcurrency demoEnv))]\<rparr>)
             \<and> (\<exists>rest. trace (snd (Bundle demoEnv bundleRef crossBundle [] s0))
                    = trace ?stR
                      @ [Done (EvCopyPackage pkgRefRemote bundleRef (filterLayers ?selected)
                                 (OCIConcurrency demoEnv))] @ rest)"
    by blast
  with copied have "outcome = Inr ()" by simp
  with caseR conc have copyR: "\<exists>rest. trace (snd (Bundle demoEnv bundleRef crossBundle [] s0))
          = [Done (EvFetchRoot pkgRefRemote),
             Done (EvPushLayer bundleRef [1] ''application/vnd.zarf.layer.v1.blob''),
             Done (EvLayersFromRequestedComponents pkgRefRemote []),
             Done (EvCopyPackage pkgRefRemote bundleRef (filterLayers ?selected) 3)] @ rest"
    by simp

  let ?pkgL = "\<lparr>pkg_Name = ''app'', pkg_Repository = ''localhost:5000/pkgs/app'',
                 pkg_Ref = ''1.0'', pkg_OptionalComponents = []\<rparr>"
  let ?stL = "\<lparr>world = (),
               trace = [Done (EvFetchRoot pkgRefLocal),
                        Done (EvPushLayer bundleRef [1] ''application/vnd.zarf.layer.v1.blob''),
                        Done (EvLayersFromRequestedComponents pkgRefLocal [])]\<rparr>"
  let ?ls = "?selected @ [man_Config pkgRoot]"
  have same: "Registry pkgRefLocal = Registry bundleRef"
    by (simp add: pkgRefLocal_def bundleRef_def)
  have ok: "fst (Bundle demoEnv bundleRef demoBundle [] s0) = Inr ()"
    by (simp add: model_defs demo_defs)
  have runL: "Bundle demoEnv bundleRef demoBundle [] s0
      = (fst (Bundle demoEnv bundleRef demoBundle [] s0),
         snd (Bundle demoEnv bundleRef demoBundle [] s0))" by simp
  have archL: "Architecture (Metadata demoBundle) \<noteq> []"
    by (simp add: demoBundle_def demoMetadata_def)
  have pkgsL: "ZarfPackages demoBundle = [] @ ?pkgL # []" by (simp add: demoBundle_def)
  have remoteL: "NewOrasRemote demoEnv (pkg_Repository ?pkgL @ '':'' @ pkg_Ref ?pkgL) = Inr pkgRefLocal"
    by (simp add: demoEnv_def demoNewOrasRemote_def pkgRefLocal_def)
  have rootL: "FetchRoot demoEnv pkgRefLocal (world s0) = (Inr pkgRoot, ())"
    by (simp add: demoEnv_def pkgRefLocal_def)
  have compsL: "LayersFromRequestedComponents demoEnv pkgRefLocal (pkg_OptionalComponents ?pkgL) ()
      = (Inr [layerComponent], ())" by (simp add: demoEnv_def)
  have startL: "?stL = \<lparr>world = (),
      trace = trace s0
        @ [Done (EvFetchRoot pkgRefLocal),
           Done (EvPushLayer bundleRef [1] (ZarfLayerMediaTypeBlob demoEnv)),
           Done (EvLayersFromRequestedComponents pkgRefLocal (pkg_OptionalComponents ?pkgL))]\<rparr>"
    by (simp add: s0_def demoEnv_def)
  note L = transfer_paths_exclusive[OF runL archL pkgsL empty remoteL rootL bytes push compsL
             sel startL refl]
  from L same obtain k where
      k: "if k = length ?ls
          then forEach (bundlePackage demoEnv bundleRef) ([] @ [?pkgL]) zeroManifest s0
                 = (Inr (zeroManifest\<lparr>man_Layers := man_Layers zeroManifest
                           @ [?desc\<lparr>desc_MediaType := MediaTypeImageManifest\<rparr>]\<rparr>),
                    mounted demoEnv bundleRef pkgRefLocal ?ls ?stL)
               \<and> (\<exists>rest. trace (snd (Bundle demoEnv bundleRef demoBundle [] s0))
                      = trace (mounted demoEnv bundleRef pkgRefLocal ?ls ?stL) @ rest)
          else \<not> mountAccepted demoEnv bundleRef pkgRefLocal ?ls ?stL k
             \<and> (case Digest_Encoded (desc_Digest (?ls ! k)) of
                  None \<Rightarrow>
                    fst (Bundle demoEnv bundleRef demoBundle [] s0)
                      = Inl (Panic ''no ':' separator in digest'')
                    \<and> snd (Bundle demoEnv bundleRef demoBundle [] s0)
                        = mounted demoEnv bundleRef pkgRefLocal (take k ?ls) ?stL
                | Some enc \<Rightarrow>
                    \<exists>msg w4.
                      Mount demoEnv bundleRef (?ls ! k) pkgRefLocal
                        (world (mounted demoEnv bundleRef pkgRefLocal (take k ?ls) ?stL))
                        = (Inl msg, w4)
                      \<and> fst (Bundle demoEnv bundleRef demoBundle [] s0) = Inl (External msg)
                      \<and> snd (Bundle demoEnv bundleRef demoBundle [] s0)
                          = \<lparr>world = w4,
                             trace = trace (mounted demoEnv bundleRef pkgRefLocal (take k ?ls) ?stL)
                               @ [Failed (EvMount bundleRef (?ls ! k) pkgRefLocal) msg]\<rparr>)"
    by blast
  have "k = length ?ls"
  proof (rule ccontr)
    assume "k \<noteq> length ?ls"
    with k ok show False by (auto split: option.splits)
  qed
  with k have "\<exists>rest. trace (snd (Bundle demoEnv bundleRef demoBundle [] s0))
                      = trace (mounted demoEnv bundleRef pkgRefLocal ?ls ?stL) @ rest" by simp
  with cfg have mountL: "\<exists>rest. trace (snd (Bundle demoEnv bundleRef demoBundle [] s0))
          = [Done (EvFetchRoot pkgRefLocal),
             Done (EvPushLayer bundleRef [1] ''application/vnd.zarf.layer.v1.blob''),
             Done (EvLayersFromRequestedComponents pkgRefLocal [])]
            @ map (\<lambda>l. Done (EvMount bundleRef l pkgRefLocal))
                [layerComponent, layerZarfYAML, layerChecksums, pkgConfig] @ rest"
    by (simp add: mounted_def)
  from differ logR copyR same ok mountL show ?thesis by blast
qed


section \<open>The metadata is validated in partial mode\<close>

lemma validationModes_append [simp]:
  "validationModes (xs @ ys) = validationModes xs @ validationModes ys"
  by (simp add: validationModes_def)

lemma validationModes_Nil [simp]: "validationModes [] = []"
  by (simp add: validationModes_def)

lemma validationModes_quiet: "list_all noValidation new \<Longrightarrow> validationModes new = []"
  by (induction new) (auto simp: noValidation_def validationModes_def)

lemma validatesOnce_bind:
  fixes m :: "('w, 'a) action" and f :: "'a \<Rightarrow> ('w, 'b) action"
  assumes "silent noValidation m" and "\<And>a. validatesOnce (f a)"
  shows "validatesOnce (bind m f)"
  unfolding validatesOnce_def
proof (rule logsI)
  fix s res s'
  assume "bind m f s = (res, s')"
  then show "\<exists>new. trace s' = trace s @ new
               \<and> ((\<exists>a. res = Inr a) \<longrightarrow> validationModes new = [True])"
  proof (cases rule: bind_cases)
    case (failed e)
    from assms(1)[unfolded silent_def] failed(1)
    obtain n1 where "trace s' = trace s @ n1" by (rule logsD)
    with failed(2) show ?thesis by auto
  next
    case (went_on a s1)
    from assms(1)[unfolded silent_def] went_on(1)
    obtain n1 where n1: "trace s1 = trace s @ n1" "list_all noValidation n1" by (rule logsD)
    from assms(2)[unfolded validatesOnce_def] went_on(2)
    obtain n2 where n2: "trace s' = trace s1 @ n2"
        "(\<exists>a. res = Inr a) \<longrightarrow> validationModes n2 = [True]" by (rule logsD)
    from n1 n2 have "trace s' = trace s @ (n1 @ n2)" by simp
    moreover from n1(2) n2(2) have "(\<exists>a. res = Inr a) \<longrightarrow> validationModes (n1 @ n2) = [True]"
      by (simp add: validationModes_quiet)
    ultimately show ?thesis by blast
  qed
qed

lemma validatesOnce_throw: "validatesOnce (throw e)"
  unfolding validatesOnce_def by (rule logsI) (simp add: throw_def)

lemma validatesOnce_call:
  "validatesOnce (call (EvValidatePackageIntegrity cs True) f)"
  unfolding validatesOnce_def
  by (rule logsI) (auto elim!: call_cases simp: validationModes_def)

lemma fetchChecksums_silent:
  assumes "\<And>ev. ok (Done ev)" and "\<And>ev msg. ok (Failed ev msg)"
  shows "silent ok (fetchChecksums env r layers)"
proof (induction layers)
  case Nil
  show ?case unfolding silent_def by (rule logsI) simp
next
  case (Cons layer layers)
  show ?case
  proof (cases "annotation (desc_Annotations layer) AnnotationTitle = ChecksumsTxt env")
    case True
    have "fetchChecksums env r (layer # layers)
        = bind (call (EvFetchLayer (Remote r) layer) (FetchLayer env (Remote r) layer)) (\<lambda>checksumBytes.
            bind (call (EvWriteFile (filepath_Join env [dst_Base env, ChecksumsTxt env]) checksumBytes)
                    (WriteFile env (filepath_Join env [dst_Base env, ChecksumsTxt env]) checksumBytes))
              (\<lambda>_. return layer))"
      using True by (intro ext) simp
    then show ?thesis
      by (simp add: silent_bind silent_call silent_return assms)
  next
    case False
    then have "fetchChecksums env r (layer # layers) = fetchChecksums env r layers"
      by (intro ext) simp
    with Cons.IH show ?thesis by simp
  qed
qed

lemma noValidation_simps:
  "noValidation (Done (EvFetchRoot a))" "noValidation (Failed (EvFetchRoot a) msg)"
  "noValidation (Done (EvFetchManifest a d))" "noValidation (Failed (EvFetchManifest a d) msg)"
  "noValidation (Done (EvFetchLayer a d))" "noValidation (Failed (EvFetchLayer a d) msg)"
  "noValidation (Done (EvWriteYaml p z))" "noValidation (Failed (EvWriteYaml p z) msg)"
  "noValidation (Done (EvWriteFile p b))" "noValidation (Failed (EvWriteFile p b) msg)"
  "noValidation (Done (EvSetFromLayers ls))"
  by (simp_all add: noValidation_def validationModes_def)

lemma fetchChecksums_noValidation: "silent noValidation (fetchChecksums env r layers)"
proof (induction layers)
  case Nil
  show ?case unfolding silent_def by (rule logsI) simp
next
  case (Cons layer layers)
  show ?case
  proof (cases "annotation (desc_Annotations layer) AnnotationTitle = ChecksumsTxt env")
    case True
    have "fetchChecksums env r (layer # layers)
        = bind (call (EvFetchLayer (Remote r) layer) (FetchLayer env (Remote r) layer)) (\<lambda>checksumBytes.
            bind (call (EvWriteFile (filepath_Join env [dst_Base env, ChecksumsTxt env]) checksumBytes)
                    (WriteFile env (filepath_Join env [dst_Base env, ChecksumsTxt env]) checksumBytes))
              (\<lambda>_. return layer))"
      using True by (intro ext) simp
    then show ?thesis
      by (simp add: silent_bind silent_call silent_return noValidation_simps)
  next
    case False
    then have "fetchChecksums env r (layer # layers) = fetchChecksums env r layers"
      by (intro ext) simp
    with Cons.IH show ?thesis by simp
  qed
qed

lemma validatesOnce_writeAndValidate:
  "validatesOnce (writeAndValidate env r pkgManifestDesc pkgManifest zarfYAMLBytes)"
  unfolding writeAndValidate_def
  by (auto split: sum.splits
        intro!: validatesOnce_bind validatesOnce_throw validatesOnce_call
                silent_call_unchecked silent_call_total fetchChecksums_noValidation
        simp: noValidation_simps)

lemma validatesOnce_LoadPackageMetadata: "validatesOnce (LoadPackageMetadata env r)"
  unfolding LoadPackageMetadata_def Let_def
  by (auto split: option.splits
        intro!: validatesOnce_bind validatesOnce_throw validatesOnce_writeAndValidate
                silent_call silent_call_FetchManifest
        simp: noValidation_simps)

lemma validatesLast_bind:
  fixes m :: "('w, 'a) action" and f :: "'a \<Rightarrow> ('w, 'b) action"
  assumes "silent noValidation m" and "\<And>a. validatesLast env (f a)"
  shows "validatesLast env (bind m f)"
  unfolding validatesLast_def
proof (intro allI impI)
  fix s b s'
  assume "bind m f s = (Inr b, s')"
  then show "\<exists>cs before w.
           trace s' = trace s @ before @ [Done (EvValidatePackageIntegrity cs True)]
           \<and> list_all noValidation before
           \<and> ValidatePackageIntegrity env cs True w = (Inr (), world s')"
  proof (cases rule: bind_cases)
    case (failed e)
    then show ?thesis by simp
  next
    case (went_on a s1)
    from assms(1)[unfolded silent_def] went_on(1)
    obtain n1 where n1: "trace s1 = trace s @ n1" "list_all noValidation n1" by (rule logsD)
    from assms(2)[of a, unfolded validatesLast_def] went_on(2)
    obtain cs before w where t: "trace s' = trace s1 @ before @ [Done (EvValidatePackageIntegrity cs True)]"
        "list_all noValidation before"
        "ValidatePackageIntegrity env cs True w = (Inr (), world s')" by blast
    from n1 t have "trace s' = trace s @ (n1 @ before) @ [Done (EvValidatePackageIntegrity cs True)]
        \<and> list_all noValidation (n1 @ before)
        \<and> ValidatePackageIntegrity env cs True w = (Inr (), world s')" by simp
    then show ?thesis by blast
  qed
qed

lemma validatesLast_throw: "validatesLast env (throw e)"
  by (simp add: validatesLast_def throw_def)

lemma validatesLast_call:
  "validatesLast env (call (EvValidatePackageIntegrity cs True)
                          (ValidatePackageIntegrity env cs True))"
  unfolding validatesLast_def
proof (intro allI impI)
  fix s a s'
  assume "call (EvValidatePackageIntegrity cs True) (ValidatePackageIntegrity env cs True) s
            = (Inr a, s')"
  then have "trace s' = trace s @ [] @ [Done (EvValidatePackageIntegrity cs True)]
        \<and> list_all noValidation []
        \<and> ValidatePackageIntegrity env cs True (world s) = (Inr (), world s')"
    by (cases rule: call_cases) auto
  then show "\<exists>cs before w.
           trace s' = trace s @ before @ [Done (EvValidatePackageIntegrity cs True)]
           \<and> list_all noValidation before
           \<and> ValidatePackageIntegrity env cs True w = (Inr (), world s')" by blast
qed

lemma validatesLast_writeAndValidate:
  "validatesLast env (writeAndValidate env r pkgManifestDesc pkgManifest zarfYAMLBytes)"
  unfolding writeAndValidate_def
  by (auto split: sum.splits
        intro!: validatesLast_bind validatesLast_throw validatesLast_call
                silent_call_unchecked silent_call_total fetchChecksums_noValidation
        simp: noValidation_simps)

lemma validatesLast_LoadPackageMetadata: "validatesLast env (LoadPackageMetadata env r)"
  unfolding LoadPackageMetadata_def Let_def
  by (auto split: option.splits
        intro!: validatesLast_bind validatesLast_throw validatesLast_writeAndValidate
                silent_call silent_call_FetchManifest
        simp: noValidation_simps)

text \<open>
  Claim C5, as the code has it. Every successful \<^verbatim>\<open>LoadPackageMetadata\<close> call invokes
  the integrity validator exactly once, as its last call, and in partial mode: the only
  validator call the run logs has \<open>True\<close> as its \<^verbatim>\<open>isPartial\<close> argument, it is the
  last entry of the log, it is the validator of the environment that was called, and it
  returned no error.
\<close>

theorem metadata_validated_as_partial:
  assumes "LoadPackageMetadata env r s = (Inr (), s')"
  shows "validationModes (drop (length (trace s)) (trace s')) = [True]
         \<and> (\<exists>cs before w.
               trace s' = trace s @ before @ [Done (EvValidatePackageIntegrity cs True)]
               \<and> list_all noValidation before
               \<and> ValidatePackageIntegrity env cs True w = (Inr (), world s'))"
proof
  from validatesOnce_LoadPackageMetadata[unfolded validatesOnce_def] assms
  obtain new where "trace s' = trace s @ new"
      "(\<exists>a. (Inr () :: error + unit) = Inr a) \<longrightarrow> validationModes new = [True]"
    by (rule logsD)
  then show "validationModes (drop (length (trace s)) (trace s')) = [True]" by simp
next
  from validatesLast_LoadPackageMetadata[of env r, unfolded validatesLast_def] assms
  show "\<exists>cs before w.
               trace s' = trace s @ before @ [Done (EvValidatePackageIntegrity cs True)]
               \<and> list_all noValidation before
               \<and> ValidatePackageIntegrity env cs True w = (Inr (), world s')" by blast
qed

lemma demo_LoadPackageMetadata:
  "LoadPackageMetadata demoEnv demoRemoteBundle s0
     = (Inr (), \<lparr>world = (), trace =
          [Done (EvFetchRoot bundleRef), Done (EvFetchManifest bundleRef subManifestDesc),
           Done (EvFetchLayer bundleRef layerZarfYAML),
           Done (EvWriteYaml ''/tmp/dst/zarf.yaml'' demoPackage),
           Done (EvFetchLayer bundleRef layerChecksums),
           Done (EvWriteFile ''/tmp/dst/checksums.txt'' [4]),
           Done (EvSetFromLayers [subManifestDesc, layerChecksums]),
           Done (EvValidatePackageIntegrity ''abc123'' True)]\<rparr>)"
  by (simp add: model_defs demo_defs)

theorem metadata_validated_as_partial_witness:
  "fst (LoadPackageMetadata demoEnv demoRemoteBundle s0) = Inr ()
   \<and> validationModes (drop (length (trace s0))
        (trace (snd (LoadPackageMetadata demoEnv demoRemoteBundle s0)))) = [True]
   \<and> (\<exists>cs before w.
         trace (snd (LoadPackageMetadata demoEnv demoRemoteBundle s0))
           = trace s0 @ before @ [Done (EvValidatePackageIntegrity cs True)]
         \<and> list_all noValidation before
         \<and> ValidatePackageIntegrity demoEnv cs True w
             = (Inr (), world (snd (LoadPackageMetadata demoEnv demoRemoteBundle s0))))"
proof -
  have run: "LoadPackageMetadata demoEnv demoRemoteBundle s0
      = (Inr (), snd (LoadPackageMetadata demoEnv demoRemoteBundle s0))"
    by (simp add: demo_LoadPackageMetadata)
  have ok: "fst (LoadPackageMetadata demoEnv demoRemoteBundle s0) = Inr ()"
    by (simp add: demo_LoadPackageMetadata)
  from metadata_validated_as_partial[OF run] ok show ?thesis by blast
qed

text \<open>The claim as the specification words it (validation in non-partial mode) fails on
  the concrete registry: the call succeeds and its last logged call is the validator
  with \<open>True\<close>, so the validator was not called with \<open>False\<close>.\<close>

theorem metadata_validation_not_authoritative_counterexample:
  "fst (LoadPackageMetadata demoEnv demoRemoteBundle s0) = Inr ()
   \<and> last (trace (snd (LoadPackageMetadata demoEnv demoRemoteBundle s0)))
       = Done (EvValidatePackageIntegrity ''abc123'' True)
   \<and> validationModes (trace (snd (LoadPackageMetadata demoEnv demoRemoteBundle s0))) \<noteq> [False]"
  by (simp add: demo_LoadPackageMetadata validationModes_def)

section \<open>A sub-manifest without a package-spec layer\<close>

lemma findZarfYAML_absent:
  "list_all (\<lambda>layer. annotation (desc_Annotations layer) AnnotationTitle \<noteq> ZarfYAML env) layers
     \<Longrightarrow> findZarfYAML env layers = zeroDescriptor"
  by (induction layers) auto

lemma no_Errorf_call_unchecked: "no_Errorf (call_unchecked ev f)"
  by (simp add: no_Errorf_def call_unchecked_def split: prod.splits sum.splits)

lemma no_Errorf_call_total: "no_Errorf (call_total ev f)"
  by (simp add: no_Errorf_def call_total_def)

lemma no_Errorf_fetchChecksums: "no_Errorf (fetchChecksums env r layers)"
proof (induction layers)
  case Nil
  show ?case by (simp add: no_Errorf_def)
next
  case (Cons layer layers)
  show ?case
  proof (cases "annotation (desc_Annotations layer) AnnotationTitle = ChecksumsTxt env")
    case True
    have "fetchChecksums env r (layer # layers)
        = bind (call (EvFetchLayer (Remote r) layer) (FetchLayer env (Remote r) layer)) (\<lambda>checksumBytes.
            bind (call (EvWriteFile (filepath_Join env [dst_Base env, ChecksumsTxt env]) checksumBytes)
                    (WriteFile env (filepath_Join env [dst_Base env, ChecksumsTxt env]) checksumBytes))
              (\<lambda>_. return layer))"
      using True by (intro ext) simp
    then show ?thesis
      by (simp add: no_Errorf_bind no_Errorf_call no_Errorf_return)
  next
    case False
    then have "fetchChecksums env r (layer # layers) = fetchChecksums env r layers"
      by (intro ext) simp
    with Cons.IH show ?thesis by simp
  qed
qed

lemma no_Errorf_writeAndValidate:
  "no_Errorf (writeAndValidate env r pkgManifestDesc pkgManifest zarfYAMLBytes)"
  unfolding writeAndValidate_def
  by (auto split: sum.splits
        intro!: no_Errorf_bind no_Errorf_throw no_Errorf_call no_Errorf_call_unchecked
                no_Errorf_call_total no_Errorf_fetchChecksums)

lemma silent_writeAndValidate:
  "silent (\<lambda>x. True) (writeAndValidate env r pkgManifestDesc pkgManifest zarfYAMLBytes)"
  unfolding writeAndValidate_def
  by (auto split: sum.splits
        intro!: silent_bind silent_throw silent_call silent_call_unchecked
                silent_call_total fetchChecksums_silent)

text \<open>
  Claim C10. Take a run of \<^verbatim>\<open>LoadPackageMetadata\<close> in which the root index was fetched,
  the package's sub-manifest was located and \<^verbatim>\<open>FetchManifest\<close> handed back a manifest
  none of whose layers is titled \<^verbatim>\<open>config.ZarfYAML\<close>. Then the title lookup yields the
  zero descriptor and no error: the third call of the run is \<^verbatim>\<open>FetchLayer\<close> on the zero
  descriptor, the run never returns an error built with \<^verbatim>\<open>fmt.Errorf\<close> (the only
  not-found error of the function), and when that fetch fails its error is what the
  function returns.
\<close>

theorem missing_spec_layer_fetches_zero_descriptor:
  assumes root: "FetchRoot env (Remote r) (world s) = (Inr root, w1)"
      and found: "\<not> IsEmptyDescriptor env (Locate env root (PkgManifestSHA r))"
      and man: "FetchManifest env (Remote r) (Locate env root (PkgManifestSHA r)) w1
                  = ((Some pkgManifest, err), w2)"
      and absent: "list_all (\<lambda>layer. annotation (desc_Annotations layer) AnnotationTitle
                                        \<noteq> ZarfYAML env) (man_Layers pkgManifest)"
  shows "findZarfYAML env (man_Layers pkgManifest) = zeroDescriptor
         \<and> (\<exists>x2 x3 rest. trace (snd (LoadPackageMetadata env r s))
                 = trace s @ [Done (EvFetchRoot (Remote r)), x2, x3] @ rest
               \<and> event_of x2 = EvFetchManifest (Remote r) (Locate env root (PkgManifestSHA r))
               \<and> event_of x3 = EvFetchLayer (Remote r) zeroDescriptor)
         \<and> (\<forall>msg. fst (LoadPackageMetadata env r s) \<noteq> Inl (Errorf msg))
         \<and> (\<forall>msg w3. FetchLayer env (Remote r) zeroDescriptor w2 = (Inl msg, w3)
               \<longrightarrow> fst (LoadPackageMetadata env r s) = Inl (External msg))"
proof -
  let ?d = "Locate env root (PkgManifestSHA r)"
  let ?x2 = "case err of None \<Rightarrow> Done (EvFetchManifest (Remote r) ?d)
                        | Some msg \<Rightarrow> Failed (EvFetchManifest (Remote r) ?d) msg"
  let ?s2 = "\<lparr>world = w2, trace = trace s @ [Done (EvFetchRoot (Remote r)), ?x2]\<rparr>"
  let ?fetch = "call (EvFetchLayer (Remote r) zeroDescriptor) (FetchLayer env (Remote r) zeroDescriptor)"
  let ?tail = "writeAndValidate env r ?d pkgManifest"
  have zero: "findZarfYAML env (man_Layers pkgManifest) = zeroDescriptor"
    using absent by (rule findZarfYAML_absent)
  have x2: "event_of ?x2 = EvFetchManifest (Remote r) ?d"
    by (cases err) simp_all
  have step: "LoadPackageMetadata env r s = bind ?fetch ?tail ?s2"
    using root found man zero
    by (cases err)
       (simp_all add: LoadPackageMetadata_def Let_def bind_def call_def call_FetchManifest_def)
  have log: "\<exists>x3 rest. trace (snd (bind ?fetch ?tail ?s2)) = trace ?s2 @ [x3] @ rest
               \<and> event_of x3 = EvFetchLayer (Remote r) zeroDescriptor"
  proof -
    obtain res s' where b: "bind ?fetch ?tail ?s2 = (res, s')" by (cases "bind ?fetch ?tail ?s2")
    from b show ?thesis
    proof (cases rule: bind_cases)
      case (failed e)
      from failed(1) have "\<exists>x3. trace s' = trace ?s2 @ [x3] @ []
          \<and> event_of x3 = EvFetchLayer (Remote r) zeroDescriptor"
        by (cases rule: call_cases) auto
      with b show ?thesis by (metis snd_conv)
    next
      case (went_on a s1)
      from went_on(1) obtain x3 where x3: "trace s1 = trace ?s2 @ [x3]"
          "event_of x3 = EvFetchLayer (Remote r) zeroDescriptor"
        by (cases rule: call_cases) auto
      from silent_writeAndValidate[unfolded silent_def] went_on(2)
      obtain rest where "trace s' = trace s1 @ rest" by (rule logsD)
      with x3 have "trace s' = trace ?s2 @ [x3] @ rest" by simp
      with x3(2) b show ?thesis by (metis snd_conv)
    qed
  qed
  then obtain x3 rest where l: "trace (snd (bind ?fetch ?tail ?s2)) = trace ?s2 @ [x3] @ rest"
      "event_of x3 = EvFetchLayer (Remote r) zeroDescriptor" by blast
  from l(1) step have "trace (snd (LoadPackageMetadata env r s))
      = trace s @ [Done (EvFetchRoot (Remote r)), ?x2, x3] @ rest" by simp
  with x2 l(2) have part2: "\<exists>x2 x3 rest. trace (snd (LoadPackageMetadata env r s))
                 = trace s @ [Done (EvFetchRoot (Remote r)), x2, x3] @ rest
               \<and> event_of x2 = EvFetchManifest (Remote r) ?d
               \<and> event_of x3 = EvFetchLayer (Remote r) zeroDescriptor" by blast
  have "no_Errorf (bind ?fetch ?tail)"
    by (intro no_Errorf_bind no_Errorf_call no_Errorf_writeAndValidate)
  with step have part3: "\<forall>msg. fst (LoadPackageMetadata env r s) \<noteq> Inl (Errorf msg)"
    by (simp add: no_Errorf_def)
  have part4: "\<forall>msg w3. FetchLayer env (Remote r) zeroDescriptor w2 = (Inl msg, w3)
               \<longrightarrow> fst (LoadPackageMetadata env r s) = Inl (External msg)"
    using step by (simp add: bind_def call_def)
  from zero part2 part3 part4 show ?thesis by blast
qed

theorem missing_spec_layer_fetches_zero_descriptor_witness:
  "findZarfYAML noSpecEnv [layerChecksums, layerComponent] = zeroDescriptor
   \<and> fst (LoadPackageMetadata noSpecEnv demoRemoteBundle s0) = Inl (External ''blob unknown'')
   \<and> (\<exists>x2 x3 rest. trace (snd (LoadPackageMetadata noSpecEnv demoRemoteBundle s0))
          = trace s0 @ [Done (EvFetchRoot (Remote demoRemoteBundle)), x2, x3] @ rest
        \<and> event_of x3 = EvFetchLayer (Remote demoRemoteBundle) zeroDescriptor)"
proof -
  have root: "FetchRoot noSpecEnv (Remote demoRemoteBundle) (world s0) = (Inr bundleRoot, ())"
    by (simp add: noSpecEnv_def demoEnv_def demoRemoteBundle_def bundleRef_def)
  have loc: "Locate noSpecEnv bundleRoot (PkgManifestSHA demoRemoteBundle) = subManifestDesc"
    by (simp add: noSpecEnv_def demo_defs annotation_def)
  have found: "\<not> IsEmptyDescriptor noSpecEnv (Locate noSpecEnv bundleRoot (PkgManifestSHA demoRemoteBundle))"
    unfolding loc by (simp add: noSpecEnv_def demoEnv_def subManifestDesc_def)
  have man: "FetchManifest noSpecEnv (Remote demoRemoteBundle)
               (Locate noSpecEnv bundleRoot (PkgManifestSHA demoRemoteBundle)) ()
             = ((Some (pkgRoot\<lparr>man_Layers := [layerChecksums, layerComponent]\<rparr>), None), ())"
    by (simp add: noSpecEnv_def manifestWithoutSpec_def)
  have absent: "list_all (\<lambda>layer. annotation (desc_Annotations layer) AnnotationTitle
                    \<noteq> ZarfYAML noSpecEnv)
                  (man_Layers (pkgRoot\<lparr>man_Layers := [layerChecksums, layerComponent]\<rparr>))"
    by (simp add: noSpecEnv_def demoEnv_def layerChecksums_def layerComponent_def annotation_def)
  have refused: "FetchLayer noSpecEnv (Remote demoRemoteBundle) zeroDescriptor ()
                   = (Inl ''blob unknown'', ())"
    by (simp add: noSpecEnv_def refuseZeroFetch_def zeroDescriptor_def)
  from missing_spec_layer_fetches_zero_descriptor[OF root found man absent] refused
  show ?thesis by auto
qed

section \<open>The download of a package from a bundle\<close>

lemma presentLayers_append [simp]:
  "presentLayers (xs @ ys) = presentLayers xs @ presentLayers ys"
  by (simp add: presentLayers_def)

lemma presentLayers_simps [simp]:
  "presentLayers [] = []"
  "presentLayers (Done ev # xs) = presentLayers xs"
  "presentLayers (Failed ev msg # xs) = presentLayers xs"
  "presentLayers (Answered (EvBlobExists ref layer) b # xs)
     = (if b then layer # presentLayers xs else presentLayers xs)"
  "presentLayers (Answered (EvCacheExists digest) b # xs) = presentLayers xs"
  by (simp_all add: presentLayers_def)

lemma verifyLayer_silent: "silent isVerification (verifyLayer env r layer acc)"
  unfolding verifyLayer_def
  by (auto split: prod.splits option.splits simp: isVerification_def
        intro!: silent_bind silent_ask silent_ask_total silent_call silent_return silent_throw)

lemma verifyLayers_silent: "silent isVerification (forEach (verifyLayer env r) layers acc)"
  by (rule silent_forEach) (rule verifyLayer_silent)

lemma verifyLayer_present:
  assumes "verifyLayer env r layer (eb, pull, inb) s = (Inr (eb', pull', inb'), s')"
  shows "\<exists>new. trace s' = trace s @ new \<and> inb' = inb @ presentLayers new
           \<and> (presentLayers new = [] \<or> presentLayers new = [layer])"
  using assms
  by (auto simp: verifyLayer_def bind_def ask_def ask_total_def call_def return_def throw_def
           split: prod.splits sum.splits option.splits if_splits)

lemma verifyLayers_present:
  assumes "forEach (verifyLayer env r) layers (eb, pull, inb) s = (Inr (eb', pull', inb'), s')"
  shows "\<exists>new. trace s' = trace s @ new \<and> inb' = inb @ presentLayers new
           \<and> length (presentLayers new) \<le> length layers
           \<and> set (presentLayers new) \<subseteq> set layers"
  using assms
proof (induction layers arbitrary: eb pull inb s)
  case Nil
  then show ?case by simp
next
  case (Cons layer layers)
  from Cons.prems show ?case
  proof (cases rule: forEach_Cons_cases)
    case (failed e)
    then show ?thesis by simp
  next
    case (went_on acc' s1)
    obtain eb1 pull1 inb1 where acc': "acc' = (eb1, pull1, inb1)" by (cases acc') auto
    from verifyLayer_present[OF went_on(1)[unfolded acc']]
    obtain n1 where n1: "trace s1 = trace s @ n1" "inb1 = inb @ presentLayers n1"
        "presentLayers n1 = [] \<or> presentLayers n1 = [layer]" by blast
    from Cons.IH[OF went_on(2)[unfolded acc']]
    obtain n2 where n2: "trace s' = trace s1 @ n2" "inb' = inb1 @ presentLayers n2"
        "length (presentLayers n2) \<le> length layers" "set (presentLayers n2) \<subseteq> set layers" by blast
    from n1 n2 have "trace s' = trace s @ (n1 @ n2) \<and> inb' = inb @ presentLayers (n1 @ n2)
           \<and> length (presentLayers (n1 @ n2)) \<le> length (layer # layers)
           \<and> set (presentLayers (n1 @ n2)) \<subseteq> set (layer # layers)" by auto
    then show ?thesis by blast
  qed
qed

lemma copyToStore_success:
  assumes "deferClose env (copyToStore env r pkgManifest eb pull inb) s = (Inr (layers, r'), s')"
  shows "layers = inb
         \<and> r' = (if length (man_Layers pkgManifest) > length inb then r\<lparr>isPartial := True\<rparr> else r)
         \<and> trace s' = trace s @ [Done (EvWgAdd 1), Done (EvGoRenderProgressBar (TmpDir r) eb),
                                  Done (EvOrasCopy (Remote r) pull (OCIConcurrency env)),
                                  Done (EvChanSend ''doneSaving''), Done EvWgWait, Done EvStoreClose]"
  using assms
  by (auto simp: deferClose_def copyToStore_def bind_def emit_def call_def return_def throw_def
           split: prod.splits sum.splits if_splits)

text \<open>The two ways in which the download returns without an error.\<close>

lemma download_success:
  assumes run: "downloadPkgFromRemoteBundle env r s = (Inr (layers, r'), s')"
      and root: "FetchRoot env (Remote r) (world s) = (Inr rootManifest, w1)"
      and man: "FetchManifest env (Remote r)
                  ((Locate env rootManifest (PkgManifestSHA r))
                     \<lparr>desc_MediaType := ZarfLayerMediaTypeBlob env\<rparr>) w1 = ((fetched, err), w2)"
  shows "err = None
         \<and> (case fetched of
               None \<Rightarrow> layers = [] \<and> r' = r
                 \<and> trace s' = trace s @ [Done (EvFetchRoot (Remote r)),
                      Done (EvFetchManifest (Remote r)
                        ((Locate env rootManifest (PkgManifestSHA r))
                           \<lparr>desc_MediaType := ZarfLayerMediaTypeBlob env\<rparr>))]
             | Some pkgManifest \<Rightarrow>
                 (\<exists>checks eb pull.
                    trace s' = trace s @ [Done (EvFetchRoot (Remote r)),
                      Done (EvFetchManifest (Remote r)
                        ((Locate env rootManifest (PkgManifestSHA r))
                           \<lparr>desc_MediaType := ZarfLayerMediaTypeBlob env\<rparr>))]
                      @ checks
                      @ [Done (EvFileNew (TmpDir r)), Done (EvWgAdd 1),
                         Done (EvGoRenderProgressBar (TmpDir r) eb),
                         Done (EvOrasCopy (Remote r) pull (OCIConcurrency env)),
                         Done (EvChanSend ''doneSaving''), Done EvWgWait, Done EvStoreClose]
                    \<and> list_all isVerification checks
                    \<and> length (presentLayers checks) \<le> length (man_Layers pkgManifest)
                    \<and> set (presentLayers checks) \<subseteq> set (man_Layers pkgManifest)
                    \<and> layers = (Locate env rootManifest (PkgManifestSHA r))
                                 \<lparr>desc_MediaType := ZarfLayerMediaTypeBlob env\<rparr>
                               # presentLayers checks
                    \<and> r' = (if length (man_Layers pkgManifest) > Suc (length (presentLayers checks))
                            then r\<lparr>isPartial := True\<rparr> else r)))"
proof -
  let ?d = "(Locate env rootManifest (PkgManifestSHA r))\<lparr>desc_MediaType := ZarfLayerMediaTypeBlob env\<rparr>"
  let ?s2 = "\<lparr>world = w2, trace = trace s @ [Done (EvFetchRoot (Remote r)), Done (EvFetchManifest (Remote r) ?d)]\<rparr>"
  have nonempty: "\<not> IsEmptyDescriptor env (Locate env rootManifest (PkgManifestSHA r))"
    using run root
    by (auto simp: downloadPkgFromRemoteBundle_def bind_def call_def throw_def)
  have err: "err = None"
    using run root man nonempty
    by (cases err; cases fetched)
       (auto simp: downloadPkgFromRemoteBundle_def Let_def bind_def call_def throw_def
                   call_FetchManifest_def)
  show ?thesis
  proof (cases fetched)
    case None
    with run root man nonempty err show ?thesis
      by (auto simp: downloadPkgFromRemoteBundle_def Let_def bind_def call_def throw_def
                     return_def call_FetchManifest_def)
  next
    case (Some pkgManifest)
    with run root man nonempty err
    have "bind (forEach (verifyLayer env r) (man_Layers pkgManifest) (0, [?d], [?d]))
            (\<lambda>(estimatedBytes, layersToPull, layersInBundle).
               bind (call (EvFileNew (TmpDir r)) (file_New env (TmpDir r))) (\<lambda>_.
                 deferClose env
                   (copyToStore env r pkgManifest estimatedBytes layersToPull layersInBundle)))
            ?s2 = (Inr (layers, r'), s')"
      by (simp add: downloadPkgFromRemoteBundle_def Let_def bind_def[of "call _ _"]
                    bind_def[of "call_FetchManifest _ _ _"] call_def call_FetchManifest_def)
    then obtain acc s3 where loop: "forEach (verifyLayer env r) (man_Layers pkgManifest) (0, [?d], [?d]) ?s2
          = (Inr acc, s3)"
        and rest: "(case acc of (estimatedBytes, layersToPull, layersInBundle) \<Rightarrow>
               bind (call (EvFileNew (TmpDir r)) (file_New env (TmpDir r))) (\<lambda>_.
                 deferClose env
                   (copyToStore env r pkgManifest estimatedBytes layersToPull layersInBundle)))
            s3 = (Inr (layers, r'), s')"
      by (cases rule: bind_cases) auto
    obtain eb pull inb where acc: "acc = (eb, pull, inb)" by (cases acc) auto
    from verifyLayers_present[OF loop[unfolded acc]]
    obtain checks where checks: "trace s3 = trace ?s2 @ checks" "inb = [?d] @ presentLayers checks"
        "length (presentLayers checks) \<le> length (man_Layers pkgManifest)"
        "set (presentLayers checks) \<subseteq> set (man_Layers pkgManifest)" by blast
    from verifyLayers_silent[unfolded silent_def] loop
    obtain checks' where "trace s3 = trace ?s2 @ checks'" "list_all isVerification checks'"
      by (rule logsD)
    with checks(1) have verif: "list_all isVerification checks" by simp
    from rest acc
    have "bind (call (EvFileNew (TmpDir r)) (file_New env (TmpDir r))) (\<lambda>_.
                 deferClose env (copyToStore env r pkgManifest eb pull inb)) s3
            = (Inr (layers, r'), s')" by simp
    then obtain s4 where new: "call (EvFileNew (TmpDir r)) (file_New env (TmpDir r)) s3 = (Inr (), s4)"
        and copy: "deferClose env (copyToStore env r pkgManifest eb pull inb) s4 = (Inr (layers, r'), s')"
      by (cases rule: bind_cases) auto
    from new have s4: "trace s4 = trace s3 @ [Done (EvFileNew (TmpDir r))]"
      by (cases rule: call_cases) auto
    from copyToStore_success[OF copy] s4 checks verif
    have "trace s' = trace s @ [Done (EvFetchRoot (Remote r)), Done (EvFetchManifest (Remote r) ?d)]
                      @ checks
                      @ [Done (EvFileNew (TmpDir r)), Done (EvWgAdd 1),
                         Done (EvGoRenderProgressBar (TmpDir r) eb),
                         Done (EvOrasCopy (Remote r) pull (OCIConcurrency env)),
                         Done (EvChanSend ''doneSaving''), Done EvWgWait, Done EvStoreClose]
           \<and> list_all isVerification checks
           \<and> length (presentLayers checks) \<le> length (man_Layers pkgManifest)
           \<and> set (presentLayers checks) \<subseteq> set (man_Layers pkgManifest)
           \<and> layers = ?d # presentLayers checks
           \<and> r' = (if length (man_Layers pkgManifest) > Suc (length (presentLayers checks))
                   then r\<lparr>isPartial := True\<rparr> else r)"
      by simp
    with Some err show ?thesis by auto
  qed
qed

lemma download_fetched_root:
  assumes "downloadPkgFromRemoteBundle env r s = (Inr (layers, r'), s')"
  obtains rootManifest w1 where "FetchRoot env (Remote r) (world s) = (Inr rootManifest, w1)"
proof -
  obtain res w1 where f: "FetchRoot env (Remote r) (world s) = (res, w1)"
    by (cases "FetchRoot env (Remote r) (world s)")
  with assms obtain rootManifest where "res = Inr rootManifest"
    by (cases res) (auto simp: downloadPkgFromRemoteBundle_def bind_def call_def)
  with f that show ?thesis by blast
qed

text \<open>
  Claim C9, as the code has it. When the download returns without an error and
  \<^verbatim>\<open>FetchManifest\<close> had handed back a manifest (not a nil pointer), the returned list
  is the package's own sub-manifest descriptor, its media type set to the Zarf blob media
  type, followed by the declared layers that the existence check confirmed present, in
  the order of the checks. So its length is one more than the number of present layers,
  and all of these are layers the sub-manifest declares.
\<close>

theorem download_returns_submanifest_first:
  assumes run: "downloadPkgFromRemoteBundle env r s = (Inr (layers, r'), s')"
      and root: "FetchRoot env (Remote r) (world s) = (Inr rootManifest, w1)"
      and man: "FetchManifest env (Remote r)
                  ((Locate env rootManifest (PkgManifestSHA r))
                     \<lparr>desc_MediaType := ZarfLayerMediaTypeBlob env\<rparr>) w1
                = ((Some pkgManifest, err), w2)"
  shows "layers = (Locate env rootManifest (PkgManifestSHA r))
                    \<lparr>desc_MediaType := ZarfLayerMediaTypeBlob env\<rparr>
                  # presentLayers (drop (length (trace s)) (trace s'))
         \<and> length layers = Suc (length (presentLayers (drop (length (trace s)) (trace s'))))
         \<and> set (presentLayers (drop (length (trace s)) (trace s')))
               \<subseteq> set (man_Layers pkgManifest)"
proof -
  from download_success[OF run root man]
  obtain checks eb pull where
    t: "trace s' = trace s @ [Done (EvFetchRoot (Remote r)),
                      Done (EvFetchManifest (Remote r)
                        ((Locate env rootManifest (PkgManifestSHA r))
                           \<lparr>desc_MediaType := ZarfLayerMediaTypeBlob env\<rparr>))]
                      @ checks
                      @ [Done (EvFileNew (TmpDir r)), Done (EvWgAdd 1),
                         Done (EvGoRenderProgressBar (TmpDir r) eb),
                         Done (EvOrasCopy (Remote r) pull (OCIConcurrency env)),
                         Done (EvChanSend ''doneSaving''), Done EvWgWait, Done EvStoreClose]"
    and sub: "set (presentLayers checks) \<subseteq> set (man_Layers pkgManifest)"
    and l: "layers = (Locate env rootManifest (PkgManifestSHA r))
                       \<lparr>desc_MediaType := ZarfLayerMediaTypeBlob env\<rparr> # presentLayers checks"
    by auto
  from t have "presentLayers (drop (length (trace s)) (trace s')) = presentLayers checks"
    by simp
  with sub l show ?thesis by simp
qed

text \<open>What the flag is after such a download that started with the flag unset: it is set
  exactly when the number of declared layers exceeds the number of present layers by
  more than one, because the list compared against holds the sub-manifest descriptor as
  well.\<close>

lemma partiality_flag_off_by_one:
  assumes run: "downloadPkgFromRemoteBundle env r s = (Inr (layers, r'), s')"
      and root: "FetchRoot env (Remote r) (world s) = (Inr rootManifest, w1)"
      and man: "FetchManifest env (Remote r)
                  ((Locate env rootManifest (PkgManifestSHA r))
                     \<lparr>desc_MediaType := ZarfLayerMediaTypeBlob env\<rparr>) w1
                = ((Some pkgManifest, err), w2)"
      and fresh: "\<not> isPartial r"
  shows "isPartial r' \<longleftrightarrow>
           Suc (length (presentLayers (drop (length (trace s)) (trace s'))))
             < length (man_Layers pkgManifest)"
proof -
  from download_success[OF run root man]
  obtain checks eb pull where
    t: "trace s' = trace s @ [Done (EvFetchRoot (Remote r)),
                      Done (EvFetchManifest (Remote r)
                        ((Locate env rootManifest (PkgManifestSHA r))
                           \<lparr>desc_MediaType := ZarfLayerMediaTypeBlob env\<rparr>))]
                      @ checks
                      @ [Done (EvFileNew (TmpDir r)), Done (EvWgAdd 1),
                         Done (EvGoRenderProgressBar (TmpDir r) eb),
                         Done (EvOrasCopy (Remote r) pull (OCIConcurrency env)),
                         Done (EvChanSend ''doneSaving''), Done EvWgWait, Done EvStoreClose]"
    and r': "r' = (if length (man_Layers pkgManifest) > Suc (length (presentLayers checks))
                   then r\<lparr>isPartial := True\<rparr> else r)"
    by auto
  from t have "presentLayers (drop (length (trace s)) (trace s')) = presentLayers checks"
    by simp
  with r' fresh show ?thesis by simp
qed

text \<open>
  The path that does wait. Whenever the download returns without an error after the
  progress goroutine has been started (the \<^verbatim>\<open>go\<close> statement is in the log), what
  follows its start is the copy into the local store, the send on \<^verbatim>\<open>doneSaving\<close>, the
  wait on the wait group (\<^verbatim>\<open>wg.Wait\<close>), and only then the deferred \<^verbatim>\<open>store.Close\<close>
  and the return.
\<close>

lemma success_path_waits_for_progress:
  assumes run: "downloadPkgFromRemoteBundle env r s = (Inr (layers, r'), s')"
      and started: "Done (EvGoRenderProgressBar dir n) \<in> set (drop (length (trace s)) (trace s'))"
  shows "\<exists>before pull. trace s' = trace s @ before
           @ [Done (EvGoRenderProgressBar dir n),
              Done (EvOrasCopy (Remote r) pull (OCIConcurrency env)),
              Done (EvChanSend ''doneSaving''), Done EvWgWait, Done EvStoreClose]"
proof -
  from run obtain rootManifest w1
    where root: "FetchRoot env (Remote r) (world s) = (Inr rootManifest, w1)"
    by (rule download_fetched_root)
  let ?d = "(Locate env rootManifest (PkgManifestSHA r))\<lparr>desc_MediaType := ZarfLayerMediaTypeBlob env\<rparr>"
  obtain fetched err w2 where man: "FetchManifest env (Remote r) ?d w1 = ((fetched, err), w2)"
    by (cases "FetchManifest env (Remote r) ?d w1") auto
  note shape = download_success[OF run root man]
  show ?thesis
  proof (cases fetched)
    case None
    with shape have "trace s' = trace s @ [Done (EvFetchRoot (Remote r)),
                      Done (EvFetchManifest (Remote r) ?d)]" by simp
    with started show ?thesis by simp
  next
    case (Some pkgManifest)
    with shape obtain checks eb pull where
      t: "trace s' = trace s @ [Done (EvFetchRoot (Remote r)), Done (EvFetchManifest (Remote r) ?d)]
                      @ checks
                      @ [Done (EvFileNew (TmpDir r)), Done (EvWgAdd 1),
                         Done (EvGoRenderProgressBar (TmpDir r) eb),
                         Done (EvOrasCopy (Remote r) pull (OCIConcurrency env)),
                         Done (EvChanSend ''doneSaving''), Done EvWgWait, Done EvStoreClose]"
      and verif: "list_all isVerification checks"
      by auto
    have "\<not> isVerification (Done (EvGoRenderProgressBar dir n))"
      by (simp add: isVerification_def)
    with verif have "Done (EvGoRenderProgressBar dir n) \<notin> set checks"
      by (auto simp: list_all_iff)
    with started t have same: "dir = TmpDir r" "n = eb" by auto
    from t same have "trace s' = trace s
           @ ([Done (EvFetchRoot (Remote r)), Done (EvFetchManifest (Remote r) ?d)] @ checks
              @ [Done (EvFileNew (TmpDir r)), Done (EvWgAdd 1)])
           @ [Done (EvGoRenderProgressBar dir n),
              Done (EvOrasCopy (Remote r) pull (OCIConcurrency env)),
              Done (EvChanSend ''doneSaving''), Done EvWgWait, Done EvStoreClose]" by simp
    then show ?thesis by blast
  qed
qed

lemmas download_defs = model_defs demo_defs strings_Contains.simps strings_HasPrefix.simps

lemma demo_download_result:
  "fst (downloadPkgFromRemoteBundle demoEnv demoRemoteBundle s0)
     = Inr ([subManifestDesc\<lparr>desc_MediaType := ''application/vnd.zarf.layer.v1.blob''\<rparr>,
             layerZarfYAML, layerChecksums, layerComponent, layerOptional], demoRemoteBundle)"
  by (simp add: download_defs)


theorem download_returns_submanifest_first_witness:
  "fst (downloadPkgFromRemoteBundle demoEnv demoRemoteBundle s0)
     = Inr ([subManifestDesc\<lparr>desc_MediaType := ''application/vnd.zarf.layer.v1.blob''\<rparr>,
             layerZarfYAML, layerChecksums, layerComponent, layerOptional], demoRemoteBundle)
   \<and> presentLayers (drop (length (trace s0))
         (trace (snd (downloadPkgFromRemoteBundle demoEnv demoRemoteBundle s0))))
       = [layerZarfYAML, layerChecksums, layerComponent, layerOptional]"
proof -
  have run: "downloadPkgFromRemoteBundle demoEnv demoRemoteBundle s0
      = (Inr ([subManifestDesc\<lparr>desc_MediaType := ''application/vnd.zarf.layer.v1.blob''\<rparr>,
               layerZarfYAML, layerChecksums, layerComponent, layerOptional], demoRemoteBundle),
         snd (downloadPkgFromRemoteBundle demoEnv demoRemoteBundle s0))"
    using demo_download_result by (metis prod.collapse)
  have root: "FetchRoot demoEnv (Remote demoRemoteBundle) (world s0) = (Inr bundleRoot, ())"
    by (simp add: demoEnv_def demoRemoteBundle_def bundleRef_def)
  have man: "FetchManifest demoEnv (Remote demoRemoteBundle)
               ((Locate demoEnv bundleRoot (PkgManifestSHA demoRemoteBundle))
                  \<lparr>desc_MediaType := ZarfLayerMediaTypeBlob demoEnv\<rparr>) ()
             = ((Some pkgRoot, None), ())"
    by (simp add: demoEnv_def)
  from download_returns_submanifest_first[OF run root man] demo_download_result
  show ?thesis by simp
qed

text \<open>The claim as worded, for every successful call, fails when the blob of the
  sub-manifest decodes to a nil manifest: the guard \<^verbatim>\<open>err != nil || pkgManifest == nil\<close>
  returns \<^verbatim>\<open>nil, err\<close> with a nil error, so the call succeeds with an empty list, which
  has no first element and whose length is not one more than the number of present
  layers.\<close>

theorem nil_manifest_returns_no_layers_counterexample:
  "fst (downloadPkgFromRemoteBundle nilManifestEnv demoRemoteBundle s0)
     = Inr ([], demoRemoteBundle)
   \<and> presentLayers (trace (snd (downloadPkgFromRemoteBundle nilManifestEnv demoRemoteBundle s0)))
       = []"
  by (simp add: nilManifestEnv_def nilManifest_def download_defs)

text \<open>
  Claim C1 at a bundle published without the optional component. The sub-manifest
  declares four layers and three of them are confirmed present, fewer than declared, yet
  the session that started with the flag unset ends with it unset: the comparison
  \<^verbatim>\<open>len(pkgManifest.Layers) > len(layersInBundle)\<close> is \<open>4 > 4\<close>.
\<close>

theorem partial_bundle_not_flagged:
  "fst (downloadPkgFromRemoteBundle partialBundleEnv demoRemoteBundle s0)
     = Inr ([subManifestDesc\<lparr>desc_MediaType := ''application/vnd.zarf.layer.v1.blob''\<rparr>,
             layerZarfYAML, layerChecksums, layerComponent], demoRemoteBundle)
   \<and> \<not> isPartial demoRemoteBundle
   \<and> presentLayers (trace (snd (downloadPkgFromRemoteBundle partialBundleEnv demoRemoteBundle s0)))
       = [layerZarfYAML, layerChecksums, layerComponent]
   \<and> man_Layers pkgRoot = [layerZarfYAML, layerChecksums, layerComponent, layerOptional]"
  by (simp add: partialBundleEnv_def optionalAbsent_def download_defs)

lemma demo_success_path_waits_for_progress:
  "fst (downloadPkgFromRemoteBundle demoEnv demoRemoteBundle s0)
     = Inr ([subManifestDesc\<lparr>desc_MediaType := ''application/vnd.zarf.layer.v1.blob''\<rparr>,
             layerZarfYAML, layerChecksums, layerComponent, layerOptional], demoRemoteBundle)
   \<and> (\<exists>before pull. trace (snd (downloadPkgFromRemoteBundle demoEnv demoRemoteBundle s0))
         = trace s0 @ before
           @ [Done (EvGoRenderProgressBar ''/tmp/uds'' 100),
              Done (EvOrasCopy (Remote demoRemoteBundle) pull (OCIConcurrency demoEnv)),
              Done (EvChanSend ''doneSaving''), Done EvWgWait, Done EvStoreClose])"
proof -
  have run: "downloadPkgFromRemoteBundle demoEnv demoRemoteBundle s0
      = (Inr ([subManifestDesc\<lparr>desc_MediaType := ''application/vnd.zarf.layer.v1.blob''\<rparr>,
               layerZarfYAML, layerChecksums, layerComponent, layerOptional], demoRemoteBundle),
         snd (downloadPkgFromRemoteBundle demoEnv demoRemoteBundle s0))"
    using demo_download_result by (metis prod.collapse)
  have started: "Done (EvGoRenderProgressBar ''/tmp/uds'' 100)
      \<in> set (drop (length (trace s0))
               (trace (snd (downloadPkgFromRemoteBundle demoEnv demoRemoteBundle s0))))"
    by (simp add: download_defs)
  from success_path_waits_for_progress[OF run started] demo_download_result
  show ?thesis by blast
qed

text \<open>
  Claim C8 at a copy that fails. On the path where \<^verbatim>\<open>oras.Copy\<close> returns an error the
  progress goroutine has been started, the function sends on \<^verbatim>\<open>errChan\<close> and returns
  the error, and \<^verbatim>\<open>wg.Wait\<close> is never called: the function does not wait for the
  goroutine to finish, as the success path does.
\<close>

theorem copy_error_returns_without_waiting:
  "fst (downloadPkgFromRemoteBundle copyFailEnv demoRemoteBundle s0)
     = Inl (External ''connection reset'')
   \<and> Done (EvGoRenderProgressBar ''/tmp/uds'' 100)
       \<in> set (trace (snd (downloadPkgFromRemoteBundle copyFailEnv demoRemoteBundle s0)))
   \<and> Done EvWgWait
       \<notin> set (trace (snd (downloadPkgFromRemoteBundle copyFailEnv demoRemoteBundle s0)))
   \<and> Done (EvChanSend ''errChan'')
       \<in> set (trace (snd (downloadPkgFromRemoteBundle copyFailEnv demoRemoteBundle s0)))"
  by (simp add: copyFailEnv_def refuseCopy_def download_defs)

section \<open>The layers of the published manifest\<close>

lemma failfast_quiet:
  assumes "failfast m" and "m s = (Inr a, s')"
  obtains new where "trace s' = trace s @ new" and "list_all quiet new"
proof -
  from assms(1)[unfolded failfast_def] assms(2)
  obtain new where new: "trace s' = trace s @ new" "stopsAtFailure new (Inr a)" by (rule logsD)
  from new(2) have "list_all quiet new" by (rule stopsAtFailure_Inr)
  with new(1) show ?thesis by (rule that)
qed

lemma bundlePackage_layers:
  assumes "bundlePackage env ref pkg manifest s = (Inr manifest', s')"
  shows "\<exists>d. pushedSubManifest env ref pkg d
           \<and> manifest' = manifest\<lparr>man_Layers := man_Layers manifest
                 @ [d\<lparr>desc_MediaType := MediaTypeImageManifest\<rparr>]\<rparr>"
proof -
  obtain pkgRef where remote: "NewOrasRemote env (pkg_Repository pkg @ '':'' @ pkg_Ref pkg) = Inr pkgRef"
    using assms by (cases "NewOrasRemote env (pkg_Repository pkg @ '':'' @ pkg_Ref pkg)")
                   (auto simp: bundlePackage_def throw_def)
  let ?rest = "\<lambda>root. case jsonMarshalManifest env root of
              Inl msg \<Rightarrow> throw (External msg)
            | Inr manifestBytes \<Rightarrow>
                bind (call (EvPushLayer ref manifestBytes (ZarfLayerMediaTypeBlob env))
                        (PushLayer env ref manifestBytes (ZarfLayerMediaTypeBlob env)))
                  (\<lambda>manifestDesc.
                bind (call (EvLayersFromRequestedComponents pkgRef (pkg_OptionalComponents pkg))
                        (LayersFromRequestedComponents env pkgRef (pkg_OptionalComponents pkg)))
                  (\<lambda>layersFromComponents.
                bind (transferLayers env ref pkgRef root
                        (layersFromComponents @ metadataLayers env root (PackageAlwaysPull env)))
                  (\<lambda>_. return (manifest\<lparr>man_Layers := man_Layers manifest
                         @ [manifestDesc\<lparr>desc_MediaType := MediaTypeImageManifest\<rparr>]\<rparr>))))"
  from assms remote
  have "bind (call (EvFetchRoot pkgRef) (FetchRoot env pkgRef)) ?rest s = (Inr manifest', s')"
    by (simp add: bundlePackage_def)
  then obtain root s1 where fetch: "call (EvFetchRoot pkgRef) (FetchRoot env pkgRef) s = (Inr root, s1)"
      and rest: "?rest root s1 = (Inr manifest', s')"
    by (cases rule: bind_cases) auto
  from fetch have root: "FetchRoot env pkgRef (world s) = (Inr root, world s1)"
    by (cases rule: call_cases) auto
  obtain manifestBytes where bytes: "jsonMarshalManifest env root = Inr manifestBytes"
    using rest by (cases "jsonMarshalManifest env root") (auto simp: throw_def)
  from rest bytes
  have "bind (call (EvPushLayer ref manifestBytes (ZarfLayerMediaTypeBlob env))
                        (PushLayer env ref manifestBytes (ZarfLayerMediaTypeBlob env)))
                  (\<lambda>manifestDesc.
                bind (call (EvLayersFromRequestedComponents pkgRef (pkg_OptionalComponents pkg))
                        (LayersFromRequestedComponents env pkgRef (pkg_OptionalComponents pkg)))
                  (\<lambda>layersFromComponents.
                bind (transferLayers env ref pkgRef root
                        (layersFromComponents @ metadataLayers env root (PackageAlwaysPull env)))
                  (\<lambda>_. return (manifest\<lparr>man_Layers := man_Layers manifest
                         @ [manifestDesc\<lparr>desc_MediaType := MediaTypeImageManifest\<rparr>]\<rparr>)))) s1
          = (Inr manifest', s')" by simp
  then obtain manifestDesc s2 where
      push: "call (EvPushLayer ref manifestBytes (ZarfLayerMediaTypeBlob env))
               (PushLayer env ref manifestBytes (ZarfLayerMediaTypeBlob env)) s1 = (Inr manifestDesc, s2)"
      and rest2: "bind (call (EvLayersFromRequestedComponents pkgRef (pkg_OptionalComponents pkg))
                        (LayersFromRequestedComponents env pkgRef (pkg_OptionalComponents pkg)))
                  (\<lambda>layersFromComponents.
                bind (transferLayers env ref pkgRef root
                        (layersFromComponents @ metadataLayers env root (PackageAlwaysPull env)))
                  (\<lambda>_. return (manifest\<lparr>man_Layers := man_Layers manifest
                         @ [manifestDesc\<lparr>desc_MediaType := MediaTypeImageManifest\<rparr>]\<rparr>))) s2
                = (Inr manifest', s')"
    by (cases rule: bind_cases) auto
  from push have pushed: "PushLayer env ref manifestBytes (ZarfLayerMediaTypeBlob env) (world s1)
      = (Inr manifestDesc, world s2)"
    by (cases rule: call_cases) auto
  from rest2 have final: "manifest' = manifest\<lparr>man_Layers := man_Layers manifest
                         @ [manifestDesc\<lparr>desc_MediaType := MediaTypeImageManifest\<rparr>]\<rparr>"
    by (auto elim!: bind_cases simp: return_def)
  from remote root bytes pushed have "pushedSubManifest env ref pkg manifestDesc"
    unfolding pushedSubManifest_def by blast
  with final show ?thesis by blast
qed

lemma bundlePackages_layers:
  assumes "forEach (bundlePackage env ref) pkgs manifest s = (Inr manifest', s')"
  shows "\<exists>subs. list_all2 (pushedSubManifest env ref) pkgs subs
           \<and> manifest' = manifest\<lparr>man_Layers := man_Layers manifest
                 @ map (\<lambda>d. d\<lparr>desc_MediaType := MediaTypeImageManifest\<rparr>) subs\<rparr>"
  using assms
proof (induction pkgs arbitrary: manifest s)
  case Nil
  then show ?case by simp
next
  case (Cons pkg pkgs)
  from Cons.prems show ?case
  proof (cases rule: forEach_Cons_cases)
    case (failed e)
    then show ?thesis by simp
  next
    case (went_on m1 s1)
    from bundlePackage_layers[OF went_on(1)]
    obtain d where d: "pushedSubManifest env ref pkg d"
        "m1 = manifest\<lparr>man_Layers := man_Layers manifest
                 @ [d\<lparr>desc_MediaType := MediaTypeImageManifest\<rparr>]\<rparr>" by blast
    from Cons.IH[OF went_on(2)]
    obtain subs where subs: "list_all2 (pushedSubManifest env ref) pkgs subs"
        "manifest' = m1\<lparr>man_Layers := man_Layers m1
                 @ map (\<lambda>d. d\<lparr>desc_MediaType := MediaTypeImageManifest\<rparr>) subs\<rparr>" by blast
    from d subs have "list_all2 (pushedSubManifest env ref) (pkg # pkgs) (d # subs)
        \<and> manifest' = manifest\<lparr>man_Layers := man_Layers manifest
                 @ map (\<lambda>d. d\<lparr>desc_MediaType := MediaTypeImageManifest\<rparr>) (d # subs)\<rparr>"
      by simp
    then show ?thesis by blast
  qed
qed

lemma pushSignature_run:
  assumes "pushSignature env ref signature manifest s = (Inr manifest', s')"
  shows "if signature = [] then manifest' = manifest \<and> s' = s
         else (\<exists>sd. PushLayer env ref signature (ZarfLayerMediaTypeBlob env) (world s)
                       = (Inr sd, world s')
                 \<and> trace s' = trace s
                      @ [Done (EvPushLayer ref signature (ZarfLayerMediaTypeBlob env))]
                 \<and> manifest' = manifest\<lparr>man_Layers := man_Layers manifest
                      @ [sd\<lparr>desc_Annotations :=
                             [AnnotationTitle \<mapsto> BundleYAMLSignature env]\<rparr>]\<rparr>)"
proof (cases "signature = []")
  case True
  with assms show ?thesis by (simp add: pushSignature_def return_def)
next
  case False
  with assms
  have "bind (call (EvPushLayer ref signature (ZarfLayerMediaTypeBlob env))
                (PushLayer env ref signature (ZarfLayerMediaTypeBlob env)))
          (\<lambda>bundleYamlSigDesc.
             return (manifest\<lparr>man_Layers := man_Layers manifest
               @ [bundleYamlSigDesc\<lparr>desc_Annotations :=
                    [AnnotationTitle \<mapsto> BundleYAMLSignature env]\<rparr>]\<rparr>)) s = (Inr manifest', s')"
    by (simp add: pushSignature_def)
  then obtain sd s1 where
      push: "call (EvPushLayer ref signature (ZarfLayerMediaTypeBlob env))
                (PushLayer env ref signature (ZarfLayerMediaTypeBlob env)) s = (Inr sd, s1)"
      and ret: "return (manifest\<lparr>man_Layers := man_Layers manifest
               @ [sd\<lparr>desc_Annotations :=
                    [AnnotationTitle \<mapsto> BundleYAMLSignature env]\<rparr>]\<rparr>) s1 = (Inr manifest', s')"
    by (cases rule: bind_cases) auto
  from ret have r: "s1 = s'" "manifest' = manifest\<lparr>man_Layers := man_Layers manifest
               @ [sd\<lparr>desc_Annotations :=
                    [AnnotationTitle \<mapsto> BundleYAMLSignature env]\<rparr>]\<rparr>"
    by (simp_all add: return_def)
  from push r(1) have "PushLayer env ref signature (ZarfLayerMediaTypeBlob env) (world s)
                       = (Inr sd, world s')
         \<and> trace s' = trace s @ [Done (EvPushLayer ref signature (ZarfLayerMediaTypeBlob env))]"
    by (cases rule: call_cases) auto
  with r(2) False show ?thesis by auto
qed

lemma pushBundleManifest_run:
  assumes "pushBundleManifest env ref bundle manifest s = (Inr (), s')"
  shows "\<exists>cfgBytes configDesc w4 b.
           jsonMarshalConfig env (manifestConfig (Metadata bundle) (Build bundle)) = Inr cfgBytes
           \<and> PushLayer env ref cfgBytes MediaTypeImageConfig (world s) = (Inr configDesc, w4)
           \<and> jsonMarshalManifest env
                (manifest\<lparr>man_Config := configDesc, man_SchemaVersion := 2,
                   man_Annotations := manifestAnnotationsFromMetadata (Metadata bundle)\<rparr>) = Inr b
           \<and> PushReference env ref (NewDescriptorFromBytes env MediaTypeImageManifest b) b
                (Reference ref) w4 = (Inr (), world s')
           \<and> trace s' = trace s
               @ [Done (EvPushLayer ref cfgBytes MediaTypeImageConfig),
                  Done (EvPushReference ref
                    (manifest\<lparr>man_Config := configDesc, man_SchemaVersion := 2,
                       man_Annotations := manifestAnnotationsFromMetadata (Metadata bundle)\<rparr>)
                    (NewDescriptorFromBytes env MediaTypeImageManifest b) b (Reference ref))]"
proof -
  from assms obtain configDesc s1 where
      cfg: "pushManifestConfigFromMetadata env ref (Metadata bundle) (Build bundle) s = (Inr configDesc, s1)"
      and rest: "(let manifest' = manifest\<lparr>man_Config := configDesc, man_SchemaVersion := 2,
                                  man_Annotations := manifestAnnotationsFromMetadata (Metadata bundle)\<rparr>
        in case jsonMarshalManifest env manifest' of
             Inl msg \<Rightarrow> throw (External msg)
           | Inr b \<Rightarrow>
               (\<lambda>s. case call (EvPushReference ref manifest'
                                (NewDescriptorFromBytes env MediaTypeImageManifest b) b (Reference ref))
                           (PushReference env ref
                              (NewDescriptorFromBytes env MediaTypeImageManifest b) b (Reference ref)) s of
                       (Inl e, s') \<Rightarrow> (Inl (Wrapf ''failed to push manifest: '' e), s')
                     | (Inr _, s') \<Rightarrow> (Inr (), s'))) s1 = (Inr (), s')"
    unfolding pushBundleManifest_def by (cases rule: bind_cases) auto
  obtain cfgBytes where cb: "jsonMarshalConfig env (manifestConfig (Metadata bundle) (Build bundle)) = Inr cfgBytes"
    using cfg by (cases "jsonMarshalConfig env (manifestConfig (Metadata bundle) (Build bundle))")
                 (auto simp: pushManifestConfigFromMetadata_def throw_def)
  with cfg have "call (EvPushLayer ref cfgBytes MediaTypeImageConfig)
                   (PushLayer env ref cfgBytes MediaTypeImageConfig) s = (Inr configDesc, s1)"
    by (simp add: pushManifestConfigFromMetadata_def)
  then have c1: "PushLayer env ref cfgBytes MediaTypeImageConfig (world s) = (Inr configDesc, world s1)"
      "trace s1 = trace s @ [Done (EvPushLayer ref cfgBytes MediaTypeImageConfig)]"
    by (cases rule: call_cases, auto)+
  let ?m = "manifest\<lparr>man_Config := configDesc, man_SchemaVersion := 2,
                       man_Annotations := manifestAnnotationsFromMetadata (Metadata bundle)\<rparr>"
  obtain b where b: "jsonMarshalManifest env ?m = Inr b"
    using rest by (cases "jsonMarshalManifest env ?m") (auto simp: Let_def throw_def)
  with rest have p: "PushReference env ref (NewDescriptorFromBytes env MediaTypeImageManifest b) b
                (Reference ref) (world s1) = (Inr (), world s')
      \<and> trace s' = trace s1
      @ [Done (EvPushReference ref ?m (NewDescriptorFromBytes env MediaTypeImageManifest b) b (Reference ref))]"
    by (auto simp: Let_def call_def split: prod.splits sum.splits)
  from cb c1 b p have "jsonMarshalConfig env (manifestConfig (Metadata bundle) (Build bundle)) = Inr cfgBytes
           \<and> PushLayer env ref cfgBytes MediaTypeImageConfig (world s) = (Inr configDesc, world s1)
           \<and> jsonMarshalManifest env ?m = Inr b
           \<and> PushReference env ref (NewDescriptorFromBytes env MediaTypeImageManifest b) b
                (Reference ref) (world s1) = (Inr (), world s')
           \<and> trace s' = trace s
               @ [Done (EvPushLayer ref cfgBytes MediaTypeImageConfig),
                  Done (EvPushReference ref ?m
                    (NewDescriptorFromBytes env MediaTypeImageManifest b) b (Reference ref))]"
    by simp
  then show ?thesis by blast
qed

text \<open>
  Claim C7. When \<^verbatim>\<open>Bundle\<close> returns without an error, the last call it made is the push
  of the final manifest under the target reference, and no manifest was pushed before.
  The schema version of that manifest is 2 and its layer list is, in order: one
  descriptor per package of \<^verbatim>\<open>bundle.ZarfPackages\<close>, in the order of that list, each the
  descriptor handed back for the push of that package's serialised root manifest with
  its media type set to the image-manifest media type; then the descriptor that the
  destination handed back for the push of the serialised bundle metadata, titled
  \<^verbatim>\<open>BundleYAML\<close>; then, exactly when the signature is not empty, the descriptor handed
  back for the push of the signature bytes, titled \<^verbatim>\<open>BundleYAMLSignature\<close>. The pushes
  are those of the environment, made one after the other on the world the package loop
  left; the config of the manifest is the descriptor of the pushed config blob; the bytes
  pushed under the reference are the serialisation of that very manifest, and the
  registry accepted them.
\<close>

theorem published_manifest_layers:
  assumes "Bundle env ref bundle signature s = (Inr (), s')"
  shows "\<exists>before manifest expected b subs yamlDesc sigs s1 yamlBytes w2 w3 cfgBytes configDesc w4.
           trace s' = trace s @ before
             @ [Done (EvPushReference ref manifest expected b (Reference ref))]
           \<and> list_all quiet before
           \<and> man_SchemaVersion manifest = 2
           \<and> man_Layers manifest
               = map (\<lambda>d. d\<lparr>desc_MediaType := MediaTypeImageManifest\<rparr>) subs
                 @ [yamlDesc\<lparr>desc_Annotations := [AnnotationTitle \<mapsto> BundleYAML env]\<rparr>]
                 @ map (\<lambda>d. d\<lparr>desc_Annotations :=
                                 [AnnotationTitle \<mapsto> BundleYAMLSignature env]\<rparr>) sigs
           \<and> list_all2 (pushedSubManifest env ref) (ZarfPackages bundle) subs
           \<and> length sigs = (if signature = [] then 0 else 1)
           \<and> forEach (bundlePackage env ref) (ZarfPackages bundle) zeroManifest s
               = (Inr (zeroManifest\<lparr>man_Layers :=
                         map (\<lambda>d. d\<lparr>desc_MediaType := MediaTypeImageManifest\<rparr>) subs\<rparr>), s1)
           \<and> yamlMarshalBundle env bundle = Inr yamlBytes
           \<and> PushLayer env ref yamlBytes (ZarfLayerMediaTypeBlob env) (world s1) = (Inr yamlDesc, w2)
           \<and> (if signature = [] then sigs = [] \<and> w3 = w2
               else (\<exists>sd. sigs = [sd]
                      \<and> PushLayer env ref signature (ZarfLayerMediaTypeBlob env) w2 = (Inr sd, w3)))
           \<and> jsonMarshalConfig env (manifestConfig (Metadata bundle) (Build bundle)) = Inr cfgBytes
           \<and> PushLayer env ref cfgBytes MediaTypeImageConfig w3 = (Inr configDesc, w4)
           \<and> man_Config manifest = configDesc
           \<and> man_Annotations manifest = manifestAnnotationsFromMetadata (Metadata bundle)
           \<and> jsonMarshalManifest env manifest = Inr b
           \<and> expected = NewDescriptorFromBytes env MediaTypeImageManifest b
           \<and> PushReference env ref expected b (Reference ref) w4 = (Inr (), world s')
           \<and> before = drop (length (trace s)) (trace s1)
               @ [Done (EvPushLayer ref yamlBytes (ZarfLayerMediaTypeBlob env))]
               @ map (\<lambda>d. Done (EvPushLayer ref signature (ZarfLayerMediaTypeBlob env))) sigs
               @ [Done (EvPushLayer ref cfgBytes MediaTypeImageConfig)]"
proof -
  have arch: "Architecture (Metadata bundle) \<noteq> []"
    using assms by (auto simp: Bundle_def throw_def)
  let ?tail = "\<lambda>manifest. case yamlMarshalBundle env bundle of
            Inl msg \<Rightarrow> throw (External msg)
          | Inr bundleYamlBytes \<Rightarrow>
              bind (call (EvPushLayer ref bundleYamlBytes (ZarfLayerMediaTypeBlob env))
                      (PushLayer env ref bundleYamlBytes (ZarfLayerMediaTypeBlob env)))
                (\<lambda>bundleYamlDesc.
              bind (pushSignature env ref signature
                      (manifest\<lparr>man_Layers := man_Layers manifest
                         @ [bundleYamlDesc\<lparr>desc_Annotations :=
                              [AnnotationTitle \<mapsto> BundleYAML env]\<rparr>]\<rparr>))
                (pushBundleManifest env ref bundle))"
  from assms arch
  have "bind (forEach (bundlePackage env ref) (ZarfPackages bundle) zeroManifest) ?tail s = (Inr (), s')"
    by (simp add: Bundle_def)
  then obtain m1 s1 where
      loop: "forEach (bundlePackage env ref) (ZarfPackages bundle) zeroManifest s = (Inr m1, s1)"
      and tail: "?tail m1 s1 = (Inr (), s')"
    by (cases rule: bind_cases) auto
  from failfast_forEach[of "bundlePackage env ref", OF failfast_bundlePackage] loop
  obtain n1 where n1: "trace s1 = trace s @ n1" "list_all quiet n1" by (rule failfast_quiet)
  from bundlePackages_layers[OF loop]
  obtain subs where subs: "list_all2 (pushedSubManifest env ref) (ZarfPackages bundle) subs"
      "m1 = zeroManifest\<lparr>man_Layers := man_Layers zeroManifest
                 @ map (\<lambda>d. d\<lparr>desc_MediaType := MediaTypeImageManifest\<rparr>) subs\<rparr>" by blast
  from subs(2) have m1: "m1 = zeroManifest\<lparr>man_Layers :=
                         map (\<lambda>d. d\<lparr>desc_MediaType := MediaTypeImageManifest\<rparr>) subs\<rparr>"
    by (simp add: zeroManifest_def)
  obtain yamlBytes where yb: "yamlMarshalBundle env bundle = Inr yamlBytes"
    using tail by (cases "yamlMarshalBundle env bundle") (auto simp: throw_def)
  let ?m2 = "\<lambda>bundleYamlDesc. m1\<lparr>man_Layers := man_Layers m1
                         @ [bundleYamlDesc\<lparr>desc_Annotations :=
                              [AnnotationTitle \<mapsto> BundleYAML env]\<rparr>]\<rparr>"
  from tail yb
  have "bind (call (EvPushLayer ref yamlBytes (ZarfLayerMediaTypeBlob env))
                      (PushLayer env ref yamlBytes (ZarfLayerMediaTypeBlob env)))
                (\<lambda>bundleYamlDesc.
              bind (pushSignature env ref signature (?m2 bundleYamlDesc))
                (pushBundleManifest env ref bundle)) s1 = (Inr (), s')" by simp
  then obtain yamlDesc s2 where
      push: "call (EvPushLayer ref yamlBytes (ZarfLayerMediaTypeBlob env))
               (PushLayer env ref yamlBytes (ZarfLayerMediaTypeBlob env)) s1 = (Inr yamlDesc, s2)"
      and tail2: "bind (pushSignature env ref signature (?m2 yamlDesc))
                (pushBundleManifest env ref bundle) s2 = (Inr (), s')"
    by (cases rule: bind_cases) auto
  from push have n2: "trace s2 = trace s1 @ [Done (EvPushLayer ref yamlBytes (ZarfLayerMediaTypeBlob env))]"
      and p2: "PushLayer env ref yamlBytes (ZarfLayerMediaTypeBlob env) (world s1) = (Inr yamlDesc, world s2)"
    by (cases rule: call_cases, auto)+
  from tail2 obtain m3 s3 where
      sign: "pushSignature env ref signature (?m2 yamlDesc) s2 = (Inr m3, s3)"
      and final: "pushBundleManifest env ref bundle m3 s3 = (Inr (), s')"
    by (cases rule: bind_cases) auto
  from pushSignature_run[OF sign]
  obtain sigs where sigs:
      "if signature = [] then sigs = [] \<and> world s3 = world s2
       else (\<exists>sd. sigs = [sd]
              \<and> PushLayer env ref signature (ZarfLayerMediaTypeBlob env) (world s2) = (Inr sd, world s3))"
      "trace s3 = trace s2
         @ map (\<lambda>d. Done (EvPushLayer ref signature (ZarfLayerMediaTypeBlob env))) sigs"
      "m3 = (?m2 yamlDesc)\<lparr>man_Layers := man_Layers (?m2 yamlDesc)
                 @ map (\<lambda>d. d\<lparr>desc_Annotations := [AnnotationTitle \<mapsto> BundleYAMLSignature env]\<rparr>) sigs\<rparr>"
      "length sigs = (if signature = [] then 0 else 1)"
  proof (cases "signature = []")
    case True
    with pushSignature_run[OF sign] have "m3 = ?m2 yamlDesc" "s3 = s2" by simp_all
    with True that[of "[]"] show ?thesis by simp
  next
    case False
    with pushSignature_run[OF sign] obtain sd where
      "PushLayer env ref signature (ZarfLayerMediaTypeBlob env) (world s2) = (Inr sd, world s3)"
      "trace s3 = trace s2 @ [Done (EvPushLayer ref signature (ZarfLayerMediaTypeBlob env))]"
      "m3 = (?m2 yamlDesc)\<lparr>man_Layers := man_Layers (?m2 yamlDesc)
                      @ [sd\<lparr>desc_Annotations :=
                             [AnnotationTitle \<mapsto> BundleYAMLSignature env]\<rparr>]\<rparr>"
      by auto
    with False that[of "[sd]"] show ?thesis by simp
  qed
  from pushBundleManifest_run[OF final]
  obtain cfgBytes configDesc w4 b where fin:
      "jsonMarshalConfig env (manifestConfig (Metadata bundle) (Build bundle)) = Inr cfgBytes"
      "PushLayer env ref cfgBytes MediaTypeImageConfig (world s3) = (Inr configDesc, w4)"
      "jsonMarshalManifest env
                (m3\<lparr>man_Config := configDesc, man_SchemaVersion := 2,
                   man_Annotations := manifestAnnotationsFromMetadata (Metadata bundle)\<rparr>) = Inr b"
      "PushReference env ref (NewDescriptorFromBytes env MediaTypeImageManifest b) b
                (Reference ref) w4 = (Inr (), world s')"
      "trace s' = trace s3
               @ [Done (EvPushLayer ref cfgBytes MediaTypeImageConfig),
                  Done (EvPushReference ref
                    (m3\<lparr>man_Config := configDesc, man_SchemaVersion := 2,
                       man_Annotations := manifestAnnotationsFromMetadata (Metadata bundle)\<rparr>)
                    (NewDescriptorFromBytes env MediaTypeImageManifest b) b (Reference ref))]"
    by blast
  let ?final = "m3\<lparr>man_Config := configDesc, man_SchemaVersion := 2,
                       man_Annotations := manifestAnnotationsFromMetadata (Metadata bundle)\<rparr>"
  let ?before = "drop (length (trace s)) (trace s1)
               @ [Done (EvPushLayer ref yamlBytes (ZarfLayerMediaTypeBlob env))]
               @ map (\<lambda>d. Done (EvPushLayer ref signature (ZarfLayerMediaTypeBlob env))) sigs
               @ [Done (EvPushLayer ref cfgBytes MediaTypeImageConfig)]"
  have d: "drop (length (trace s)) (trace s1) = n1" using n1(1) by simp
  have q: "list_all quiet ?before"
    using n1(2) d by (auto simp: quiet_def isPushReference_def list_all_iff)
  have t: "trace s' = trace s @ ?before
             @ [Done (EvPushReference ref ?final
                  (NewDescriptorFromBytes env MediaTypeImageManifest b) b (Reference ref))]"
    using n1(1) n2 sigs(2) fin(5) d by simp
  have layers: "man_Layers ?final
               = map (\<lambda>d. d\<lparr>desc_MediaType := MediaTypeImageManifest\<rparr>) subs
                 @ [yamlDesc\<lparr>desc_Annotations := [AnnotationTitle \<mapsto> BundleYAML env]\<rparr>]
                 @ map (\<lambda>d. d\<lparr>desc_Annotations :=
                                 [AnnotationTitle \<mapsto> BundleYAMLSignature env]\<rparr>) sigs"
    using m1 sigs(3) by simp
  have all: "trace s' = trace s @ ?before
             @ [Done (EvPushReference ref ?final
                  (NewDescriptorFromBytes env MediaTypeImageManifest b) b (Reference ref))]
           \<and> list_all quiet ?before
           \<and> man_SchemaVersion ?final = 2
           \<and> man_Layers ?final
               = map (\<lambda>d. d\<lparr>desc_MediaType := MediaTypeImageManifest\<rparr>) subs
                 @ [yamlDesc\<lparr>desc_Annotations := [AnnotationTitle \<mapsto> BundleYAML env]\<rparr>]
                 @ map (\<lambda>d. d\<lparr>desc_Annotations :=
                                 [AnnotationTitle \<mapsto> BundleYAMLSignature env]\<rparr>) sigs
           \<and> list_all2 (pushedSubManifest env ref) (ZarfPackages bundle) subs
           \<and> length sigs = (if signature = [] then 0 else 1)
           \<and> forEach (bundlePackage env ref) (ZarfPackages bundle) zeroManifest s
               = (Inr (zeroManifest\<lparr>man_Layers :=
                         map (\<lambda>d. d\<lparr>desc_MediaType := MediaTypeImageManifest\<rparr>) subs\<rparr>), s1)
           \<and> yamlMarshalBundle env bundle = Inr yamlBytes
           \<and> PushLayer env ref yamlBytes (ZarfLayerMediaTypeBlob env) (world s1)
               = (Inr yamlDesc, world s2)
           \<and> (if signature = [] then sigs = [] \<and> world s3 = world s2
               else (\<exists>sd. sigs = [sd]
                      \<and> PushLayer env ref signature (ZarfLayerMediaTypeBlob env) (world s2)
                          = (Inr sd, world s3)))
           \<and> jsonMarshalConfig env (manifestConfig (Metadata bundle) (Build bundle)) = Inr cfgBytes
           \<and> PushLayer env ref cfgBytes MediaTypeImageConfig (world s3) = (Inr configDesc, w4)
           \<and> man_Config ?final = configDesc
           \<and> man_Annotations ?final = manifestAnnotationsFromMetadata (Metadata bundle)
           \<and> jsonMarshalManifest env ?final = Inr b
           \<and> NewDescriptorFromBytes env MediaTypeImageManifest b
               = NewDescriptorFromBytes env MediaTypeImageManifest b
           \<and> PushReference env ref (NewDescriptorFromBytes env MediaTypeImageManifest b) b
               (Reference ref) w4 = (Inr (), world s')
           \<and> ?before = ?before"
    using t q layers subs(1) sigs(4) loop m1 yb p2 sigs(1) fin(1) fin(2) fin(3) fin(4)
    by simp
  show ?thesis
    by (rule exI[of _ ?before], rule exI[of _ ?final],
        rule exI[of _ "NewDescriptorFromBytes env MediaTypeImageManifest b"], rule exI[of _ b],
        rule exI[of _ subs], rule exI[of _ yamlDesc], rule exI[of _ sigs], rule exI[of _ s1],
        rule exI[of _ yamlBytes], rule exI[of _ "world s2"], rule exI[of _ "world s3"],
        rule exI[of _ cfgBytes], rule exI[of _ configDesc], rule exI[of _ w4])
       (rule all)
qed

lemma demo_Bundle_signed: "fst (Bundle demoEnv bundleRef demoBundle [7] s0) = Inr ()"
  by (simp add: model_defs demo_defs)

theorem published_manifest_layers_witness:
  "fst (Bundle demoEnv bundleRef demoBundle [7] s0) = Inr ()
   \<and> (\<exists>before manifest expected b subs yamlDesc sigs yamlBytes w2 w3.
           trace (snd (Bundle demoEnv bundleRef demoBundle [7] s0)) = trace s0 @ before
             @ [Done (EvPushReference bundleRef manifest expected b (Reference bundleRef))]
           \<and> man_SchemaVersion manifest = 2
           \<and> man_Layers manifest
               = map (\<lambda>d. d\<lparr>desc_MediaType := MediaTypeImageManifest\<rparr>) subs
                 @ [yamlDesc\<lparr>desc_Annotations := [AnnotationTitle \<mapsto> BundleYAML demoEnv]\<rparr>]
                 @ map (\<lambda>d. d\<lparr>desc_Annotations :=
                                 [AnnotationTitle \<mapsto> BundleYAMLSignature demoEnv]\<rparr>) sigs
           \<and> length subs = 1 \<and> length sigs = 1
           \<and> yamlMarshalBundle demoEnv demoBundle = Inr yamlBytes
           \<and> (\<exists>sd. sigs = [sd]
                 \<and> PushLayer demoEnv bundleRef [7] (ZarfLayerMediaTypeBlob demoEnv) w2 = (Inr sd, w3))
           \<and> jsonMarshalManifest demoEnv manifest = Inr b)"
proof -
  have run: "Bundle demoEnv bundleRef demoBundle [7] s0
      = (Inr (), snd (Bundle demoEnv bundleRef demoBundle [7] s0))"
    using demo_Bundle_signed by (metis prod.collapse)
  have pkgs: "length (ZarfPackages demoBundle) = 1" by (simp add: demoBundle_def)
  have signed: "([7] :: bytes) \<noteq> []" by simp
  from published_manifest_layers[OF run]
  obtain before manifest expected b subs yamlDesc sigs s1 yamlBytes w2 w3 cfgBytes configDesc w4
    where
    w: "trace (snd (Bundle demoEnv bundleRef demoBundle [7] s0)) = trace s0 @ before
             @ [Done (EvPushReference bundleRef manifest expected b (Reference bundleRef))]"
       "man_SchemaVersion manifest = 2"
       "man_Layers manifest
               = map (\<lambda>d. d\<lparr>desc_MediaType := MediaTypeImageManifest\<rparr>) subs
                 @ [yamlDesc\<lparr>desc_Annotations := [AnnotationTitle \<mapsto> BundleYAML demoEnv]\<rparr>]
                 @ map (\<lambda>d. d\<lparr>desc_Annotations :=
                                 [AnnotationTitle \<mapsto> BundleYAMLSignature demoEnv]\<rparr>) sigs"
       "list_all2 (pushedSubManifest demoEnv bundleRef) (ZarfPackages demoBundle) subs"
       "length sigs = (if ([7] :: bytes) = [] then 0 else 1)"
       "yamlMarshalBundle demoEnv demoBundle = Inr yamlBytes"
       "if ([7] :: bytes) = [] then sigs = [] \<and> w3 = w2
        else (\<exists>sd. sigs = [sd]
               \<and> PushLayer demoEnv bundleRef [7] (ZarfLayerMediaTypeBlob demoEnv) w2 = (Inr sd, w3))"
       "jsonMarshalManifest demoEnv manifest = Inr b"
    by (elim exE conjE)
  from w(4) pkgs have one: "length subs = 1" by (simp add: list_all2_lengthD[symmetric])
  from w(5) have sig1: "length sigs = 1" by simp
  from w(7) signed have pushed: "\<exists>sd. sigs = [sd]
       \<and> PushLayer demoEnv bundleRef [7] (ZarfLayerMediaTypeBlob demoEnv) w2 = (Inr sd, w3)"
    by simp
  from w(1,2,3,6,8) one sig1 pushed
  have "\<exists>before manifest expected b subs yamlDesc sigs yamlBytes w2 w3.
           trace (snd (Bundle demoEnv bundleRef demoBundle [7] s0)) = trace s0 @ before
             @ [Done (EvPushReference bundleRef manifest expected b (Reference bundleRef))]
           \<and> man_SchemaVersion manifest = 2
           \<and> man_Layers manifest
               = map (\<lambda>d. d\<lparr>desc_MediaType := MediaTypeImageManifest\<rparr>) subs
                 @ [yamlDesc\<lparr>desc_Annotations := [AnnotationTitle \<mapsto> BundleYAML demoEnv]\<rparr>]
                 @ map (\<lambda>d. d\<lparr>desc_Annotations :=
                                 [AnnotationTitle \<mapsto> BundleYAMLSignature demoEnv]\<rparr>) sigs
           \<and> length subs = 1 \<and> length sigs = 1
           \<and> yamlMarshalBundle demoEnv demoBundle = Inr yamlBytes
           \<and> (\<exists>sd. sigs = [sd]
                 \<and> PushLayer demoEnv bundleRef [7] (ZarfLayerMediaTypeBlob demoEnv) w2 = (Inr sd, w3))
           \<and> jsonMarshalManifest demoEnv manifest = Inr b"
    by blast
  with demo_Bundle_signed show ?thesis by blast
qed

end
